theory Spec2Isabelle
  imports Complex_Main
begin

section \<open>Exceptions\<close>

text \<open>
  Every exception class the sources raise or catch is a constructor.  \<open>IntegrityError\<close>
  and \<open>OperationalError\<close> stand for the two families of \<^verbatim>\<open>sqlalchemy.exc\<close>
  errors the store can signal (a violated constraint, anything else); both carry the text
  that \<^verbatim>\<open>str(e)\<close> yields.  \<open>HTTPException\<close> carries the status code and the
  \<^verbatim>\<open>detail\<close> string.
\<close>

datatype exn =
    IntegrityError string
  | OperationalError string
  | ZeroDivisionError
  | OverflowError
  | EventDuplicateError string
  | CoworkingError string
  | HTTPException nat string

fun exn_str :: \<open>exn \<Rightarrow> string\<close> where
  \<open>exn_str (IntegrityError m) = m\<close>
| \<open>exn_str (OperationalError m) = m\<close>
| \<open>exn_str ZeroDivisionError = ''division by zero''\<close>
| \<open>exn_str OverflowError = ''integer division result too large for a float''\<close>
| \<open>exn_str (EventDuplicateError m) = m\<close>
| \<open>exn_str (CoworkingError m) = m\<close>
| \<open>exn_str (HTTPException c d) = d\<close>

section \<open>Python's float arithmetic\<close>

text \<open>
  \<^verbatim>\<open>_update_occupancy\<close> computes
  \<^verbatim>\<open>min(int((booking_count / max_bookings) * 100), 100)\<close>: a true division of two
  ints, a float product and a truncation.  Python floats are IEEE 754 binary64 numbers, so
  both operations round their exact result to 53 significant bits, ties to even.  A finite
  double is represented by the rational it denotes.
\<close>

fun bit_length :: \<open>nat \<Rightarrow> nat\<close> where
  \<open>bit_length n = (if n = 0 then 0 else Suc (bit_length (n div 2)))\<close>

declare bit_length.simps [simp del]

text \<open>The exponent \<open>e\<close> with \<open>2\<^sup>e \<le> a < 2\<^sup>e\<^sup>+\<^sup>1\<close>, for positive \<open>a\<close>.\<close>

definition binade :: \<open>rat \<Rightarrow> int\<close> where
  \<open>binade a = (if 1 \<le> a then int (bit_length (nat \<lfloor>a\<rfloor>)) - 1
               else - int (bit_length (nat (\<lceil>1 / a\<rceil> - 1))))\<close>

definition round_half_even :: \<open>rat \<Rightarrow> int\<close> where
  \<open>round_half_even q =
     (let f = \<lfloor>q\<rfloor>; r = q - of_int f
      in if r < 1 / 2 then f
         else if 1 / 2 < r then f + 1
         else if even f then f else f + 1)\<close>

text \<open>
  Rounding to the nearest double: the unit in the last place is \<open>2\<^sup>e\<^sup>-\<^sup>5\<^sup>2\<close>, where the
  exponent is not allowed below that of the smallest normal number.
\<close>

definition round_double :: \<open>rat \<Rightarrow> rat\<close> where
  \<open>round_double x =
     (if x = 0 then 0
      else let a = \<bar>x\<bar>;
               e = max (binade a) (- 1022);
               ulp = 2 powi (e - 52)
           in sgn x * of_int (round_half_even (a / ulp)) * ulp)\<close>

definition double_limit :: rat where
  \<open>double_limit = 2 ^ 1024\<close>

datatype pyfloat = Finite rat | Infinity bool

text \<open>\<^verbatim>\<open>a / b\<close> on ints: the correctly rounded quotient, or an exception.\<close>

definition py_truediv :: \<open>int \<Rightarrow> int \<Rightarrow> exn + rat\<close> where
  \<open>py_truediv a b =
     (if b = 0 then Inl ZeroDivisionError
      else let r = round_double (of_int a / of_int b)
           in if double_limit \<le> \<bar>r\<bar> then Inl OverflowError else Inr r)\<close>

text \<open>\<^verbatim>\<open>x * y\<close> on finite floats: overflow gives an infinity, not an exception.\<close>

definition float_mul :: \<open>rat \<Rightarrow> rat \<Rightarrow> pyfloat\<close> where
  \<open>float_mul x y =
     (let r = round_double (x * y)
      in if double_limit \<le> \<bar>r\<bar> then Infinity (r < 0) else Finite r)\<close>

text \<open>\<^verbatim>\<open>int(f)\<close> truncates towards zero and refuses an infinity.\<close>

definition py_int :: \<open>pyfloat \<Rightarrow> exn + int\<close> where
  \<open>py_int f = (case f of
       Infinity _ \<Rightarrow> Inl OverflowError
     | Finite x \<Rightarrow> Inr (if 0 \<le> x then \<lfloor>x\<rfloor> else \<lceil>x\<rceil>))\<close>

definition max_bookings :: int where
  \<open>max_bookings = 10\<close>

definition occupancy_percentage :: \<open>int \<Rightarrow> exn + int\<close> where
  \<open>occupancy_percentage booking_count =
     (case py_truediv booking_count max_bookings of
        Inl e \<Rightarrow> Inl e
      | Inr q \<Rightarrow> (case py_int (float_mul q 100) of
            Inl e \<Rightarrow> Inl e
          | Inr p \<Rightarrow> Inr (min p 100)))\<close>

section \<open>The relational store\<close>

type_synonym uuid = nat
type_synonym timestamp = nat
type_synonym pydate = nat

text \<open>A \<^verbatim>\<open>datetime\<close> value; \<open>dt_utcoffset\<close> is \<open>None\<close> for a naive one.\<close>

record pydatetime =
  dt_year :: int
  dt_month :: int
  dt_day :: int
  dt_hour :: int
  dt_minute :: int
  dt_second :: int
  dt_microsecond :: int
  dt_utcoffset :: \<open>int option\<close>

text \<open>One record per table of \<^verbatim>\<open>persistent/tables.py\<close>, one field per column.\<close>

record event_row =
  ev_id :: uuid
  ev_title :: string
  ev_description :: string
  ev_short_description :: string
  ev_start_date :: pydatetime
  ev_location :: string
  ev_image_path :: \<open>string option\<close>
  ev_created_at :: timestamp
  ev_updated_at :: timestamp

record organizer_row =
  org_id :: uuid
  org_name :: string
  org_description :: \<open>string option\<close>
  org_image_path :: \<open>string option\<close>
  org_created_at :: timestamp
  org_updated_at :: timestamp

record event_organizer_row =
  eo_event_id :: uuid
  eo_organizer_id :: uuid

record event_registration_row =
  reg_id :: uuid
  reg_event_id :: uuid
  reg_participant_name :: string
  reg_participant_email :: string
  reg_participant_phone :: \<open>string option\<close>
  reg_registration_date :: timestamp
  reg_created_at :: timestamp
  reg_updated_at :: timestamp

record coworking_space_row =
  cs_id :: uuid
  cs_name :: string
  cs_description :: string
  cs_location :: string
  cs_image_path :: \<open>string option\<close>
  cs_created_at :: timestamp
  cs_updated_at :: timestamp

record coworking_booking_row =
  cb_id :: uuid
  cb_coworking_id :: uuid
  cb_booking_date :: pydate
  cb_customer_name :: string
  cb_customer_phone :: string
  cb_created_at :: timestamp
  cb_updated_at :: timestamp

record coworking_occupancy_row =
  co_id :: uuid
  co_coworking_id :: uuid
  co_date :: pydate
  co_occupancy_percentage :: int
  co_created_at :: timestamp
  co_updated_at :: timestamp

record database =
  event :: \<open>event_row list\<close>
  organizer :: \<open>organizer_row list\<close>
  event_organizer :: \<open>event_organizer_row list\<close>
  event_registration :: \<open>event_registration_row list\<close>
  coworking_space :: \<open>coworking_space_row list\<close>
  coworking_booking :: \<open>coworking_booking_row list\<close>
  coworking_occupancy :: \<open>coworking_occupancy_row list\<close>

definition empty_database :: database where
  \<open>empty_database = \<lparr> event = [], organizer = [], event_organizer = [],
     event_registration = [], coworking_space = [], coworking_booking = [],
     coworking_occupancy = [] \<rparr>\<close>

subsection \<open>Constraints of the schema\<close>

text \<open>
  The text of the server's messages for a violated unique or foreign-key constraint
  (PostgreSQL, English messages).  Constraints the schema does not name carry the
  server's default names.
\<close>

definition unique_violation :: \<open>string \<Rightarrow> exn\<close> where
  \<open>unique_violation name =
     IntegrityError (''duplicate key value violates unique constraint "'' @ name @ ''"'')\<close>

definition foreign_key_violation :: \<open>string \<Rightarrow> string \<Rightarrow> exn\<close> where
  \<open>foreign_key_violation tbl name =
     IntegrityError (''insert or update on table "'' @ tbl
        @ ''" violates foreign key constraint "'' @ name @ ''"'')\<close>

definition insert_event :: \<open>event_row \<Rightarrow> database \<Rightarrow> exn + database\<close> where
  \<open>insert_event r d =
     (if ev_id r \<in> ev_id ` set (event d) then Inl (unique_violation ''event_pkey'')
      else if \<exists>e \<in> set (event d). ev_title e = ev_title r \<and> ev_start_date e = ev_start_date r
        then Inl (unique_violation ''uq_event_title_start_date'')
      else Inr (d\<lparr>event := event d @ [r]\<rparr>))\<close>

definition insert_organizer :: \<open>organizer_row \<Rightarrow> database \<Rightarrow> exn + database\<close> where
  \<open>insert_organizer r d =
     (if org_id r \<in> org_id ` set (organizer d) then Inl (unique_violation ''organizer_pkey'')
      else Inr (d\<lparr>organizer := organizer d @ [r]\<rparr>))\<close>

definition insert_event_organizer :: \<open>event_organizer_row \<Rightarrow> database \<Rightarrow> exn + database\<close> where
  \<open>insert_event_organizer r d =
     (if r \<in> set (event_organizer d) then Inl (unique_violation ''event_organizer_pkey'')
      else if eo_event_id r \<notin> ev_id ` set (event d)
        then Inl (foreign_key_violation ''event_organizer'' ''event_organizer_event_id_fkey'')
      else if eo_organizer_id r \<notin> org_id ` set (organizer d)
        then Inl (foreign_key_violation ''event_organizer'' ''event_organizer_organizer_id_fkey'')
      else Inr (d\<lparr>event_organizer := event_organizer d @ [r]\<rparr>))\<close>

definition insert_coworking_booking :: \<open>coworking_booking_row \<Rightarrow> database \<Rightarrow> exn + database\<close> where
  \<open>insert_coworking_booking r d =
     (if cb_id r \<in> cb_id ` set (coworking_booking d)
        then Inl (unique_violation ''coworking_booking_pkey'')
      else if cb_coworking_id r \<notin> cs_id ` set (coworking_space d)
        then Inl (foreign_key_violation ''coworking_booking'' ''coworking_booking_coworking_id_fkey'')
      else Inr (d\<lparr>coworking_booking := coworking_booking d @ [r]\<rparr>))\<close>

definition insert_coworking_occupancy ::
  \<open>coworking_occupancy_row \<Rightarrow> database \<Rightarrow> exn + database\<close> where
  \<open>insert_coworking_occupancy r d =
     (if co_id r \<in> co_id ` set (coworking_occupancy d)
        then Inl (unique_violation ''coworking_occupancy_pkey'')
      else if co_coworking_id r \<notin> cs_id ` set (coworking_space d)
        then Inl (foreign_key_violation ''coworking_occupancy''
                    ''coworking_occupancy_coworking_id_fkey'')
      else Inr (d\<lparr>coworking_occupancy := coworking_occupancy d @ [r]\<rparr>))\<close>

text \<open>Deletes cascade along the foreign keys declared \<^verbatim>\<open>ondelete="CASCADE"\<close>.\<close>

definition delete_event_rows :: \<open>uuid \<Rightarrow> database \<Rightarrow> database\<close> where
  \<open>delete_event_rows i d =
     d\<lparr>event := filter (\<lambda>e. ev_id e \<noteq> i) (event d),
       event_organizer := filter (\<lambda>l. eo_event_id l \<noteq> i) (event_organizer d),
       event_registration := filter (\<lambda>r. reg_event_id r \<noteq> i) (event_registration d)\<rparr>\<close>

definition delete_organizer_rows :: \<open>uuid \<Rightarrow> database \<Rightarrow> database\<close> where
  \<open>delete_organizer_rows i d =
     d\<lparr>organizer := filter (\<lambda>r. org_id r \<noteq> i) (organizer d),
       event_organizer := filter (\<lambda>l. eo_organizer_id l \<noteq> i) (event_organizer d)\<rparr>\<close>

definition delete_coworking_space_rows :: \<open>uuid \<Rightarrow> database \<Rightarrow> database\<close> where
  \<open>delete_coworking_space_rows i d =
     d\<lparr>coworking_space := filter (\<lambda>s. cs_id s \<noteq> i) (coworking_space d),
       coworking_booking := filter (\<lambda>b. cb_coworking_id b \<noteq> i) (coworking_booking d),
       coworking_occupancy := filter (\<lambda>r. co_coworking_id r \<noteq> i) (coworking_occupancy d)\<rparr>\<close>

section \<open>Sessions, statements and transactions\<close>

text \<open>
  What the program cannot decide is the environment: which statement the store refuses
  and with which error (\<open>fault_at\<close>, indexed by the number of statements sent so far), the values
  \<^verbatim>\<open>uuid4()\<close> and \<^verbatim>\<open>datetime.now()\<close> return, the form in which the store
  keeps a \<^verbatim>\<open>timestamptz\<close> value and hands it back, and the key by which it orders
  such values.
\<close>

datatype store_error = Integrity string | Operational string

fun store_exn :: \<open>store_error \<Rightarrow> exn\<close> where
  \<open>store_exn (Integrity m) = IntegrityError m\<close>
| \<open>store_exn (Operational m) = OperationalError m\<close>

record env =
  fault_at :: \<open>nat \<Rightarrow> store_error option\<close>
  uuid_at :: \<open>nat \<Rightarrow> uuid\<close>
  now_at :: \<open>nat \<Rightarrow> timestamp\<close>
  store_timestamp :: \<open>pydatetime \<Rightarrow> pydatetime\<close>
  timestamp_order :: \<open>pydatetime \<Rightarrow> int\<close>

datatype stmt =
    Select string | Insert string | Update string | Delete string | Commit | Rollback

text \<open>
  The state threaded through the program: the tables, the statements sent so far, how
  many ids and clock readings have been drawn, and what \<^verbatim>\<open>logger\<close> has written
  (level and message).
\<close>

record world =
  tables :: database
  trace :: \<open>stmt list\<close>
  uuids_drawn :: nat
  clock_reads :: nat
  log_records :: \<open>(string \<times> string) list\<close>

type_synonym 'a io = \<open>world \<Rightarrow> (exn + 'a) \<times> world\<close>

definition return_io :: \<open>'a \<Rightarrow> 'a io\<close> where
  \<open>return_io a w = (Inr a, w)\<close>

definition raise_io :: \<open>exn \<Rightarrow> 'a io\<close> where
  \<open>raise_io e w = (Inl e, w)\<close>

definition bind_io :: \<open>'a io \<Rightarrow> ('a \<Rightarrow> 'b io) \<Rightarrow> 'b io\<close> where
  \<open>bind_io m f w = (case m w of (Inl e, w') \<Rightarrow> (Inl e, w') | (Inr a, w') \<Rightarrow> f a w')\<close>

text \<open>\<^verbatim>\<open>try: m except Exception as e: h(e)\<close>\<close>

definition try_except :: \<open>'a io \<Rightarrow> (exn \<Rightarrow> 'a io) \<Rightarrow> 'a io\<close> where
  \<open>try_except m h w = (case m w of (Inl e, w') \<Rightarrow> h e w' | (Inr a, w') \<Rightarrow> (Inr a, w'))\<close>

definition lift_py :: \<open>exn + 'a \<Rightarrow> 'a io\<close> where
  \<open>lift_py r w = (r, w)\<close>

definition logger :: \<open>string \<Rightarrow> string \<Rightarrow> unit io\<close> where
  \<open>logger level message w = (Inr (), w\<lparr>log_records := log_records w @ [(level, message)]\<rparr>)\<close>

definition uuid4 :: \<open>env \<Rightarrow> uuid io\<close> where
  \<open>uuid4 E w = (Inr (uuid_at E (uuids_drawn w)), w\<lparr>uuids_drawn := Suc (uuids_drawn w)\<rparr>)\<close>

definition datetime_now :: \<open>env \<Rightarrow> timestamp io\<close> where
  \<open>datetime_now E w = (Inr (now_at E (clock_reads w)), w\<lparr>clock_reads := Suc (clock_reads w)\<rparr>)\<close>

text \<open>
  \<^verbatim>\<open>await session.execute(st)\<close>: the statement is recorded; it fails if the environment
  says so or if the store rejects it, and otherwise acts on the tables.
\<close>

definition execute :: \<open>env \<Rightarrow> stmt \<Rightarrow> (database \<Rightarrow> exn + 'a \<times> database) \<Rightarrow> 'a io\<close> where
  \<open>execute E st act w =
     (let w1 = w\<lparr>trace := trace w @ [st]\<rparr>
      in case fault_at E (length (trace w)) of
           Some e \<Rightarrow> (Inl (store_exn e), w1)
         | None \<Rightarrow> (case act (tables w) of
               Inl e \<Rightarrow> (Inl e, w1)
             | Inr (a, d) \<Rightarrow> (Inr a, w1\<lparr>tables := d\<rparr>)))\<close>

definition query :: \<open>env \<Rightarrow> string \<Rightarrow> (database \<Rightarrow> 'a) \<Rightarrow> 'a io\<close> where
  \<open>query E tbl f = execute E (Select tbl) (\<lambda>d. Inr (f d, d))\<close>

definition modify :: \<open>env \<Rightarrow> stmt \<Rightarrow> (database \<Rightarrow> database) \<Rightarrow> unit io\<close> where
  \<open>modify E st f = execute E st (\<lambda>d. Inr ((), f d))\<close>

definition alter :: \<open>env \<Rightarrow> stmt \<Rightarrow> (database \<Rightarrow> exn + database) \<Rightarrow> unit io\<close> where
  \<open>alter E st f =
     execute E st (\<lambda>d. case f d of Inl e \<Rightarrow> Inl e | Inr d' \<Rightarrow> Inr ((), d'))\<close>

definition insert_into :: \<open>env \<Rightarrow> string \<Rightarrow> (database \<Rightarrow> exn + database) \<Rightarrow> unit io\<close> where
  \<open>insert_into E tbl ins = alter E (Insert tbl) ins\<close>

text \<open>
  \<^verbatim>\<open>async with session.begin(): body\<close>: the body's writes are committed when it ends
  normally; when the body or the commit raises, the tables are those from before the block
  and the exception goes on.  \<^verbatim>\<open>get_session\<close> adds nothing: it rolls back again and
  re-raises.
\<close>

definition session_begin :: \<open>env \<Rightarrow> 'a io \<Rightarrow> 'a io\<close> where
  \<open>session_begin E body w =
     (case body w of
        (Inl e, w') \<Rightarrow> (Inl e, w'\<lparr>tables := tables w, trace := trace w' @ [Rollback]\<rparr>)
      | (Inr a, w') \<Rightarrow>
          (case fault_at E (length (trace w')) of
             Some e \<Rightarrow> (Inl (store_exn e),
                        w'\<lparr>tables := tables w, trace := trace w' @ [Commit, Rollback]\<rparr>)
           | None \<Rightarrow> (Inr a, w'\<lparr>trace := trace w' @ [Commit]\<rparr>)))\<close>

section \<open>\<^verbatim>\<open>repository/coworking_repository.py\<close>\<close>

definition CoworkingRepository_get_coworking_by_id :: \<open>env \<Rightarrow> uuid \<Rightarrow> (coworking_space_row option \<times> bool) io\<close> where
  \<open>CoworkingRepository_get_coworking_by_id E coworking_id =
     bind_io (query E ''coworking_space''
                (\<lambda>d. find (\<lambda>s. cs_id s = coworking_id) (coworking_space d)))
       (\<lambda>coworking_data. case coworking_data of
            Some r \<Rightarrow> return_io (Some r, True)
          | None \<Rightarrow> return_io (None, False))\<close>

definition CoworkingRepository_update_coworking_space ::
  \<open>env \<Rightarrow> uuid \<Rightarrow> string option \<Rightarrow> string option \<Rightarrow> string option \<Rightarrow> string option \<Rightarrow> bool io\<close>
where
  \<open>CoworkingRepository_update_coworking_space E coworking_id name description location image_path =
     bind_io (session_begin E
       (bind_io (datetime_now E) (\<lambda>t.
          modify E (Update ''coworking_space'')
            (\<lambda>d. d\<lparr>coworking_space := map (\<lambda>s.
                 if cs_id s = coworking_id
                 then s\<lparr>cs_updated_at := t,
                        cs_name := (case name of None \<Rightarrow> cs_name s | Some v \<Rightarrow> v),
                        cs_description := (case description of None \<Rightarrow> cs_description s | Some v \<Rightarrow> v),
                        cs_location := (case location of None \<Rightarrow> cs_location s | Some v \<Rightarrow> v),
                        cs_image_path := (case image_path of None \<Rightarrow> cs_image_path s | Some v \<Rightarrow> Some v)\<rparr>
                 else s) (coworking_space d)\<rparr>))))
       (\<lambda>_. return_io True)\<close>

definition CoworkingRepository_delete_coworking_space :: \<open>env \<Rightarrow> uuid \<Rightarrow> bool io\<close> where
  \<open>CoworkingRepository_delete_coworking_space E coworking_id =
     bind_io (session_begin E
       (modify E (Delete ''coworking_space'') (delete_coworking_space_rows coworking_id)))
       (\<lambda>_. return_io True)\<close>

definition update_occupancy :: \<open>env \<Rightarrow> uuid \<Rightarrow> pydate \<Rightarrow> unit io\<close> where
  \<open>update_occupancy E coworking_id booking_date =
     bind_io (query E ''coworking_booking''
                (\<lambda>d. int (length (filter
                    (\<lambda>b. cb_coworking_id b = coworking_id \<and> cb_booking_date b = booking_date)
                    (coworking_booking d))))) (\<lambda>booking_count.
     bind_io (lift_py (occupancy_percentage booking_count)) (\<lambda>percentage.
     bind_io (query E ''coworking_occupancy''
                (\<lambda>d. find (\<lambda>r. co_coworking_id r = coworking_id \<and> co_date r = booking_date)
                         (coworking_occupancy d))) (\<lambda>existing_record.
     case existing_record of
       Some _ \<Rightarrow>
         bind_io (datetime_now E) (\<lambda>t.
           modify E (Update ''coworking_occupancy'')
             (\<lambda>d. d\<lparr>coworking_occupancy := map (\<lambda>r.
                  if co_coworking_id r = coworking_id \<and> co_date r = booking_date
                  then r\<lparr>co_occupancy_percentage := percentage, co_updated_at := t\<rparr>
                  else r) (coworking_occupancy d)\<rparr>))
     | None \<Rightarrow>
         bind_io (uuid4 E) (\<lambda>i.
         bind_io (datetime_now E) (\<lambda>t1.
         bind_io (datetime_now E) (\<lambda>t2.
           insert_into E ''coworking_occupancy''
             (insert_coworking_occupancy
                \<lparr>co_id = i, co_coworking_id = coworking_id, co_date = booking_date,
                 co_occupancy_percentage = percentage,
                 co_created_at = t1, co_updated_at = t2\<rparr>)))))))\<close>

definition CoworkingRepository_create_booking :: \<open>env \<Rightarrow> uuid \<Rightarrow> pydate \<Rightarrow> string \<Rightarrow> string \<Rightarrow> uuid io\<close> where
  \<open>CoworkingRepository_create_booking E coworking_id booking_date customer_name customer_phone =
     bind_io (uuid4 E) (\<lambda>booking_id.
     bind_io (session_begin E
       (bind_io (datetime_now E) (\<lambda>t1.
        bind_io (datetime_now E) (\<lambda>t2.
        bind_io (insert_into E ''coworking_booking''
                  (insert_coworking_booking
                     \<lparr>cb_id = booking_id, cb_coworking_id = coworking_id,
                      cb_booking_date = booking_date, cb_customer_name = customer_name,
                      cb_customer_phone = customer_phone,
                      cb_created_at = t1, cb_updated_at = t2\<rparr>)) (\<lambda>_.
        update_occupancy E coworking_id booking_date)))))
       (\<lambda>_. return_io booking_id))\<close>

section \<open>\<^verbatim>\<open>repository/event_repository.py\<close>\<close>

text \<open>The columns \<^verbatim>\<open>get_all_events\<close> selects.\<close>

record event_summary =
  es_id :: uuid
  es_title :: string
  es_short_description :: string
  es_start_date :: pydatetime
  es_location :: string
  es_image_path :: \<open>string option\<close>

definition summary_of :: \<open>event_row \<Rightarrow> event_summary\<close> where
  \<open>summary_of e = \<lparr>es_id = ev_id e, es_title = ev_title e,
     es_short_description = ev_short_description e, es_start_date = ev_start_date e,
     es_location = ev_location e, es_image_path = ev_image_path e\<rparr>\<close>

definition EventRepository_get_all_events :: \<open>env \<Rightarrow> event_summary list io\<close> where
  \<open>EventRepository_get_all_events E =
     query E ''event''
       (\<lambda>d. map summary_of (sort_key (\<lambda>e. timestamp_order E (ev_start_date e)) (event d)))\<close>

text \<open>The columns of the organizer that \<^verbatim>\<open>get_event_by_id\<close> joins in.\<close>

record organizer_data =
  od_id :: uuid
  od_name :: string
  od_description :: \<open>string option\<close>
  od_image_path :: \<open>string option\<close>

definition EventRepository_get_event_by_id ::
  \<open>env \<Rightarrow> uuid \<Rightarrow> ((event_row \<times> organizer_data option) option \<times> bool) io\<close> where
  \<open>EventRepository_get_event_by_id E event_id =
     bind_io (query E ''event'' (\<lambda>d. find (\<lambda>e. ev_id e = event_id) (event d)))
       (\<lambda>event_data. case event_data of
            None \<Rightarrow> return_io (None, False)
          | Some ev \<Rightarrow>
              bind_io (query E ''event_organizer''
                (\<lambda>d. concat (map (\<lambda>l. filter (\<lambda>r. org_id r = eo_organizer_id l) (organizer d))
                         (filter (\<lambda>l. eo_event_id l = event_id) (event_organizer d)))))
                (\<lambda>rows. case rows of
                     r # _ \<Rightarrow> return_io (Some (ev, Some \<lparr>od_id = org_id r, od_name = org_name r,
                                  od_description = org_description r,
                                  od_image_path = org_image_path r\<rparr>), True)
                   | [] \<Rightarrow> return_io (Some (ev, None), True)))\<close>

definition EventRepository_create_event ::
  \<open>env \<Rightarrow> string \<Rightarrow> string \<Rightarrow> string \<Rightarrow> pydatetime \<Rightarrow> string \<Rightarrow> string option \<Rightarrow> uuid option
     \<Rightarrow> uuid io\<close> where
  \<open>EventRepository_create_event E title description short_description start_date location
       image_path organizer_id =
     bind_io (uuid4 E) (\<lambda>event_id.
     bind_io (session_begin E
       (bind_io (datetime_now E) (\<lambda>t1.
        bind_io (datetime_now E) (\<lambda>t2.
        bind_io (insert_into E ''event''
                  (insert_event
                     \<lparr>ev_id = event_id, ev_title = title, ev_description = description,
                      ev_short_description = short_description,
                      ev_start_date = store_timestamp E start_date,
                      ev_location = location, ev_image_path = image_path,
                      ev_created_at = t1, ev_updated_at = t2\<rparr>)) (\<lambda>_.
        case organizer_id of
          Some oid \<Rightarrow> insert_into E ''event_organizer''
                       (insert_event_organizer \<lparr>eo_event_id = event_id, eo_organizer_id = oid\<rparr>)
        | None \<Rightarrow> return_io ())))))
       (\<lambda>_. return_io event_id))\<close>

text \<open>
  The \<^verbatim>\<open>UPDATE\<close> of the rows with the given id; the store refuses it when a changed
  row would share title and start date with another event.
\<close>

definition update_event_rows :: \<open>uuid \<Rightarrow> (event_row \<Rightarrow> event_row) \<Rightarrow> database \<Rightarrow> exn + database\<close>
where
  \<open>update_event_rows i f d =
     (if \<exists>e \<in> set (event d). ev_id e = i \<and>
           (\<exists>e' \<in> set (event d). ev_id e' \<noteq> i \<and> ev_title e' = ev_title (f e)
                \<and> ev_start_date e' = ev_start_date (f e))
      then Inl (unique_violation ''uq_event_title_start_date'')
      else Inr (d\<lparr>event := map (\<lambda>e. if ev_id e = i then f e else e) (event d)\<rparr>))\<close>

definition EventRepository_update_event ::
  \<open>env \<Rightarrow> uuid \<Rightarrow> string option \<Rightarrow> string option \<Rightarrow> string option \<Rightarrow> pydatetime option
     \<Rightarrow> string option \<Rightarrow> string option \<Rightarrow> uuid option \<Rightarrow> bool io\<close> where
  \<open>EventRepository_update_event E event_id title description short_description start_date
       location image_path organizer_id =
     bind_io (session_begin E
       (bind_io (datetime_now E) (\<lambda>t.
        bind_io (alter E (Update ''event'')
                  (update_event_rows event_id (\<lambda>e.
                     e\<lparr>ev_updated_at := t,
                       ev_title := (case title of None \<Rightarrow> ev_title e | Some v \<Rightarrow> v),
                       ev_description := (case description of None \<Rightarrow> ev_description e | Some v \<Rightarrow> v),
                       ev_short_description :=
                         (case short_description of None \<Rightarrow> ev_short_description e | Some v \<Rightarrow> v),
                       ev_start_date :=
                         (case start_date of None \<Rightarrow> ev_start_date e
                          | Some v \<Rightarrow> store_timestamp E v),
                       ev_location := (case location of None \<Rightarrow> ev_location e | Some v \<Rightarrow> v),
                       ev_image_path :=
                         (case image_path of None \<Rightarrow> ev_image_path e | Some v \<Rightarrow> Some v)\<rparr>)))
          (\<lambda>_.
        case organizer_id of
          Some oid \<Rightarrow>
            bind_io (modify E (Delete ''event_organizer'')
                      (\<lambda>d. d\<lparr>event_organizer :=
                              filter (\<lambda>l. eo_event_id l \<noteq> event_id) (event_organizer d)\<rparr>))
              (\<lambda>_. insert_into E ''event_organizer''
                       (insert_event_organizer \<lparr>eo_event_id = event_id, eo_organizer_id = oid\<rparr>))
        | None \<Rightarrow> return_io ()))))
       (\<lambda>_. return_io True)\<close>

definition EventRepository_delete_event :: \<open>env \<Rightarrow> uuid \<Rightarrow> bool io\<close> where
  \<open>EventRepository_delete_event E event_id =
     bind_io (session_begin E (modify E (Delete ''event'') (delete_event_rows event_id)))
       (\<lambda>_. return_io True)\<close>

section \<open>\<^verbatim>\<open>repository/organizer_repository.py\<close>\<close>

text \<open>
  \<^verbatim>\<open>get_all_organizers\<close> is a \<^verbatim>\<open>SELECT\<close> without \<^verbatim>\<open>ORDER BY\<close>: it returns
  the rows as they lie in the store, and the list \<open>organizer\<close> is that order.  An
  \<^verbatim>\<open>INSERT\<close> puts its row behind the rows that are there, and so does an
  \<^verbatim>\<open>UPDATE\<close> with the new version of a row it changes: an updated organizer comes
  last in the scans that follow.  For the other tables the place of a row plays no part
  in what is proved below: they are read by key, counted, or read with
  \<^verbatim>\<open>ORDER BY\<close>.
\<close>

definition OrganizerRepository_get_all_organizers :: \<open>env \<Rightarrow> organizer_row list io\<close> where
  \<open>OrganizerRepository_get_all_organizers E = query E ''organizer'' organizer\<close>

definition OrganizerRepository_create_organizer ::
  \<open>env \<Rightarrow> string \<Rightarrow> string option \<Rightarrow> string option \<Rightarrow> uuid io\<close> where
  \<open>OrganizerRepository_create_organizer E name description image_path =
     bind_io (uuid4 E) (\<lambda>organizer_id.
     bind_io (session_begin E
       (bind_io (datetime_now E) (\<lambda>t1.
        bind_io (datetime_now E) (\<lambda>t2.
          insert_into E ''organizer''
            (insert_organizer
               \<lparr>org_id = organizer_id, org_name = name, org_description = description,
                org_image_path = image_path, org_created_at = t1, org_updated_at = t2\<rparr>)))))
       (\<lambda>_. return_io organizer_id))\<close>

definition OrganizerRepository_update_organizer ::
  \<open>env \<Rightarrow> uuid \<Rightarrow> string option \<Rightarrow> string option \<Rightarrow> string option \<Rightarrow> bool io\<close> where
  \<open>OrganizerRepository_update_organizer E organizer_id name description image_path =
     bind_io (session_begin E
       (bind_io (datetime_now E) (\<lambda>t.
          modify E (Update ''organizer'')
            (\<lambda>d. d\<lparr>organizer :=
                 filter (\<lambda>r. org_id r \<noteq> organizer_id) (organizer d) @
                 map (\<lambda>r.
                   r\<lparr>org_updated_at := t,
                     org_name := (case name of None \<Rightarrow> org_name r | Some v \<Rightarrow> v),
                     org_description :=
                       (case description of None \<Rightarrow> org_description r | Some v \<Rightarrow> Some v),
                     org_image_path :=
                       (case image_path of None \<Rightarrow> org_image_path r | Some v \<Rightarrow> Some v)\<rparr>)
                   (filter (\<lambda>r. org_id r = organizer_id) (organizer d))\<rparr>))))
       (\<lambda>_. return_io True)\<close>

definition OrganizerRepository_delete_organizer :: \<open>env \<Rightarrow> uuid \<Rightarrow> bool io\<close> where
  \<open>OrganizerRepository_delete_organizer E organizer_id =
     bind_io (session_begin E
       (modify E (Delete ''organizer'') (delete_organizer_rows organizer_id)))
       (\<lambda>_. return_io True)\<close>

section \<open>Python values the services handle\<close>

text \<open>The truth value of an \<^verbatim>\<open>Optional[str]\<close>: \<^verbatim>\<open>None\<close> and \<^verbatim>\<open>""\<close> are false.\<close>

definition truthy :: \<open>string option \<Rightarrow> bool\<close> where
  \<open>truthy s = (case s of None \<Rightarrow> False | Some v \<Rightarrow> v \<noteq> [])\<close>

text \<open>\<^verbatim>\<open>needle in haystack\<close> on strings.\<close>

fun py_in :: \<open>string \<Rightarrow> string \<Rightarrow> bool\<close> where
  \<open>py_in needle [] = (needle = [])\<close>
| \<open>py_in needle (c # cs) = (needle = take (length needle) (c # cs) \<or> py_in needle cs)\<close>

text \<open>\<^verbatim>\<open>str\<close> of a \<^verbatim>\<open>datetime\<close>.\<close>

definition zero_pad :: \<open>nat \<Rightarrow> int \<Rightarrow> string\<close> where
  \<open>zero_pad k n = map (\<lambda>i. ''0123456789'' ! ((nat n div 10 ^ i) mod 10)) (rev [0..<k])\<close>

definition datetime_str :: \<open>pydatetime \<Rightarrow> string\<close> where
  \<open>datetime_str t =
     zero_pad 4 (dt_year t) @ ''-'' @ zero_pad 2 (dt_month t) @ ''-'' @ zero_pad 2 (dt_day t)
     @ '' '' @ zero_pad 2 (dt_hour t) @ '':'' @ zero_pad 2 (dt_minute t)
     @ '':'' @ zero_pad 2 (dt_second t)
     @ (if dt_microsecond t \<noteq> 0 then ''.'' @ zero_pad 6 (dt_microsecond t) else [])
     @ (case dt_utcoffset t of
          None \<Rightarrow> []
        | Some m \<Rightarrow> (if m < 0 then ''-'' else ''+'')
                     @ zero_pad 2 (\<bar>m\<bar> div 60) @ '':'' @ zero_pad 2 (\<bar>m\<bar> mod 60))\<close>

definition quoted :: \<open>string \<Rightarrow> string\<close> where
  \<open>quoted s = [CHR 0x27] @ s @ [CHR 0x27]\<close>

section \<open>\<^verbatim>\<open>services/event_service.py\<close>\<close>

definition duplicate_message :: \<open>string \<Rightarrow> pydatetime \<Rightarrow> string\<close> where
  \<open>duplicate_message title start_date =
     ''Event with title '' @ quoted title @ '' and date '' @ datetime_str start_date
       @ '' already exists''\<close>

text \<open>The loop over the events of the pre-check.\<close>

fun scan_events :: \<open>string \<Rightarrow> pydatetime \<Rightarrow> event_summary list \<Rightarrow> exn + unit\<close> where
  \<open>scan_events title start_date [] = Inr ()\<close>
| \<open>scan_events title start_date (ev # events) =
     (let event_date = es_start_date ev
      in if es_title ev = title \<and>
            dt_year event_date = dt_year start_date \<and>
            dt_month event_date = dt_month start_date \<and>
            dt_day event_date = dt_day start_date \<and>
            dt_hour event_date = dt_hour start_date \<and>
            dt_minute event_date = dt_minute start_date
         then Inl (EventDuplicateError (duplicate_message title start_date))
         else scan_events title start_date events)\<close>

fun is_EventDuplicateError :: \<open>exn \<Rightarrow> bool\<close> where
  \<open>is_EventDuplicateError (EventDuplicateError _) = True\<close>
| \<open>is_EventDuplicateError _ = False\<close>

text \<open>
  The handler of \<^verbatim>\<open>except IntegrityError as e\<close> in \<^verbatim>\<open>create_event\<close> and
  \<^verbatim>\<open>update_event\<close>; any other exception is not caught.
\<close>

definition on_integrity_error :: \<open>string \<Rightarrow> string \<Rightarrow> pydatetime option \<Rightarrow> exn \<Rightarrow> 'a io\<close> where
  \<open>on_integrity_error what title start_date e =
     (case e of
        IntegrityError _ \<Rightarrow>
          if py_in ''duplicate key value violates unique constraint'' (exn_str e)
             \<and> py_in ''uq_event_title_start_date'' (exn_str e)
          then bind_io (logger ''ERROR'' (''Integrity error '' @ what @ '' event: '' @ exn_str e))
                 (\<lambda>_. raise_io (EventDuplicateError
                     (''Event with title '' @ quoted title @ '' and date ''
                        @ (case start_date of None \<Rightarrow> ''None'' | Some t \<Rightarrow> datetime_str t)
                        @ '' already exists'')))
          else raise_io e
      | _ \<Rightarrow> raise_io e)\<close>

text \<open>
  \<^verbatim>\<open>create_event\<close> is three blocks in sequence: the pre-check inside its own
  \<^verbatim>\<open>try\<close>, the resolution of the organizer, and the insert inside the second
  \<^verbatim>\<open>try\<close>.  Each block is a definition.
\<close>

definition create_event_precheck :: \<open>env \<Rightarrow> string \<Rightarrow> pydatetime \<Rightarrow> unit io\<close> where
  \<open>create_event_precheck E title start_date =
     try_except
       (bind_io (EventRepository_get_all_events E)
          (\<lambda>events. lift_py (scan_events title start_date events)))
       (\<lambda>e. if \<not> is_EventDuplicateError e
             then logger ''ERROR'' (''Error checking for duplicate events: '' @ exn_str e)
             else raise_io e)\<close>

definition create_event_organizer ::
  \<open>env \<Rightarrow> string option \<Rightarrow> string option \<Rightarrow> string option \<Rightarrow> uuid option io\<close> where
  \<open>create_event_organizer E organizer_name organizer_description organizer_image_path =
     (if truthy organizer_name
      then bind_io (OrganizerRepository_get_all_organizers E) (\<lambda>organizers.
             case find (\<lambda>org. Some (org_name org) = organizer_name) organizers of
               Some existing_organizer \<Rightarrow>
                 bind_io (logger ''INFO''
                            (''Using existing organizer: '' @ the organizer_name)) (\<lambda>_.
                 bind_io
                   (if truthy organizer_description \<or> truthy organizer_image_path
                    then bind_io (OrganizerRepository_update_organizer E
                                    (org_id existing_organizer) None
                                    organizer_description organizer_image_path)
                           (\<lambda>_. return_io ())
                    else return_io ()) (\<lambda>_.
                 return_io (Some (org_id existing_organizer))))
             | None \<Rightarrow>
                 bind_io (OrganizerRepository_create_organizer E (the organizer_name)
                            organizer_description organizer_image_path) (\<lambda>organizer_id.
                 bind_io (logger ''INFO''
                            (''Created new organizer: '' @ the organizer_name)) (\<lambda>_.
                 return_io (Some organizer_id))))
      else return_io None)\<close>

definition create_event_insert ::
  \<open>env \<Rightarrow> string \<Rightarrow> string \<Rightarrow> string \<Rightarrow> pydatetime \<Rightarrow> string \<Rightarrow> string option \<Rightarrow> uuid option
     \<Rightarrow> uuid io\<close> where
  \<open>create_event_insert E title description short_description start_date location image_path
       organizer_id =
     try_except
       (EventRepository_create_event E title description short_description start_date
          location image_path organizer_id)
       (on_integrity_error ''creating'' title (Some start_date))\<close>

definition EventService_create_event ::
  \<open>env \<Rightarrow> string \<Rightarrow> string \<Rightarrow> string \<Rightarrow> pydatetime \<Rightarrow> string \<Rightarrow> string option
     \<Rightarrow> string option \<Rightarrow> string option \<Rightarrow> string option \<Rightarrow> uuid io\<close> where
  \<open>EventService_create_event E title description short_description start_date location
       image_path organizer_name organizer_description organizer_image_path =
     bind_io (create_event_precheck E title start_date) (\<lambda>_.
     bind_io (create_event_organizer E organizer_name organizer_description
                organizer_image_path) (\<lambda>organizer_id.
     create_event_insert E title description short_description start_date location
       image_path organizer_id))\<close>

definition EventService_update_event ::
  \<open>env \<Rightarrow> uuid \<Rightarrow> string option \<Rightarrow> string option \<Rightarrow> string option \<Rightarrow> pydatetime option
     \<Rightarrow> string option \<Rightarrow> string option \<Rightarrow> uuid option \<Rightarrow> bool io\<close> where
  \<open>EventService_update_event E event_id title description short_description start_date
       location image_path organizer_id =
     try_except
       (EventRepository_update_event E event_id title description short_description
          start_date location image_path organizer_id)
       (on_integrity_error ''updating''
          (case title of None \<Rightarrow> ''None'' | Some v \<Rightarrow> v) start_date)\<close>

definition EventService_delete_event :: \<open>env \<Rightarrow> uuid \<Rightarrow> bool io\<close> where
  \<open>EventService_delete_event E event_id = EventRepository_delete_event E event_id\<close>

definition EventService_get_event_by_id ::
  \<open>env \<Rightarrow> uuid \<Rightarrow> ((event_row \<times> organizer_data option) option \<times> bool) io\<close> where
  \<open>EventService_get_event_by_id E event_id = EventRepository_get_event_by_id E event_id\<close>

section \<open>\<^verbatim>\<open>services/coworking_service.py\<close>\<close>

text \<open>
  Each method wraps its repository call in \<^verbatim>\<open>try\<close> with the handlers
  \<^verbatim>\<open>except IntegrityError\<close> and \<^verbatim>\<open>except Exception\<close>, which differ in the text
  they log only.
\<close>

definition wrap_coworking_error :: \<open>string \<Rightarrow> exn \<Rightarrow> 'a io\<close> where
  \<open>wrap_coworking_error what e =
     bind_io (logger ''ERROR''
                ((case e of IntegrityError _ \<Rightarrow> ''IntegrityError '' @ what
                  | _ \<Rightarrow> ''Error '' @ what) @ '': '' @ exn_str e))
       (\<lambda>_. raise_io (CoworkingError (''Error '' @ what @ '': '' @ exn_str e)))\<close>

definition CoworkingService_get_coworking_by_id ::
  \<open>env \<Rightarrow> uuid \<Rightarrow> (coworking_space_row option \<times> bool) io\<close> where
  \<open>CoworkingService_get_coworking_by_id E coworking_id =
     CoworkingRepository_get_coworking_by_id E coworking_id\<close>

definition CoworkingService_update_coworking_space ::
  \<open>env \<Rightarrow> uuid \<Rightarrow> string option \<Rightarrow> string option \<Rightarrow> string option \<Rightarrow> string option \<Rightarrow> bool io\<close>
where
  \<open>CoworkingService_update_coworking_space E coworking_id name description location image_path =
     try_except
       (CoworkingRepository_update_coworking_space E coworking_id name description location
          image_path)
       (wrap_coworking_error ''updating coworking space'')\<close>

definition CoworkingService_delete_coworking_space :: \<open>env \<Rightarrow> uuid \<Rightarrow> bool io\<close> where
  \<open>CoworkingService_delete_coworking_space E coworking_id =
     try_except (CoworkingRepository_delete_coworking_space E coworking_id)
       (\<lambda>e. bind_io (logger ''ERROR'' (''Error deleting coworking space: '' @ exn_str e))
          (\<lambda>_. raise_io (CoworkingError (''Error deleting coworking space: '' @ exn_str e))))\<close>

definition CoworkingService_create_booking ::
  \<open>env \<Rightarrow> uuid \<Rightarrow> pydate \<Rightarrow> string \<Rightarrow> string \<Rightarrow> uuid io\<close> where
  \<open>CoworkingService_create_booking E coworking_id booking_date customer_name customer_phone =
     try_except
       (CoworkingRepository_create_booking E coworking_id booking_date customer_name
          customer_phone)
       (wrap_coworking_error ''creating booking'')\<close>

section \<open>\<^verbatim>\<open>presentations/routers\<close>\<close>

text \<open>
  A handler returns its response or raises; what it raises reaches the framework, which
  answers an \<open>HTTPException\<close> with its status and detail.
\<close>

fun is_CoworkingError :: \<open>exn \<Rightarrow> bool\<close> where
  \<open>is_CoworkingError (CoworkingError _) = True\<close>
| \<open>is_CoworkingError _ = False\<close>

fun is_HTTPException :: \<open>exn \<Rightarrow> bool\<close> where
  \<open>is_HTTPException (HTTPException _ _) = True\<close>
| \<open>is_HTTPException _ = False\<close>

text \<open>\<^verbatim>\<open>str\<close> of a \<^verbatim>\<open>UUID\<close>: 32 hexadecimal digits in five groups.\<close>

definition uuid_str :: \<open>uuid \<Rightarrow> string\<close> where
  \<open>uuid_str i =
     (let h = map (\<lambda>k. ''0123456789abcdef'' ! ((i div 16 ^ k) mod 16)) (rev [0..<32])
      in take 8 h @ ''-'' @ take 4 (drop 8 h) @ ''-'' @ take 4 (drop 12 h) @ ''-''
         @ take 4 (drop 16 h) @ ''-'' @ drop 20 h)\<close>

definition event_router_create_event ::
  \<open>env \<Rightarrow> string \<Rightarrow> string \<Rightarrow> string \<Rightarrow> pydatetime \<Rightarrow> string \<Rightarrow> string option
     \<Rightarrow> string option \<Rightarrow> string option \<Rightarrow> string option \<Rightarrow> uuid io\<close> where
  \<open>event_router_create_event E title description short_description start_date location
       image_path organizer_name organizer_description organizer_image_path =
     bind_io (logger ''INFO'' (''create_event: '' @ title)) (\<lambda>_.
     try_except
       (EventService_create_event E title description short_description start_date location
          image_path organizer_name organizer_description organizer_image_path)
       (\<lambda>e. if is_EventDuplicateError e
             then bind_io (logger ''WARNING'' (''Duplicate event attempt: '' @ exn_str e))
                    (\<lambda>_. raise_io (HTTPException 409
                       (''An event with title '' @ quoted title
                          @ '' at the same date and time already exists'')))
             else bind_io (logger ''ERROR'' (''Error creating event: '' @ exn_str e))
                    (\<lambda>_. raise_io (HTTPException 500
                       ''Failed to create event due to an internal error''))))\<close>

definition event_router_delete_event :: \<open>env \<Rightarrow> uuid \<Rightarrow> unit io\<close> where
  \<open>event_router_delete_event E event_id =
     bind_io (logger ''INFO'' (''delete_event: '' @ uuid_str event_id)) (\<lambda>_.
     bind_io (EventService_get_event_by_id E event_id) (\<lambda>(_, found).
     if \<not> found
     then bind_io (logger ''ERROR'' (''delete_event: '' @ uuid_str event_id @ '' not found''))
            (\<lambda>_. raise_io (HTTPException 404 ''Event not found''))
     else bind_io (EventService_delete_event E event_id) (\<lambda>success.
          if \<not> success
          then bind_io (logger ''ERROR'' (''Failed to delete event: '' @ uuid_str event_id))
                 (\<lambda>_. raise_io (HTTPException 500 ''Failed to delete event''))
          else return_io ())))\<close>

definition coworking_router_create_booking ::
  \<open>env \<Rightarrow> uuid \<Rightarrow> pydate \<Rightarrow> string \<Rightarrow> string \<Rightarrow> uuid io\<close> where
  \<open>coworking_router_create_booking E coworking_id booking_date customer_name customer_phone =
     bind_io (logger ''INFO'' (''create_booking for coworking: '' @ uuid_str coworking_id)) (\<lambda>_.
     try_except
       (bind_io (CoworkingService_get_coworking_by_id E coworking_id) (\<lambda>(_, found).
        if \<not> found
        then bind_io (logger ''ERROR''
                       (''create_booking: coworking '' @ uuid_str coworking_id @ '' not found''))
               (\<lambda>_. raise_io (HTTPException 404 ''Coworking space not found''))
        else CoworkingService_create_booking E coworking_id booking_date customer_name
               customer_phone))
       (\<lambda>e. if is_CoworkingError e
             then bind_io (logger ''WARNING'' (''Failed to create booking: '' @ exn_str e))
                    (\<lambda>_. raise_io (HTTPException 400
                       (''Failed to create booking: '' @ exn_str e)))
             else if is_HTTPException e then raise_io e
             else bind_io (logger ''ERROR'' (''Error creating booking: '' @ exn_str e))
                    (\<lambda>_. raise_io (HTTPException 500
                       ''Failed to create booking due to an internal error''))))\<close>

definition coworking_router_delete_coworking_space :: \<open>env \<Rightarrow> uuid \<Rightarrow> unit io\<close> where
  \<open>coworking_router_delete_coworking_space E coworking_id =
     bind_io (logger ''INFO'' (''delete_coworking_space: '' @ uuid_str coworking_id)) (\<lambda>_.
     try_except
       (bind_io (CoworkingService_get_coworking_by_id E coworking_id) (\<lambda>(_, found).
        if \<not> found
        then bind_io (logger ''ERROR''
                       (''delete_coworking_space: '' @ uuid_str coworking_id @ '' not found''))
               (\<lambda>_. raise_io (HTTPException 404 ''Coworking space not found''))
        else bind_io (CoworkingService_delete_coworking_space E coworking_id) (\<lambda>success.
             if \<not> success
             then bind_io (logger ''ERROR''
                            (''Failed to delete coworking space: '' @ uuid_str coworking_id))
                    (\<lambda>_. raise_io (HTTPException 500 ''Failed to delete coworking space''))
             else return_io ())))
       (\<lambda>e. if is_CoworkingError e
             then bind_io (logger ''WARNING'' (''Failed to delete coworking space: '' @ exn_str e))
                    (\<lambda>_. raise_io (HTTPException 400
                       (''Failed to delete coworking space: '' @ exn_str e)))
             else if is_HTTPException e then raise_io e
             else bind_io (logger ''ERROR'' (''Error deleting coworking space: '' @ exn_str e))
                    (\<lambda>_. raise_io (HTTPException 500
                       ''Failed to delete coworking space due to an internal error''))))\<close>

section \<open>What the properties speak about\<close>

text \<open>The rows the two queries of \<^verbatim>\<open>_update_occupancy\<close> select.\<close>

definition bookings_on :: \<open>database \<Rightarrow> uuid \<Rightarrow> pydate \<Rightarrow> coworking_booking_row list\<close> where
  \<open>bookings_on d c day =
     filter (\<lambda>b. cb_coworking_id b = c \<and> cb_booking_date b = day) (coworking_booking d)\<close>

definition occupancy_on :: \<open>database \<Rightarrow> uuid \<Rightarrow> pydate \<Rightarrow> coworking_occupancy_row list\<close> where
  \<open>occupancy_on d c day =
     filter (\<lambda>r. co_coworking_id r = c \<and> co_date r = day) (coworking_occupancy d)\<close>

text \<open>No occupancy row for a pair without bookings, exactly one for a pair with bookings.\<close>

definition occupancy_invariant :: \<open>database \<Rightarrow> bool\<close> where
  \<open>occupancy_invariant d \<longleftrightarrow>
     (\<forall>c day. length (occupancy_on d c day) = (if bookings_on d c day = [] then 0 else 1))\<close>

text \<open>
  A sequence of calls of \<^verbatim>\<open>create_booking\<close>, one per request (coworking id, date,
  customer name, customer phone), each of which returns; \<open>None\<close> when one raises.
\<close>

fun create_bookings :: \<open>env \<Rightarrow> (uuid \<times> pydate \<times> string \<times> string) list \<Rightarrow> world \<Rightarrow> world option\<close>
where
  \<open>create_bookings E [] w = Some w\<close>
| \<open>create_bookings E ((c, day, name, phone) # reqs) w =
     (case CoworkingRepository_create_booking E c day name phone w of
        (Inr _, w') \<Rightarrow> create_bookings E reqs w'
      | (Inl _, _) \<Rightarrow> None)\<close>

text \<open>Equality of two \<^verbatim>\<open>datetime\<close>s up to the minute, offset ignored.\<close>

definition same_minute :: \<open>pydatetime \<Rightarrow> pydatetime \<Rightarrow> bool\<close> where
  \<open>same_minute a b \<longleftrightarrow>
     dt_year a = dt_year b \<and> dt_month a = dt_month b \<and> dt_day a = dt_day b \<and>
     dt_hour a = dt_hour b \<and> dt_minute a = dt_minute b\<close>

fun is_write :: \<open>stmt \<Rightarrow> bool\<close> where
  \<open>is_write (Insert _) = True\<close>
| \<open>is_write (Update _) = True\<close>
| \<open>is_write (Delete _) = True\<close>
| \<open>is_write _ = False\<close>

text \<open>The statements sent between two states of the world.\<close>

definition sent :: \<open>world \<Rightarrow> world \<Rightarrow> stmt list\<close> where
  \<open>sent w w' = drop (length (trace w)) (trace w')\<close>

text \<open>An environment in which the store refuses nothing of its own accord.\<close>

definition no_faults :: \<open>env \<Rightarrow> bool\<close> where
  \<open>no_faults E \<longleftrightarrow> (\<forall>n. fault_at E n = None)\<close>

text \<open>A stored event with the title and, up to the minute, the start date.\<close>

definition duplicate_stored :: \<open>database \<Rightarrow> string \<Rightarrow> pydatetime \<Rightarrow> bool\<close> where
  \<open>duplicate_stored d title start_date \<longleftrightarrow>
     (\<exists>e \<in> set (event d). ev_title e = title \<and> same_minute (ev_start_date e) start_date)\<close>

fun is_storage_error :: \<open>exn \<Rightarrow> bool\<close> where
  \<open>is_storage_error (IntegrityError _) = True\<close>
| \<open>is_storage_error (OperationalError _) = True\<close>
| \<open>is_storage_error _ = False\<close>

section \<open>Concrete environments and states\<close>

text \<open>
  An environment that refuses nothing, one that refuses the statement with a given number,
  and a state whose only row is a coworking space.  The examples below run the program
  on them.
\<close>

definition reliable_env :: env where
  \<open>reliable_env = \<lparr>fault_at = (\<lambda>n. None), uuid_at = (\<lambda>n. 100 + n), now_at = (\<lambda>n. n),
     store_timestamp = (\<lambda>t. t), timestamp_order = (\<lambda>t. 0)\<rparr>\<close>

definition failing_env :: \<open>nat \<Rightarrow> store_error \<Rightarrow> env\<close> where
  \<open>failing_env k e = reliable_env\<lparr>fault_at := (\<lambda>n. if n = k then Some e else None)\<rparr>\<close>

definition one_space_world :: world where
  \<open>one_space_world = \<lparr>tables = empty_database\<lparr>coworking_space :=
        [\<lparr>cs_id = 1, cs_name = ''Loft'', cs_description = ''Open space'', cs_location = ''Moscow'',
          cs_image_path = None, cs_created_at = 0, cs_updated_at = 0\<rparr>]\<rparr>,
     trace = [], uuids_drawn = 0, clock_reads = 0, log_records = []\<rparr>\<close>

text \<open>A state with one event, two organizers, and the event linked to the first of them.\<close>

definition new_year_10am :: pydatetime where
  \<open>new_year_10am = \<lparr>dt_year = 2024, dt_month = 1, dt_day = 1, dt_hour = 10, dt_minute = 0,
     dt_second = 0, dt_microsecond = 0, dt_utcoffset = Some 0\<rparr>\<close>

definition one_event_world :: world where
  \<open>one_event_world = \<lparr>tables = empty_database\<lparr>
       event := [\<lparr>ev_id = 10, ev_title = ''Demo'', ev_description = ''A long text'',
                  ev_short_description = ''Short'', ev_start_date = new_year_10am,
                  ev_location = ''Hall A'', ev_image_path = None,
                  ev_created_at = 1, ev_updated_at = 1\<rparr>],
       organizer := [\<lparr>org_id = 20, org_name = ''Acme'', org_description = None,
                      org_image_path = None, org_created_at = 0, org_updated_at = 0\<rparr>,
                     \<lparr>org_id = 21, org_name = ''Globex'', org_description = None,
                      org_image_path = None, org_created_at = 0, org_updated_at = 0\<rparr>],
       event_organizer := [\<lparr>eo_event_id = 10, eo_organizer_id = 20\<rparr>]\<rparr>,
     trace = [], uuids_drawn = 0, clock_reads = 7, log_records = []\<rparr>\<close>

definition empty_world :: world where
  \<open>empty_world = \<lparr>tables = empty_database, trace = [], uuids_drawn = 0, clock_reads = 0,
     log_records = []\<rparr>\<close>

section \<open>Properties of the float arithmetic\<close>

lemma bit_length_bounds:
  "0 < n \<Longrightarrow> 2 ^ (bit_length n - 1) \<le> n \<and> n < 2 ^ bit_length n"
proof (induction n rule: bit_length.induct)
  case (1 n)
  show ?case
  proof (cases "n div 2 = 0")
    case True
    with 1(2) have "n = 1" by (cases n) auto
    then show ?thesis by (simp add: bit_length.simps)
  next
    case False
    then have pos: "0 < n div 2" by simp
    from 1(1)[OF _ pos] 1(2)
    have ih: "2 ^ (bit_length (n div 2) - 1) \<le> n div 2" "n div 2 < 2 ^ bit_length (n div 2)"
      by auto
    have bl: "bit_length n = Suc (bit_length (n div 2))"
      using 1(2) by (subst bit_length.simps) simp
    have bpos: "0 < bit_length (n div 2)"
      using pos by (subst bit_length.simps) simp
    have "2 ^ (bit_length n - 1) = 2 * 2 ^ (bit_length (n div 2) - 1)"
      using bl bpos by (cases "bit_length (n div 2)") auto
    also have "\<dots> \<le> 2 * (n div 2)" using ih(1) by simp
    also have "\<dots> \<le> n" by simp
    finally have lo: "2 ^ (bit_length n - 1) \<le> n" .
    have "n < 2 * (n div 2) + 2" by presburger
    also have "\<dots> \<le> 2 * 2 ^ bit_length (n div 2)" using ih(2) by simp
    finally have hi: "n < 2 ^ bit_length n" using bl by simp
    from lo hi show ?thesis by simp
  qed
qed

lemma round_half_even_ge: "of_int k \<le> q \<Longrightarrow> k \<le> round_half_even q"
proof -
  assume "of_int k \<le> q"
  then have "k \<le> \<lfloor>q\<rfloor>" by (simp add: le_floor_iff)
  then show ?thesis by (simp add: round_half_even_def Let_def)
qed

lemma round_half_even_le: "q \<le> of_int k \<Longrightarrow> round_half_even q \<le> k"
proof -
  assume a: "q \<le> of_int k"
  show ?thesis
  proof (cases "q = of_int k")
    case True
    then show ?thesis by (simp add: round_half_even_def Let_def)
  next
    case False
    with a have "q < of_int k" by simp
    then have "\<lfloor>q\<rfloor> < k" by (simp add: floor_less_iff)
    then show ?thesis by (simp add: round_half_even_def Let_def)
  qed
qed

lemma rat_le_pow2: "(c::int) \<le> 2 ^ k \<Longrightarrow> (of_int c :: rat) \<le> 2 ^ k"
proof -
  assume "c \<le> 2 ^ k"
  then have "(of_int c :: rat) \<le> of_int (2 ^ k)" by (rule iffD2[OF of_int_le_iff])
  then show ?thesis by simp
qed

lemma rat_pow2_le: "2 ^ k \<le> (c::int) \<Longrightarrow> (2::rat) ^ k \<le> of_int c"
proof -
  assume "2 ^ k \<le> c"
  then have "(of_int (2 ^ k) :: rat) \<le> of_int c" by (rule iffD2[OF of_int_le_iff])
  then show ?thesis by simp
qed

lemma bit_length_pos: "0 < n \<Longrightarrow> 0 < bit_length n"
  by (subst bit_length.simps) simp

lemma binade_ge1:
  assumes "1 \<le> a"
  shows "2 powi (binade a) \<le> a" and "a < 2 powi (binade a + 1)"
proof -
  define n where "n = nat \<lfloor>a\<rfloor>"
  have fl: "1 \<le> \<lfloor>a\<rfloor>" using assms by simp
  then have npos: "0 < n" by (simp add: n_def)
  have nfl: "int n = \<lfloor>a\<rfloor>" using fl by (simp add: n_def)
  have be: "binade a = int (bit_length n) - 1" using assms by (simp add: binade_def n_def)
  from bit_length_bounds[OF npos]
  have lo: "2 ^ (bit_length n - 1) \<le> n" and hi: "n < 2 ^ bit_length n" by simp_all
  have bpos: "0 < bit_length n" using npos by (rule bit_length_pos)
  have e1: "binade a = int (bit_length n - 1)" using be bpos by simp
  have "int (2 ^ (bit_length n - 1)) \<le> int n" using lo by (simp only: of_nat_le_iff)
  then have "2 ^ (bit_length n - 1) \<le> \<lfloor>a\<rfloor>" using nfl by simp
  then have "(of_int (2 ^ (bit_length n - 1)) :: rat) \<le> a" by (simp only: le_floor_iff)
  then show "2 powi (binade a) \<le> a" using e1 by simp
  have "int n < int (2 ^ bit_length n)" using hi by (simp only: of_nat_less_iff)
  then have "\<lfloor>a\<rfloor> < 2 ^ bit_length n" using nfl by simp
  then have "a < of_int (2 ^ bit_length n)" by (simp only: floor_less_iff)
  moreover have "binade a + 1 = int (bit_length n)" using be by simp
  ultimately show "a < 2 powi (binade a + 1)" by simp
qed

lemma binade_lt1:
  assumes "0 < a" and "a < 1"
  shows "2 powi (binade a) \<le> a" and "a < 2 powi (binade a + 1)"
proof -
  define c where "c = \<lceil>1 / a\<rceil>"
  define m where "m = nat (c - 1)"
  have inv: "1 < 1 / a" using assms by simp
  have c2: "2 \<le> c" unfolding c_def using inv by (simp add: less_ceiling_iff)
  then have mpos: "0 < m" by (simp add: m_def)
  have mc: "int m = c - 1" using c2 by (simp add: m_def)
  have be: "binade a = - int (bit_length m)" using assms by (simp add: binade_def m_def c_def)
  from bit_length_bounds[OF mpos]
  have lo: "2 ^ (bit_length m - 1) \<le> m" and hi: "m < 2 ^ bit_length m" by simp_all
  have bpos: "0 < bit_length m" using mpos by (rule bit_length_pos)
  have cle: "1 / a \<le> of_int c" unfolding c_def by (rule le_of_int_ceiling)
  have clt: "of_int c - 1 < 1 / a" unfolding c_def using ceiling_correct[of "1 / a"] by linarith
  have "int m < int (2 ^ bit_length m)" using hi by (simp only: of_nat_less_iff)
  then have "c \<le> 2 ^ bit_length m" using mc by simp
  then have "(of_int c :: rat) \<le> 2 ^ bit_length m" by (rule rat_le_pow2)
  then have "1 / a \<le> (2::rat) ^ bit_length m" using cle by linarith
  then have "1 \<le> a * 2 ^ bit_length m" using assms(1) by (simp add: divide_le_eq mult.commute)
  then have "1 / 2 ^ bit_length m \<le> a" by (simp add: divide_le_eq)
  then show "2 powi (binade a) \<le> a" using be by (simp add: power_int_minus divide_inverse)
  have "int (2 ^ (bit_length m - 1)) \<le> int m" using lo by (simp only: of_nat_le_iff)
  then have "2 ^ (bit_length m - 1) \<le> c - 1" using mc by simp
  then have "(2::rat) ^ (bit_length m - 1) \<le> of_int (c - 1)" by (rule rat_pow2_le)
  then have "(2::rat) ^ (bit_length m - 1) < 1 / a" using clt by simp
  then have "a * 2 ^ (bit_length m - 1) < 1" using assms(1) by (simp add: less_divide_eq mult.commute)
  then have "a < 1 / 2 ^ (bit_length m - 1)" by (simp add: less_divide_eq)
  moreover have "binade a + 1 = - int (bit_length m - 1)" using be bpos by simp
  ultimately show "a < 2 powi (binade a + 1)" by (simp add: power_int_minus divide_inverse)
qed

lemma binade_bounds:
  assumes "0 < a"
  shows "2 powi (binade a) \<le> a" and "a < 2 powi (binade a + 1)"
  using assms binade_ge1[of a] binade_lt1[of a] by (cases "1 \<le> a"; simp)+

lemma binade_ge:
  assumes "0 < x" and "2 powi k \<le> x"
  shows "k \<le> binade x"
proof -
  have "(2::rat) powi k < 2 powi (binade x + 1)"
    using assms binade_bounds(2)[of x] by linarith
  then have "\<not> binade x + 1 \<le> k"
    using power_int_increasing[of "binade x + 1" k "2::rat"] by auto
  then show ?thesis by simp
qed

lemma binade_le:
  assumes "0 < x" and "x < 2 powi k"
  shows "binade x < k"
proof -
  have "(2::rat) powi (binade x) < 2 powi k"
    using assms binade_bounds(1)[of x] by linarith
  then have "\<not> k \<le> binade x"
    using power_int_increasing[of k "binade x" "2::rat"] by auto
  then show ?thesis by simp
qed

lemma round_double_normal:
  assumes "1 \<le> x"
  shows "round_double x = of_int (round_half_even (x / 2 powi (binade x - 52))) * 2 powi (binade x - 52)"
proof -
  have "0 \<le> binade x" using binade_ge[of x 0] assms by simp
  then have "max (binade x) (- 1022) = binade x" by simp
  moreover have "x \<noteq> 0" "\<bar>x\<bar> = x" "sgn x = 1" using assms by simp_all
  ultimately show ?thesis by (simp add: round_double_def Let_def)
qed

lemma round_double_lower:
  assumes "1 \<le> x"
  shows "2 powi (binade x) \<le> round_double x"
proof -
  define u :: rat where "u = 2 powi (binade x - 52)"
  have upos: "0 < u" by (simp add: u_def)
  have xpos: "0 < x" using assms by simp
  have split: "(2::rat) powi (binade x) = 2 ^ 52 * u"
    unfolding u_def by (simp add: power_int_diff)
  have "2 ^ 52 * u \<le> x" using binade_bounds(1)[OF xpos] split by simp
  then have "of_int (2 ^ 52) \<le> x / u" using upos by (simp add: le_divide_eq)
  then have "2 ^ 52 \<le> round_half_even (x / u)" by (rule round_half_even_ge)
  then have "(2::rat) ^ 52 \<le> of_int (round_half_even (x / u))" by (rule rat_pow2_le)
  then have "2 ^ 52 * u \<le> of_int (round_half_even (x / u)) * u"
    using upos by (simp add: mult_le_cancel_right)
  then show ?thesis using round_double_normal[OF assms] split by (simp add: u_def)
qed

lemma round_double_upper:
  assumes "1 \<le> x"
  shows "round_double x \<le> 2 * x"
proof -
  define u :: rat where "u = 2 powi (binade x - 52)"
  have upos: "0 < u" by (simp add: u_def)
  have xpos: "0 < x" using assms by simp
  have split: "(2::rat) powi (binade x + 1) = 2 ^ 53 * u"
    unfolding u_def by (simp add: power_int_diff power_int_add)
  have split0: "(2::rat) powi (binade x) = 2 ^ 52 * u"
    unfolding u_def by (simp add: power_int_diff)
  have "x \<le> 2 ^ 53 * u" using binade_bounds(2)[OF xpos] split by simp
  then have "x / u \<le> of_int (2 ^ 53)" using upos by (simp add: divide_le_eq)
  then have "round_half_even (x / u) \<le> 2 ^ 53" by (rule round_half_even_le)
  then have "of_int (round_half_even (x / u)) \<le> (2::rat) ^ 53" by (rule rat_le_pow2)
  then have "of_int (round_half_even (x / u)) * u \<le> 2 ^ 53 * u"
    using upos by (simp add: mult_le_cancel_right)
  also have "\<dots> = 2 * (2 ^ 52 * u)" by simp
  also have "\<dots> \<le> 2 * x" using binade_bounds(1)[OF xpos] split0 by simp
  finally show ?thesis using round_double_normal[OF assms] by (simp add: u_def)
qed

lemma round_double_ge_1: "1 \<le> x \<Longrightarrow> 1 \<le> round_double x"
proof -
  assume a: "1 \<le> x"
  have "0 \<le> binade x" using binade_ge[of x 0] a by simp
  then have "(2::rat) powi 0 \<le> 2 powi (binade x)" by (intro power_int_increasing) simp_all
  then show ?thesis using round_double_lower[OF a] by simp
qed

lemma round_double_ge_100: "100 \<le> x \<Longrightarrow> 100 \<le> round_double x"
proof -
  assume a: "100 \<le> x"
  then have x1: "1 \<le> x" and xpos: "0 < x" by simp_all
  have b6: "6 \<le> binade x" using binade_ge[of x 6] a by simp
  show ?thesis
  proof (cases "7 \<le> binade x")
    case True
    then have "(2::rat) powi 7 \<le> 2 powi (binade x)" by (intro power_int_increasing) simp_all
    then show ?thesis using round_double_lower[OF x1] by simp
  next
    case False
    with b6 have be: "binade x = 6" by simp
    define P :: int where "P = 2 ^ 46"
    have Ppos: "0 < P" by (simp add: P_def)
    have e46: "binade x - 52 = - 46" using be by simp
    have "(2::rat) powi (- 46) = inverse (2 ^ 46)"
      by (simp only: power_int_minus power_int_numeral)
    moreover have "(of_int P :: rat) = 2 ^ 46"
      unfolding P_def by (simp only: of_int_power of_int_numeral)
    ultimately have u: "(2::rat) powi (binade x - 52) = 1 / of_int P"
      by (simp only: e46 divide_inverse mult_1)
    have "of_int (100 * P) \<le> x * of_int P" using a Ppos by simp
    then have "100 * P \<le> round_half_even (x * of_int P)" by (rule round_half_even_ge)
    then have "(of_int (100 * P) :: rat) \<le> of_int (round_half_even (x * of_int P))"
      by (rule iffD2[OF of_int_le_iff])
    then have "100 * of_int P \<le> (of_int (round_half_even (x * of_int P)) :: rat)" by simp
    then have "100 \<le> (of_int (round_half_even (x * of_int P)) :: rat) / of_int P"
      using Ppos by (simp add: le_divide_eq)
    then show ?thesis using round_double_normal[OF x1] by (simp add: u)
  qed
qed

lemma occupancy_percentage_full:
  assumes "10 \<le> n" and "n < 2 ^ 1000"
  shows "occupancy_percentage n = Inr 100"
proof -
  define x :: rat where "x = of_int n / 10"
  have x1: "1 \<le> x" using assms(1) by (simp add: x_def)
  define q where "q = round_double x"
  have q1: "1 \<le> q" unfolding q_def using x1 by (rule round_double_ge_1)
  have nr: "(of_int n :: rat) < 2 ^ 1000"
    using assms(2) of_int_less_iff[of n "2 ^ 1000", where ?'a = rat] by simp
  have qu: "q \<le> 2 * x" unfolding q_def using x1 by (rule round_double_upper)
  have qlim: "\<bar>q\<bar> < double_limit"
  proof -
    have "q \<le> of_int n" using qu q1 by (simp add: x_def)
    also have "\<dots> < 2 ^ 1000" by (rule nr)
    also have "\<dots> \<le> (2::rat) ^ 1024" by (rule power_increasing) simp_all
    finally show ?thesis using q1 by (simp add: double_limit_def)
  qed
  have div: "py_truediv n 10 = Inr q"
    using qlim by (simp add: py_truediv_def max_bookings_def Let_def q_def x_def)
  define r where "r = round_double (q * 100)"
  have p100: "100 \<le> q * 100" using q1 by simp
  then have r100: "100 \<le> r" unfolding r_def by (rule round_double_ge_100)
  have "r \<le> 2 * (q * 100)" unfolding r_def using p100 by (intro round_double_upper) simp
  also have "\<dots> \<le> 40 * of_int n" using qu by (simp add: x_def)
  also have "\<dots> < 2 ^ 6 * 2 ^ 1000" using nr assms(1) by simp
  also have "\<dots> \<le> (2::rat) ^ 1024" by (simp only: power_add[symmetric]) (rule power_increasing, simp_all)
  finally have rlim: "\<bar>r\<bar> < double_limit" using r100 by (simp add: double_limit_def)
  have mul: "float_mul q 100 = Finite r"
    using rlim by (simp add: float_mul_def Let_def r_def)
  have "100 \<le> \<lfloor>r\<rfloor>" using r100 by (simp add: le_floor_iff)
  then show ?thesis using div mul r100
    by (simp add: occupancy_percentage_def max_bookings_def py_int_def)
qed

lemma floor_rat_numeral:
  "\<lfloor>(numeral a :: rat) / numeral b\<rfloor> = numeral a div numeral b"
  using floor_divide_of_int_eq[of "numeral a" "numeral b", where ?'a = rat] by simp

lemma binade_eqI:
  assumes "0 < x" and "2 powi e \<le> x" and "x < 2 powi (e + 1)"
  shows "binade x = e"
  using binade_ge[OF assms(1,2)] binade_le[OF assms(1,3)] by simp

lemma occupancy_percentage_0: "occupancy_percentage 0 = Inr 0"
  by (simp add: occupancy_percentage_def max_bookings_def py_truediv_def float_mul_def py_int_def
        round_double_def double_limit_def)

lemma binade_quotient_1: "binade (1 / 10) = - 4"
  by (rule binade_eqI) (simp_all add: power_int_minus)

lemma round_double_quotient_1: "round_double (1 / 10) = 3602879701896397 / 36028797018963968"
  by (simp add: round_double_def binade_quotient_1 round_half_even_def Let_def power_int_minus
        floor_rat_numeral)

lemma binade_product_1: "binade (90071992547409925 / 9007199254740992) = 3"
  by (rule binade_eqI) (simp_all add: power_int_minus)

lemma round_double_product_1: "round_double (90071992547409925 / 9007199254740992) = 10"
  by (simp add: round_double_def binade_product_1 round_half_even_def Let_def power_int_minus
        floor_rat_numeral)

lemma occupancy_percentage_1: "occupancy_percentage 1 = Inr 10"
  by (simp add: occupancy_percentage_def max_bookings_def py_truediv_def float_mul_def py_int_def
        round_double_quotient_1 round_double_product_1 double_limit_def)

lemma binade_quotient_2: "binade (1 / 5) = - 3"
  by (rule binade_eqI) (simp_all add: power_int_minus)

lemma round_double_quotient_2: "round_double (1 / 5) = 3602879701896397 / 18014398509481984"
  by (simp add: round_double_def binade_quotient_2 round_half_even_def Let_def power_int_minus
        floor_rat_numeral)

lemma binade_product_2: "binade (90071992547409925 / 4503599627370496) = 4"
  by (rule binade_eqI) (simp_all add: power_int_minus)

lemma round_double_product_2: "round_double (90071992547409925 / 4503599627370496) = 20"
  by (simp add: round_double_def binade_product_2 round_half_even_def Let_def power_int_minus
        floor_rat_numeral)

lemma occupancy_percentage_2: "occupancy_percentage 2 = Inr 20"
  by (simp add: occupancy_percentage_def max_bookings_def py_truediv_def float_mul_def py_int_def
        round_double_quotient_2 round_double_product_2 double_limit_def)

lemma binade_quotient_3: "binade (3 / 10) = - 2"
  by (rule binade_eqI) (simp_all add: power_int_minus)

lemma round_double_quotient_3: "round_double (3 / 10) = 5404319552844595 / 18014398509481984"
  by (simp add: round_double_def binade_quotient_3 round_half_even_def Let_def power_int_minus
        floor_rat_numeral)

lemma binade_product_3: "binade (135107988821114875 / 4503599627370496) = 4"
  by (rule binade_eqI) (simp_all add: power_int_minus)

lemma round_double_product_3: "round_double (135107988821114875 / 4503599627370496) = 30"
  by (simp add: round_double_def binade_product_3 round_half_even_def Let_def power_int_minus
        floor_rat_numeral)

lemma occupancy_percentage_3: "occupancy_percentage 3 = Inr 30"
  by (simp add: occupancy_percentage_def max_bookings_def py_truediv_def float_mul_def py_int_def
        round_double_quotient_3 round_double_product_3 double_limit_def)

lemma binade_quotient_4: "binade (2 / 5) = - 2"
  by (rule binade_eqI) (simp_all add: power_int_minus)

lemma round_double_quotient_4: "round_double (2 / 5) = 3602879701896397 / 9007199254740992"
  by (simp add: round_double_def binade_quotient_4 round_half_even_def Let_def power_int_minus
        floor_rat_numeral)

lemma binade_product_4: "binade (90071992547409925 / 2251799813685248) = 5"
  by (rule binade_eqI) (simp_all add: power_int_minus)

lemma round_double_product_4: "round_double (90071992547409925 / 2251799813685248) = 40"
  by (simp add: round_double_def binade_product_4 round_half_even_def Let_def power_int_minus
        floor_rat_numeral)

lemma occupancy_percentage_4: "occupancy_percentage 4 = Inr 40"
  by (simp add: occupancy_percentage_def max_bookings_def py_truediv_def float_mul_def py_int_def
        round_double_quotient_4 round_double_product_4 double_limit_def)

lemma binade_quotient_5: "binade (1 / 2) = - 1"
  by (rule binade_eqI) (simp_all add: power_int_minus)

lemma round_double_quotient_5: "round_double (1 / 2) = 1 / 2"
  by (simp add: round_double_def binade_quotient_5 round_half_even_def Let_def power_int_minus
        floor_rat_numeral)

lemma binade_product_5: "binade (50) = 5"
  by (rule binade_eqI) (simp_all add: power_int_minus)

lemma round_double_product_5: "round_double (50) = 50"
  by (simp add: round_double_def binade_product_5 round_half_even_def Let_def power_int_minus
        floor_rat_numeral)

lemma occupancy_percentage_5: "occupancy_percentage 5 = Inr 50"
  by (simp add: occupancy_percentage_def max_bookings_def py_truediv_def float_mul_def py_int_def
        round_double_quotient_5 round_double_product_5 double_limit_def)

lemma binade_quotient_6: "binade (3 / 5) = - 1"
  by (rule binade_eqI) (simp_all add: power_int_minus)

lemma round_double_quotient_6: "round_double (3 / 5) = 5404319552844595 / 9007199254740992"
  by (simp add: round_double_def binade_quotient_6 round_half_even_def Let_def power_int_minus
        floor_rat_numeral)

lemma binade_product_6: "binade (135107988821114875 / 2251799813685248) = 5"
  by (rule binade_eqI) (simp_all add: power_int_minus)

lemma round_double_product_6: "round_double (135107988821114875 / 2251799813685248) = 60"
  by (simp add: round_double_def binade_product_6 round_half_even_def Let_def power_int_minus
        floor_rat_numeral)

lemma occupancy_percentage_6: "occupancy_percentage 6 = Inr 60"
  by (simp add: occupancy_percentage_def max_bookings_def py_truediv_def float_mul_def py_int_def
        round_double_quotient_6 round_double_product_6 double_limit_def)

lemma binade_quotient_7: "binade (7 / 10) = - 1"
  by (rule binade_eqI) (simp_all add: power_int_minus)

lemma round_double_quotient_7: "round_double (7 / 10) = 3152519739159347 / 4503599627370496"
  by (simp add: round_double_def binade_quotient_7 round_half_even_def Let_def power_int_minus
        floor_rat_numeral)

lemma binade_product_7: "binade (78812993478983675 / 1125899906842624) = 6"
  by (rule binade_eqI) (simp_all add: power_int_minus)

lemma round_double_product_7: "round_double (78812993478983675 / 1125899906842624) = 70"
  by (simp add: round_double_def binade_product_7 round_half_even_def Let_def power_int_minus
        floor_rat_numeral)

lemma occupancy_percentage_7: "occupancy_percentage 7 = Inr 70"
  by (simp add: occupancy_percentage_def max_bookings_def py_truediv_def float_mul_def py_int_def
        round_double_quotient_7 round_double_product_7 double_limit_def)

lemma binade_quotient_8: "binade (4 / 5) = - 1"
  by (rule binade_eqI) (simp_all add: power_int_minus)

lemma round_double_quotient_8: "round_double (4 / 5) = 3602879701896397 / 4503599627370496"
  by (simp add: round_double_def binade_quotient_8 round_half_even_def Let_def power_int_minus
        floor_rat_numeral)

lemma binade_product_8: "binade (90071992547409925 / 1125899906842624) = 6"
  by (rule binade_eqI) (simp_all add: power_int_minus)

lemma round_double_product_8: "round_double (90071992547409925 / 1125899906842624) = 80"
  by (simp add: round_double_def binade_product_8 round_half_even_def Let_def power_int_minus
        floor_rat_numeral)

lemma occupancy_percentage_8: "occupancy_percentage 8 = Inr 80"
  by (simp add: occupancy_percentage_def max_bookings_def py_truediv_def float_mul_def py_int_def
        round_double_quotient_8 round_double_product_8 double_limit_def)

lemma binade_quotient_9: "binade (9 / 10) = - 1"
  by (rule binade_eqI) (simp_all add: power_int_minus)

lemma round_double_quotient_9: "round_double (9 / 10) = 8106479329266893 / 9007199254740992"
  by (simp add: round_double_def binade_quotient_9 round_half_even_def Let_def power_int_minus
        floor_rat_numeral)

lemma binade_product_9: "binade (202661983231672325 / 2251799813685248) = 6"
  by (rule binade_eqI) (simp_all add: power_int_minus)

lemma round_double_product_9: "round_double (202661983231672325 / 2251799813685248) = 90"
  by (simp add: round_double_def binade_product_9 round_half_even_def Let_def power_int_minus
        floor_rat_numeral)

lemma occupancy_percentage_9: "occupancy_percentage 9 = Inr 90"
  by (simp add: occupancy_percentage_def max_bookings_def py_truediv_def float_mul_def py_int_def
        round_double_quotient_9 round_double_product_9 double_limit_def)

lemmas occupancy_percentage_small =
  occupancy_percentage_0 occupancy_percentage_1 occupancy_percentage_2 occupancy_percentage_3
  occupancy_percentage_4 occupancy_percentage_5 occupancy_percentage_6 occupancy_percentage_7
  occupancy_percentage_8 occupancy_percentage_9

lemma occupancy_percentage_value:
  assumes "0 \<le> n" and "n < 2 ^ 1000"
  shows "occupancy_percentage n = Inr (min (10 * n) 100)"
proof (cases "10 \<le> n")
  case True
  then show ?thesis using occupancy_percentage_full[OF True assms(2)] by simp
next
  case False
  with assms(1) have "n = 9 \<or> n = 8 \<or> n = 7 \<or> n = 6 \<or> n = 5 \<or> n = 4 \<or> n = 3
      \<or> n = 2 \<or> n = 1 \<or> n = 0" by presburger
  then show ?thesis using occupancy_percentage_small by auto
qed

lemma occupancy_percentage_saturated:
  assumes "10 \<le> n" and "occupancy_percentage n = Inr p"
  shows "p = 100"
proof -
  define x :: rat where "x = of_int n / 10"
  have x1: "1 \<le> x" using assms(1) by (simp add: x_def)
  define q where "q = round_double x"
  have q1: "1 \<le> q" unfolding q_def using x1 by (rule round_double_ge_1)
  define r where "r = round_double (q * 100)"
  have "100 \<le> q * 100" using q1 by simp
  then have r100: "100 \<le> r" unfolding r_def by (rule round_double_ge_100)
  then have fl: "100 \<le> \<lfloor>r\<rfloor>" by (simp add: le_floor_iff)
  from assms(2) have "p = min \<lfloor>r\<rfloor> 100"
    using r100
    by (auto simp: occupancy_percentage_def max_bookings_def py_truediv_def float_mul_def
          py_int_def Let_def q_def[symmetric] x_def[symmetric] r_def[symmetric]
          split: if_splits sum.splits pyfloat.splits)
  then show ?thesis using fl by simp
qed

lemma occupancy_percentage_Inr:
  assumes "0 \<le> n" and "occupancy_percentage n = Inr p"
  shows "p = min (10 * n) 100"
proof (cases "10 \<le> n")
  case True
  then show ?thesis using occupancy_percentage_saturated[OF True assms(2)] by simp
next
  case False
  with assms(1) have "n = 9 \<or> n = 8 \<or> n = 7 \<or> n = 6 \<or> n = 5 \<or> n = 4 \<or> n = 3
      \<or> n = 2 \<or> n = 1 \<or> n = 0" by presburger
  then show ?thesis using occupancy_percentage_small assms(2) by auto
qed

section \<open>Rules for the threaded state\<close>

lemma bind_io_Inr:
  "bind_io m f w = (Inr b, w') \<longleftrightarrow> (\<exists>a w1. m w = (Inr a, w1) \<and> f a w1 = (Inr b, w'))"
  by (auto simp: bind_io_def split: prod.splits sum.splits)

lemma bind_io_Inl:
  "bind_io m f w = (Inl e, w') \<longleftrightarrow>
     m w = (Inl e, w') \<or> (\<exists>a w1. m w = (Inr a, w1) \<and> f a w1 = (Inl e, w'))"
  by (auto simp: bind_io_def split: prod.splits sum.splits)

lemma return_io_eq: "return_io a w = (r, w') \<longleftrightarrow> r = Inr a \<and> w' = w"
  by (auto simp: return_io_def)

lemma lift_py_eq: "lift_py x w = (r, w') \<longleftrightarrow> r = x \<and> w' = w"
  by (auto simp: lift_py_def)

lemma uuid4_eq:
  "uuid4 E w = (r, w') \<longleftrightarrow>
     r = Inr (uuid_at E (uuids_drawn w)) \<and> w' = w\<lparr>uuids_drawn := Suc (uuids_drawn w)\<rparr>"
  by (auto simp: uuid4_def)

lemma datetime_now_eq:
  "datetime_now E w = (r, w') \<longleftrightarrow>
     r = Inr (now_at E (clock_reads w)) \<and> w' = w\<lparr>clock_reads := Suc (clock_reads w)\<rparr>"
  by (auto simp: datetime_now_def)

lemma execute_Inr:
  "execute E st act w = (Inr a, w') \<longleftrightarrow>
     fault_at E (length (trace w)) = None \<and>
     (\<exists>d. act (tables w) = Inr (a, d) \<and> w' = w\<lparr>trace := trace w @ [st], tables := d\<rparr>)"
  by (auto simp: execute_def Let_def split: option.splits sum.splits)

lemma query_Inr:
  "query E tbl f w = (Inr a, w') \<longleftrightarrow>
     fault_at E (length (trace w)) = None \<and> a = f (tables w) \<and>
     w' = w\<lparr>trace := trace w @ [Select tbl]\<rparr>"
  by (auto simp: query_def execute_Inr)

lemma modify_Inr:
  "modify E st f w = (Inr a, w') \<longleftrightarrow>
     fault_at E (length (trace w)) = None \<and>
     w' = w\<lparr>trace := trace w @ [st], tables := f (tables w)\<rparr>"
  by (auto simp: modify_def execute_Inr)

lemma alter_Inr:
  "alter E st f w = (Inr a, w') \<longleftrightarrow>
     fault_at E (length (trace w)) = None \<and>
     (\<exists>d. f (tables w) = Inr d \<and> w' = w\<lparr>trace := trace w @ [st], tables := d\<rparr>)"
  by (auto simp: alter_def execute_Inr split: sum.splits)

lemma insert_into_Inr:
  "insert_into E tbl ins w = (Inr a, w') \<longleftrightarrow>
     fault_at E (length (trace w)) = None \<and>
     (\<exists>d. ins (tables w) = Inr d \<and> w' = w\<lparr>trace := trace w @ [Insert tbl], tables := d\<rparr>)"
  by (simp add: insert_into_def alter_Inr)

lemma session_begin_Inr:
  "session_begin E body w = (Inr a, w') \<longleftrightarrow>
     (\<exists>w1. body w = (Inr a, w1) \<and> fault_at E (length (trace w1)) = None \<and>
           w' = w1\<lparr>trace := trace w1 @ [Commit]\<rparr>)"
  by (auto simp: session_begin_def split: prod.splits sum.splits option.splits)

lemma session_begin_Inl:
  "session_begin E body w = (Inl e, w') \<Longrightarrow> tables w' = tables w"
  by (auto simp: session_begin_def split: prod.splits sum.splits option.splits)

lemma bind_io_InrE:
  assumes "bind_io m f w = (Inr b, w')"
  obtains a w1 where "m w = (Inr a, w1)" and "f a w1 = (Inr b, w')"
  using assms by (auto simp: bind_io_Inr)

lemma session_begin_InrE:
  assumes "session_begin E body w = (Inr a, w')"
  obtains w1 where "body w = (Inr a, w1)" and "fault_at E (length (trace w1)) = None"
    and "w' = w1\<lparr>trace := trace w1 @ [Commit]\<rparr>"
  using assms by (auto simp: session_begin_Inr)

section \<open>Bookings and occupancy\<close>

lemma update_occupancy_Inr:
  assumes "update_occupancy E c day w = (Inr u, w')"
  shows "\<exists>p. occupancy_percentage (int (length (bookings_on (tables w) c day))) = Inr p \<and>
     tables w' = (tables w)\<lparr>coworking_occupancy :=
       (if occupancy_on (tables w) c day = []
        then coworking_occupancy (tables w) @
              [\<lparr>co_id = uuid_at E (uuids_drawn w), co_coworking_id = c, co_date = day,
                co_occupancy_percentage = p,
                co_created_at = now_at E (clock_reads w),
                co_updated_at = now_at E (Suc (clock_reads w))\<rparr>]
        else map (\<lambda>r.
                  if co_coworking_id r = c \<and> co_date r = day
                  then r\<lparr>co_occupancy_percentage := p,
                         co_updated_at := now_at E (clock_reads w)\<rparr>
                  else r) (coworking_occupancy (tables w)))\<rparr>"
proof -
  have fnd: "(find (\<lambda>r. co_coworking_id r = c \<and> co_date r = day) (coworking_occupancy d) = None)
      = (occupancy_on d c day = [])" for d
    by (auto simp: occupancy_on_def find_None_iff filter_empty_conv)
  from assms obtain n w1 where
    q1: "query E ''coworking_booking''
                (\<lambda>d. int (length (filter
                    (\<lambda>b. cb_coworking_id b = c \<and> cb_booking_date b = day)
                    (coworking_booking d)))) w = (Inr n, w1)" and
    k1: "bind_io (lift_py (occupancy_percentage n)) (\<lambda>percentage.
     bind_io (query E ''coworking_occupancy''
                (\<lambda>d. find (\<lambda>r. co_coworking_id r = c \<and> co_date r = day)
                         (coworking_occupancy d))) (\<lambda>existing_record.
     case existing_record of
       Some _ \<Rightarrow>
         bind_io (datetime_now E) (\<lambda>t.
           modify E (Update ''coworking_occupancy'')
             (\<lambda>d. d\<lparr>coworking_occupancy := map (\<lambda>r.
                  if co_coworking_id r = c \<and> co_date r = day
                  then r\<lparr>co_occupancy_percentage := percentage, co_updated_at := t\<rparr>
                  else r) (coworking_occupancy d)\<rparr>))
     | None \<Rightarrow>
         bind_io (uuid4 E) (\<lambda>i.
         bind_io (datetime_now E) (\<lambda>t1.
         bind_io (datetime_now E) (\<lambda>t2.
           insert_into E ''coworking_occupancy''
             (insert_coworking_occupancy
                \<lparr>co_id = i, co_coworking_id = c, co_date = day,
                 co_occupancy_percentage = percentage,
                 co_created_at = t1, co_updated_at = t2\<rparr>)))))) w1 = (Inr u, w')"
    unfolding update_occupancy_def by (rule bind_io_InrE)
  from q1 have n: "n = int (length (bookings_on (tables w) c day))"
    and w1: "tables w1 = tables w" "clock_reads w1 = clock_reads w"
      "uuids_drawn w1 = uuids_drawn w"
    by (auto simp: query_Inr bookings_on_def)
  from k1 obtain p w1' where
    l: "lift_py (occupancy_percentage n) w1 = (Inr p, w1')" and
    k2: "bind_io (query E ''coworking_occupancy''
                (\<lambda>d. find (\<lambda>r. co_coworking_id r = c \<and> co_date r = day)
                         (coworking_occupancy d))) (\<lambda>existing_record.
     case existing_record of
       Some _ \<Rightarrow>
         bind_io (datetime_now E) (\<lambda>t.
           modify E (Update ''coworking_occupancy'')
             (\<lambda>d. d\<lparr>coworking_occupancy := map (\<lambda>r.
                  if co_coworking_id r = c \<and> co_date r = day
                  then r\<lparr>co_occupancy_percentage := p, co_updated_at := t\<rparr>
                  else r) (coworking_occupancy d)\<rparr>))
     | None \<Rightarrow>
         bind_io (uuid4 E) (\<lambda>i.
         bind_io (datetime_now E) (\<lambda>t1.
         bind_io (datetime_now E) (\<lambda>t2.
           insert_into E ''coworking_occupancy''
             (insert_coworking_occupancy
                \<lparr>co_id = i, co_coworking_id = c, co_date = day,
                 co_occupancy_percentage = p,
                 co_created_at = t1, co_updated_at = t2\<rparr>))))) w1' = (Inr u, w')"
    by (rule bind_io_InrE)
  from l have pct: "occupancy_percentage n = Inr p" and w1': "w1' = w1"
    by (auto simp: lift_py_eq)
  from k2 obtain ex w2 where
    q2: "query E ''coworking_occupancy''
                (\<lambda>d. find (\<lambda>r. co_coworking_id r = c \<and> co_date r = day)
                         (coworking_occupancy d)) w1' = (Inr ex, w2)" and
    k3: "(case ex of
       Some _ \<Rightarrow>
         bind_io (datetime_now E) (\<lambda>t.
           modify E (Update ''coworking_occupancy'')
             (\<lambda>d. d\<lparr>coworking_occupancy := map (\<lambda>r.
                  if co_coworking_id r = c \<and> co_date r = day
                  then r\<lparr>co_occupancy_percentage := p, co_updated_at := t\<rparr>
                  else r) (coworking_occupancy d)\<rparr>))
     | None \<Rightarrow>
         bind_io (uuid4 E) (\<lambda>i.
         bind_io (datetime_now E) (\<lambda>t1.
         bind_io (datetime_now E) (\<lambda>t2.
           insert_into E ''coworking_occupancy''
             (insert_coworking_occupancy
                \<lparr>co_id = i, co_coworking_id = c, co_date = day,
                 co_occupancy_percentage = p,
                 co_created_at = t1, co_updated_at = t2\<rparr>))))) w2 = (Inr u, w')"
    by (rule bind_io_InrE)
  from q2 w1 w1' have ex: "ex = find (\<lambda>r. co_coworking_id r = c \<and> co_date r = day)
                         (coworking_occupancy (tables w))"
    and tw2: "tables w2 = tables w" "clock_reads w2 = clock_reads w"
       "uuids_drawn w2 = uuids_drawn w"
    by (auto simp: query_Inr)
  show ?thesis
  proof (cases ex)
    case None
    then have emp: "occupancy_on (tables w) c day = []" using fnd[of "tables w"] by (simp add: ex)
    from k3 None tw2 show ?thesis
      by (auto simp: pct[unfolded n] emp bind_io_Inr uuid4_eq datetime_now_eq insert_into_Inr
            insert_coworking_occupancy_def split: if_splits)
  next
    case (Some r0)
    then have nemp: "occupancy_on (tables w) c day \<noteq> []" using fnd[of "tables w"] by (simp add: ex)
    from k3 Some tw2 show ?thesis
      by (auto simp: pct[unfolded n] nemp bind_io_Inr datetime_now_eq modify_Inr)
  qed
qed

lemma update_occupancy_trace:
  assumes "update_occupancy E c day w = (Inr u, w')"
  shows "trace w' = trace w @ [Select ''coworking_booking'', Select ''coworking_occupancy'',
           if occupancy_on (tables w) c day = [] then Insert ''coworking_occupancy''
           else Update ''coworking_occupancy'']"
proof -
  have fnd: "(find (\<lambda>r. co_coworking_id r = c \<and> co_date r = day) (coworking_occupancy d) = None)
      = (occupancy_on d c day = [])" for d
    by (auto simp: occupancy_on_def find_None_iff filter_empty_conv)
  show ?thesis
    using assms unfolding update_occupancy_def
    apply (elim bind_io_InrE)
    apply (clarsimp simp: query_Inr lift_py_eq)
    apply (auto simp: bind_io_Inr uuid4_eq datetime_now_eq insert_into_Inr modify_Inr fnd
        simp flip: fnd split: option.splits)
    done
qed

lemma create_booking_Inr:
  assumes "CoworkingRepository_create_booking E c day nm ph w = (Inr b, w')"
  shows "\<exists>p. b = uuid_at E (uuids_drawn w) \<and>
     b \<notin> cb_id ` set (coworking_booking (tables w)) \<and>
     c \<in> cs_id ` set (coworking_space (tables w)) \<and>
     occupancy_percentage (int (length (bookings_on (tables w) c day)) + 1) = Inr p \<and>
     tables w' = (tables w)\<lparr>
       coworking_booking := coworking_booking (tables w) @
          [\<lparr>cb_id = b, cb_coworking_id = c, cb_booking_date = day, cb_customer_name = nm,
            cb_customer_phone = ph, cb_created_at = now_at E (clock_reads w),
            cb_updated_at = now_at E (Suc (clock_reads w))\<rparr>],
       coworking_occupancy :=
       (if occupancy_on (tables w) c day = []
        then coworking_occupancy (tables w) @
              [\<lparr>co_id = uuid_at E (Suc (uuids_drawn w)), co_coworking_id = c, co_date = day,
                co_occupancy_percentage = p,
                co_created_at = now_at E (Suc (Suc (clock_reads w))),
                co_updated_at = now_at E (Suc (Suc (Suc (clock_reads w))))\<rparr>]
        else map (\<lambda>r.
                  if co_coworking_id r = c \<and> co_date r = day
                  then r\<lparr>co_occupancy_percentage := p,
                         co_updated_at := now_at E (Suc (Suc (clock_reads w)))\<rparr>
                  else r) (coworking_occupancy (tables w)))\<rparr>"
  using assms unfolding CoworkingRepository_create_booking_def
  apply (elim bind_io_InrE session_begin_InrE)
  apply (drule update_occupancy_Inr)
  apply (clarsimp simp: uuid4_eq datetime_now_eq insert_into_Inr return_io_eq
      insert_coworking_booking_def bookings_on_def occupancy_on_def add.commute
      split: if_splits)
  done

lemma create_booking_Inl:
  assumes "CoworkingRepository_create_booking E c day nm ph w = (Inl e, w')"
  shows "tables w' = tables w"
  using assms unfolding CoworkingRepository_create_booking_def
  by (auto simp: bind_io_Inl uuid4_eq return_io_eq dest!: session_begin_Inl)

lemma create_booking_trace:
  assumes "CoworkingRepository_create_booking E c day nm ph w = (Inr b, w')"
  shows "trace w' = trace w @ [Insert ''coworking_booking'', Select ''coworking_booking'',
           Select ''coworking_occupancy'',
           if occupancy_on (tables w) c day = [] then Insert ''coworking_occupancy''
           else Update ''coworking_occupancy'', Commit]"
  using assms unfolding CoworkingRepository_create_booking_def
  apply (elim bind_io_InrE session_begin_InrE)
  apply (drule update_occupancy_trace)
  apply (clarsimp simp: uuid4_eq datetime_now_eq insert_into_Inr return_io_eq
      insert_coworking_booking_def occupancy_on_def split: if_splits)
  done


lemma occupancy_on_append:
  "occupancy_on (d\<lparr>coworking_occupancy := coworking_occupancy d @ [r]\<rparr>) c day =
     occupancy_on d c day @ (if co_coworking_id r = c \<and> co_date r = day then [r] else [])"
  by (simp add: occupancy_on_def)

lemma filter_map_keep:
  assumes "\<And>r. P (f r) = P r"
  shows "filter P (map f rs) = map f (filter P rs)"
  using assms by (induction rs) auto

lemma create_booking_bookings_on:
  assumes "CoworkingRepository_create_booking E c day nm ph w = (Inr b, w')"
  shows "length (bookings_on (tables w') c' day') =
           length (bookings_on (tables w) c' day') + (if c' = c \<and> day' = day then 1 else 0)"
  using create_booking_Inr[OF assms] by (auto simp: bookings_on_def)

lemma create_booking_occupancy_other:
  assumes "CoworkingRepository_create_booking E c day nm ph w = (Inr b, w')"
    and "(c', day') \<noteq> (c, day)"
  shows "occupancy_on (tables w') c' day' = occupancy_on (tables w) c' day'"
proof -
  from create_booking_Inr[OF assms(1)] obtain p where
    t: "tables w' = (tables w)\<lparr>
       coworking_booking := coworking_booking (tables w) @
          [\<lparr>cb_id = b, cb_coworking_id = c, cb_booking_date = day, cb_customer_name = nm,
            cb_customer_phone = ph, cb_created_at = now_at E (clock_reads w),
            cb_updated_at = now_at E (Suc (clock_reads w))\<rparr>],
       coworking_occupancy :=
       (if occupancy_on (tables w) c day = []
        then coworking_occupancy (tables w) @
              [\<lparr>co_id = uuid_at E (Suc (uuids_drawn w)), co_coworking_id = c, co_date = day,
                co_occupancy_percentage = p,
                co_created_at = now_at E (Suc (Suc (clock_reads w))),
                co_updated_at = now_at E (Suc (Suc (Suc (clock_reads w))))\<rparr>]
        else map (\<lambda>r.
                  if co_coworking_id r = c \<and> co_date r = day
                  then r\<lparr>co_occupancy_percentage := p,
                         co_updated_at := now_at E (Suc (Suc (clock_reads w)))\<rparr>
                  else r) (coworking_occupancy (tables w)))\<rparr>" by blast
  have "filter (\<lambda>r. co_coworking_id r = c' \<and> co_date r = day')
          (map (\<lambda>r. if co_coworking_id r = c \<and> co_date r = day
                  then r\<lparr>co_occupancy_percentage := p,
                         co_updated_at := now_at E (Suc (Suc (clock_reads w)))\<rparr>
                  else r) rs) = filter (\<lambda>r. co_coworking_id r = c' \<and> co_date r = day') rs" for rs
    using assms(2) by (induction rs) auto
  then show ?thesis using assms(2) by (auto simp: t occupancy_on_def)
qed

lemma create_booking_occupancy_same:
  assumes "CoworkingRepository_create_booking E c day nm ph w = (Inr b, w')"
  shows "\<exists>p. occupancy_percentage (int (length (bookings_on (tables w') c day))) = Inr p \<and>
           occupancy_on (tables w') c day \<noteq> [] \<and>
           length (occupancy_on (tables w') c day) = max 1 (length (occupancy_on (tables w) c day)) \<and>
           (\<forall>r \<in> set (occupancy_on (tables w') c day). co_occupancy_percentage r = p)"
proof -
  from create_booking_Inr[OF assms] obtain p where
    pct: "occupancy_percentage (int (length (bookings_on (tables w) c day)) + 1) = Inr p" and
    t: "tables w' = (tables w)\<lparr>
       coworking_booking := coworking_booking (tables w) @
          [\<lparr>cb_id = b, cb_coworking_id = c, cb_booking_date = day, cb_customer_name = nm,
            cb_customer_phone = ph, cb_created_at = now_at E (clock_reads w),
            cb_updated_at = now_at E (Suc (clock_reads w))\<rparr>],
       coworking_occupancy :=
       (if occupancy_on (tables w) c day = []
        then coworking_occupancy (tables w) @
              [\<lparr>co_id = uuid_at E (Suc (uuids_drawn w)), co_coworking_id = c, co_date = day,
                co_occupancy_percentage = p,
                co_created_at = now_at E (Suc (Suc (clock_reads w))),
                co_updated_at = now_at E (Suc (Suc (Suc (clock_reads w))))\<rparr>]
        else map (\<lambda>r.
                  if co_coworking_id r = c \<and> co_date r = day
                  then r\<lparr>co_occupancy_percentage := p,
                         co_updated_at := now_at E (Suc (Suc (clock_reads w)))\<rparr>
                  else r) (coworking_occupancy (tables w)))\<rparr>" by blast
  have len: "int (length (bookings_on (tables w') c day)) = int (length (bookings_on (tables w) c day)) + 1"
    using create_booking_bookings_on[OF assms, of c day] by simp
  have m: "filter (\<lambda>r. co_coworking_id r = c \<and> co_date r = day)
          (map (\<lambda>r. if co_coworking_id r = c \<and> co_date r = day
                  then r\<lparr>co_occupancy_percentage := p,
                         co_updated_at := now_at E (Suc (Suc (clock_reads w)))\<rparr>
                  else r) rs) =
        map (\<lambda>r. r\<lparr>co_occupancy_percentage := p,
                         co_updated_at := now_at E (Suc (Suc (clock_reads w)))\<rparr>)
          (filter (\<lambda>r. co_coworking_id r = c \<and> co_date r = day) rs)" for rs
    by (induction rs) auto
  show ?thesis
  proof (cases "occupancy_on (tables w) c day = []")
    case True
    then show ?thesis using pct len by (auto simp: t occupancy_on_def)
  next
    case False
    then have "1 \<le> length (occupancy_on (tables w) c day)" by (cases "occupancy_on (tables w) c day") auto
    with False show ?thesis using pct len
      by (auto simp: t occupancy_on_def m max_def)
  qed
qed

section \<open>Occupancy after a sequence of bookings\<close>

lemmas io_defs = bind_io_def return_io_def raise_io_def try_except_def lift_py_def uuid4_def
  datetime_now_def logger_def execute_def query_def modify_def alter_def insert_into_def
  session_begin_def

lemmas fixture_defs = reliable_env_def failing_env_def one_space_world_def empty_database_def
  one_event_world_def new_year_10am_def empty_world_def


lemma create_bookings_occupancy:
  assumes "create_bookings E reqs w = Some w'"
    and "bookings_on (tables w) c day \<noteq> [] \<longrightarrow>
           occupancy_on (tables w) c day \<noteq> [] \<and>
           (\<forall>r \<in> set (occupancy_on (tables w) c day).
              co_occupancy_percentage r = min (10 * int (length (bookings_on (tables w) c day))) 100)"
  shows "length (bookings_on (tables w') c day) =
           length (bookings_on (tables w) c day)
             + length (filter (\<lambda>q. fst q = c \<and> fst (snd q) = day) reqs) \<and>
         (bookings_on (tables w') c day \<noteq> [] \<longrightarrow>
           occupancy_on (tables w') c day \<noteq> [] \<and>
           (\<forall>r \<in> set (occupancy_on (tables w') c day).
              co_occupancy_percentage r = min (10 * int (length (bookings_on (tables w') c day))) 100))"
  using assms
proof (induction reqs arbitrary: w)
  case Nil
  then show ?case by simp
next
  case (Cons q reqs)
  obtain c1 day1 nm ph where q: "q = (c1, day1, nm, ph)" by (cases q) auto
  from Cons.prems(1) obtain b w1 where
    step: "CoworkingRepository_create_booking E c1 day1 nm ph w = (Inr b, w1)" and
    rest: "create_bookings E reqs w1 = Some w'"
    by (auto simp: q split: prod.splits sum.splits)
  have cnt: "length (bookings_on (tables w1) c day) =
      length (bookings_on (tables w) c day) + (if c = c1 \<and> day = day1 then 1 else 0)"
    by (rule create_booking_bookings_on[OF step])
  have inv1: "bookings_on (tables w1) c day \<noteq> [] \<longrightarrow>
           occupancy_on (tables w1) c day \<noteq> [] \<and>
           (\<forall>r \<in> set (occupancy_on (tables w1) c day).
              co_occupancy_percentage r = min (10 * int (length (bookings_on (tables w1) c day))) 100)"
  proof (cases "c = c1 \<and> day = day1")
    case True
    from create_booking_occupancy_same[OF step] obtain p where
      p: "occupancy_percentage (int (length (bookings_on (tables w1) c1 day1))) = Inr p" and
      ne: "occupancy_on (tables w1) c1 day1 \<noteq> []" and
      all: "\<forall>r \<in> set (occupancy_on (tables w1) c1 day1). co_occupancy_percentage r = p"
      by blast
    have "p = min (10 * int (length (bookings_on (tables w1) c1 day1))) 100"
      by (rule occupancy_percentage_Inr[OF _ p]) simp
    with ne all True show ?thesis by simp
  next
    case False
    then have "(c, day) \<noteq> (c1, day1)" by simp
    from create_booking_occupancy_other[OF step this]
    have "occupancy_on (tables w1) c day = occupancy_on (tables w) c day" .
    moreover have "length (bookings_on (tables w1) c day) = length (bookings_on (tables w) c day)"
      using cnt False by simp
    ultimately show ?thesis using Cons.prems(2) by (metis length_0_conv)
  qed
  from Cons.IH[OF rest inv1] cnt show ?case by (auto simp: q)
qed

text \<open>
  Claim C1.  Start where a coworking space has no booking on a date, and let a sequence of
  \<^verbatim>\<open>create_booking\<close> calls return, \<open>N \<ge> 1\<close> of them for that space and date (the
  others are for other pairs).  Then the pair has \<open>N\<close> bookings, the occupancy table
  holds a row for the pair, and every row for the pair carries the percentage
  \<open>min(100, 10 * N)\<close>, which is what the float expression
  \<^verbatim>\<open>min(int((N / 10) * 100), 100)\<close> evaluates to.
\<close>

theorem occupancy_after_bookings:
  assumes "bookings_on (tables w) c day = []"
    and "create_bookings E reqs w = Some w'"
    and "N = length (filter (\<lambda>q. fst q = c \<and> fst (snd q) = day) reqs)"
    and "0 < N"
  shows "length (bookings_on (tables w') c day) = N \<and>
         occupancy_on (tables w') c day \<noteq> [] \<and>
         (\<forall>r \<in> set (occupancy_on (tables w') c day).
            co_occupancy_percentage r = min 100 (10 * int N))"
proof -
  from create_bookings_occupancy[OF assms(2), of c day] assms(1)
  have len: "length (bookings_on (tables w') c day) = N"
    and imp: "bookings_on (tables w') c day \<noteq> [] \<longrightarrow>
           occupancy_on (tables w') c day \<noteq> [] \<and>
           (\<forall>r \<in> set (occupancy_on (tables w') c day).
              co_occupancy_percentage r = min (10 * int (length (bookings_on (tables w') c day))) 100)"
    by (simp_all add: assms(3))
  from len assms(4) have "bookings_on (tables w') c day \<noteq> []" by auto
  with imp len show ?thesis by (simp add: min.commute)
qed

lemma three_bookings_run:
  "\<exists>w'. create_bookings reliable_env
          [(1, 5, ''Ann'', ''111''), (1, 5, ''Bob'', ''222''), (1, 5, ''Eve'', ''333'')]
          one_space_world = Some w'"
  by (simp add: CoworkingRepository_create_booking_def update_occupancy_def io_defs fixture_defs
        insert_coworking_booking_def insert_coworking_occupancy_def occupancy_percentage_small)

text \<open>Three bookings of space 1 on day 5 give 30 per cent.\<close>

theorem occupancy_after_bookings_witness:
  "\<exists>w'. create_bookings reliable_env
          [(1, 5, ''Ann'', ''111''), (1, 5, ''Bob'', ''222''), (1, 5, ''Eve'', ''333'')]
          one_space_world = Some w' \<and>
        length (bookings_on (tables w') 1 5) = 3 \<and>
        occupancy_on (tables w') 1 5 \<noteq> [] \<and>
        (\<forall>r \<in> set (occupancy_on (tables w') 1 5). co_occupancy_percentage r = 30)"
proof -
  from three_bookings_run obtain w' where
    run: "create_bookings reliable_env
          [(1, 5, ''Ann'', ''111''), (1, 5, ''Bob'', ''222''), (1, 5, ''Eve'', ''333'')]
          one_space_world = Some w'" by blast
  have start: "bookings_on (tables one_space_world) 1 5 = []"
    by (simp add: bookings_on_def fixture_defs)
  have n: "(3::nat) = length (filter (\<lambda>q. fst q = (1::nat) \<and> fst (snd q) = (5::nat))
          [(1, 5, ''Ann'', ''111''), (1, 5, ''Bob'', ''222''), (1, 5, ''Eve'', ''333'')])"
    by simp
  from occupancy_after_bookings[OF start run n] run show ?thesis by simp
qed

section \<open>One occupancy row per pair, and atomicity of a booking\<close>

lemma empty_database_invariant: "occupancy_invariant empty_database"
  by (simp add: occupancy_invariant_def occupancy_on_def bookings_on_def empty_database_def)

text \<open>
  Claim C4.  The invariant: a pair of coworking space and date has no occupancy row while
  it has no booking and exactly one row once it has a booking.  Every call of
  \<^verbatim>\<open>create_booking\<close> (one call at a time: the calls do not overlap) from a state
  with the invariant ends in a state with it, whether it returns or raises.  When it
  returns and the pair had a row, that row is updated where it stands: it carries the
  percentage of the new booking count and the clock reading of the update, it keeps its
  id, and every row of another pair is as before.  When it returns and the pair had no
  row, exactly one row is appended, for the pair and with that percentage.
\<close>

theorem create_booking_keeps_one_occupancy_row:
  assumes "occupancy_invariant (tables w)"
    and "CoworkingRepository_create_booking E c day nm ph w = (r, w')"
  shows "occupancy_invariant (tables w') \<and>
         (\<forall>b. r = Inr b \<longrightarrow>
            (if occupancy_on (tables w) c day = []
             then \<exists>row. coworking_occupancy (tables w') = coworking_occupancy (tables w) @ [row]
                    \<and> co_coworking_id row = c \<and> co_date row = day
                    \<and> co_occupancy_percentage row =
                        min (10 * int (length (bookings_on (tables w') c day))) 100
             else coworking_occupancy (tables w') =
                    map (\<lambda>row. if co_coworking_id row = c \<and> co_date row = day
                           then row\<lparr>co_occupancy_percentage :=
                                      min (10 * int (length (bookings_on (tables w') c day))) 100,
                                    co_updated_at := now_at E (clock_reads w + 2)\<rparr>
                           else row) (coworking_occupancy (tables w))
                    \<and> map co_id (coworking_occupancy (tables w')) = map co_id (coworking_occupancy (tables w))
                    \<and> length (occupancy_on (tables w') c day) = 1))"
proof (cases r)
  case (Inl e)
  with assms(2) have "tables w' = tables w" by (simp add: create_booking_Inl)
  with assms(1) Inl show ?thesis by simp
next
  case (Inr b)
  with assms(2) have run: "CoworkingRepository_create_booking E c day nm ph w = (Inr b, w')" by simp
  have inv: "length (occupancy_on (tables w) c' day') = (if bookings_on (tables w) c' day' = [] then 0 else 1)"
    for c' day' using assms(1) by (simp add: occupancy_invariant_def)
  have "length (occupancy_on (tables w') c' day') = (if bookings_on (tables w') c' day' = [] then 0 else 1)"
    for c' day'
  proof (cases "(c', day') = (c, day)")
    case True
    from create_booking_occupancy_same[OF run] have
      "length (occupancy_on (tables w') c day) = max 1 (length (occupancy_on (tables w) c day))" by blast
    moreover have "bookings_on (tables w') c day \<noteq> []"
      using create_booking_bookings_on[OF run, of c day] by auto
    ultimately show ?thesis using True inv[of c day] by auto
  next
    case False
    from create_booking_occupancy_other[OF run False]
    have "occupancy_on (tables w') c' day' = occupancy_on (tables w) c' day'" .
    moreover have "length (bookings_on (tables w') c' day') = length (bookings_on (tables w) c' day')"
      using create_booking_bookings_on[OF run, of c' day'] False by auto
    ultimately show ?thesis using inv[of c' day'] by (metis length_0_conv)
  qed
  then have I: "occupancy_invariant (tables w')" by (simp add: occupancy_invariant_def)
  from create_booking_Inr[OF run] obtain p where
    pct: "occupancy_percentage (int (length (bookings_on (tables w) c day)) + 1) = Inr p" and
    t: "tables w' = (tables w)\<lparr>
       coworking_booking := coworking_booking (tables w) @
          [\<lparr>cb_id = b, cb_coworking_id = c, cb_booking_date = day, cb_customer_name = nm,
            cb_customer_phone = ph, cb_created_at = now_at E (clock_reads w),
            cb_updated_at = now_at E (Suc (clock_reads w))\<rparr>],
       coworking_occupancy :=
       (if occupancy_on (tables w) c day = []
        then coworking_occupancy (tables w) @
              [\<lparr>co_id = uuid_at E (Suc (uuids_drawn w)), co_coworking_id = c, co_date = day,
                co_occupancy_percentage = p,
                co_created_at = now_at E (Suc (Suc (clock_reads w))),
                co_updated_at = now_at E (Suc (Suc (Suc (clock_reads w))))\<rparr>]
        else map (\<lambda>r.
                  if co_coworking_id r = c \<and> co_date r = day
                  then r\<lparr>co_occupancy_percentage := p,
                         co_updated_at := now_at E (Suc (Suc (clock_reads w)))\<rparr>
                  else r) (coworking_occupancy (tables w)))\<rparr>" by blast
  have cnt: "int (length (bookings_on (tables w') c day)) =
             int (length (bookings_on (tables w) c day)) + 1"
    using create_booking_bookings_on[OF run, of c day] by simp
  have p: "p = min (10 * int (length (bookings_on (tables w') c day))) 100"
    by (rule occupancy_percentage_Inr[OF _ pct[folded cnt]]) simp
  have one: "occupancy_on (tables w) c day \<noteq> [] \<Longrightarrow> length (occupancy_on (tables w') c day) = 1"
  proof -
    assume ne: "occupancy_on (tables w) c day \<noteq> []"
    then have "length (occupancy_on (tables w) c day) = 1" using inv[of c day] by (auto split: if_splits)
    then show ?thesis using create_booking_occupancy_same[OF run] by auto
  qed
  have occ: "coworking_occupancy (tables w') =
       (if occupancy_on (tables w) c day = []
        then coworking_occupancy (tables w) @
              [\<lparr>co_id = uuid_at E (Suc (uuids_drawn w)), co_coworking_id = c, co_date = day,
                co_occupancy_percentage = p,
                co_created_at = now_at E (Suc (Suc (clock_reads w))),
                co_updated_at = now_at E (Suc (Suc (Suc (clock_reads w))))\<rparr>]
        else map (\<lambda>r.
                  if co_coworking_id r = c \<and> co_date r = day
                  then r\<lparr>co_occupancy_percentage := p,
                         co_updated_at := now_at E (Suc (Suc (clock_reads w)))\<rparr>
                  else r) (coworking_occupancy (tables w)))"
    by (simp add: t)
  show ?thesis
  proof (cases "occupancy_on (tables w) c day = []")
    case True
    then show ?thesis using I Inr by (simp add: occ p[symmetric])
  next
    case False
    have ids: "map co_id (coworking_occupancy (tables w')) = map co_id (coworking_occupancy (tables w))"
      by (simp add: occ False comp_def)
    from False show ?thesis using I Inr one ids by (simp add: occ p[symmetric])
  qed
qed

text \<open>
  Two bookings of space 1 on day 5, one after the other: the first appends the row (10 per
  cent), the second updates that row to 20 per cent and to the clock reading 6, and the
  table still has the one row, with its id.
\<close>

theorem create_booking_keeps_one_occupancy_row_witness:
  "occupancy_invariant (tables one_space_world) \<and>
   (\<exists>w1 w2. CoworkingRepository_create_booking reliable_env 1 5 ''Ann'' ''111'' one_space_world
              = (Inr 100, w1) \<and>
           occupancy_invariant (tables w1) \<and>
           occupancy_on (tables w1) 1 5 \<noteq> [] \<and>
           coworking_occupancy (tables w1) =
             [\<lparr>co_id = 101, co_coworking_id = 1, co_date = 5, co_occupancy_percentage = 10,
               co_created_at = 2, co_updated_at = 3\<rparr>] \<and>
           CoworkingRepository_create_booking reliable_env 1 5 ''Bob'' ''222'' w1 = (Inr 102, w2) \<and>
           occupancy_invariant (tables w2) \<and>
           coworking_occupancy (tables w2) =
             [\<lparr>co_id = 101, co_coworking_id = 1, co_date = 5, co_occupancy_percentage = 20,
               co_created_at = 2, co_updated_at = 6\<rparr>])"
proof -
  define w1 where "w1 = snd (CoworkingRepository_create_booking reliable_env 1 5 ''Ann'' ''111''
                               one_space_world)"
  define w2 where "w2 = snd (CoworkingRepository_create_booking reliable_env 1 5 ''Bob'' ''222'' w1)"
  have I: "occupancy_invariant (tables one_space_world)"
    by (simp add: occupancy_invariant_def occupancy_on_def bookings_on_def fixture_defs)
  have run1: "CoworkingRepository_create_booking reliable_env 1 5 ''Ann'' ''111'' one_space_world
              = (Inr 100, w1)"
    unfolding w1_def
    by (simp add: CoworkingRepository_create_booking_def update_occupancy_def io_defs fixture_defs
        insert_coworking_booking_def insert_coworking_occupancy_def occupancy_percentage_small)
  have occ1: "coworking_occupancy (tables w1) =
             [\<lparr>co_id = 101, co_coworking_id = 1, co_date = 5, co_occupancy_percentage = 10,
               co_created_at = 2, co_updated_at = 3\<rparr>]"
    and bk1: "length (bookings_on (tables w1) 1 5) = 1"
    and ck1: "clock_reads w1 = 4"
    unfolding w1_def
    by (simp_all add: CoworkingRepository_create_booking_def update_occupancy_def io_defs fixture_defs
        insert_coworking_booking_def insert_coworking_occupancy_def occupancy_percentage_small
        bookings_on_def)
  have run2: "CoworkingRepository_create_booking reliable_env 1 5 ''Bob'' ''222'' w1 = (Inr 102, w2)"
    unfolding w2_def w1_def
    by (simp add: CoworkingRepository_create_booking_def update_occupancy_def io_defs fixture_defs
        insert_coworking_booking_def insert_coworking_occupancy_def occupancy_percentage_small)
  have ne1: "occupancy_on (tables w1) 1 5 \<noteq> []"
    by (simp add: occupancy_on_def occ1)
  from create_booking_keeps_one_occupancy_row[OF I run1]
  have I1: "occupancy_invariant (tables w1)" by blast
  have two: "length (bookings_on (tables w2) 1 5) = 2"
    using create_booking_bookings_on[OF run2, of 1 5] bk1 by simp
  from create_booking_keeps_one_occupancy_row[OF I1 run2] ne1
  have I2: "occupancy_invariant (tables w2)"
    and occ2: "coworking_occupancy (tables w2) =
                    map (\<lambda>row. if co_coworking_id row = 1 \<and> co_date row = 5
                           then row\<lparr>co_occupancy_percentage :=
                                      min (10 * int (length (bookings_on (tables w2) 1 5))) 100,
                                    co_updated_at := now_at reliable_env (clock_reads w1 + 2)\<rparr>
                           else row) (coworking_occupancy (tables w1))"
    by simp_all
  have "coworking_occupancy (tables w2) =
             [\<lparr>co_id = 101, co_coworking_id = 1, co_date = 5, co_occupancy_percentage = 20,
               co_created_at = 2, co_updated_at = 6\<rparr>]"
    unfolding occ2 using two by (simp add: occ1 ck1 reliable_env_def)
  with I run1 I1 ne1 occ1 run2 I2 show ?thesis by blast
qed

text \<open>
  Claim C5.  \<^verbatim>\<open>create_booking\<close> sends the booking insert and the statements of the
  occupancy recomputation inside one \<^verbatim>\<open>session.begin()\<close> block.  When it raises, at
  whatever statement (the occupancy upsert or the commit among them), the tables are those
  from before the call: no booking row stays without its occupancy update.  When it
  returns, it has sent exactly the insert, the two selects, the upsert and one commit, the
  pair has one booking more, and an occupancy row for the pair exists.
\<close>

theorem create_booking_atomic:
  assumes "CoworkingRepository_create_booking E c day nm ph w = (r, w')"
  shows "(\<forall>e. r = Inl e \<longrightarrow> tables w' = tables w) \<and>
         (\<forall>b. r = Inr b \<longrightarrow>
            sent w w' = [Insert ''coworking_booking'', Select ''coworking_booking'',
                         Select ''coworking_occupancy'',
                         if occupancy_on (tables w) c day = [] then Insert ''coworking_occupancy''
                         else Update ''coworking_occupancy'',
                         Commit] \<and>
            length (bookings_on (tables w') c day) = length (bookings_on (tables w) c day) + 1 \<and>
            occupancy_on (tables w') c day \<noteq> [])"
proof (cases r)
  case (Inl e)
  with assms show ?thesis by (simp add: create_booking_Inl)
next
  case (Inr b)
  with assms have run: "CoworkingRepository_create_booking E c day nm ph w = (Inr b, w')" by simp
  from create_booking_trace[OF run] have "sent w w' =
      [Insert ''coworking_booking'', Select ''coworking_booking'', Select ''coworking_occupancy'',
       if occupancy_on (tables w) c day = [] then Insert ''coworking_occupancy''
       else Update ''coworking_occupancy'', Commit]"
    by (simp add: sent_def)
  moreover from create_booking_bookings_on[OF run, of c day]
  have "length (bookings_on (tables w') c day) = length (bookings_on (tables w) c day) + 1" by simp
  moreover from create_booking_occupancy_same[OF run]
  have "occupancy_on (tables w') c day \<noteq> []" by blast
  ultimately show ?thesis using Inr by simp
qed

text \<open>
  The store refuses the fourth statement, the occupancy upsert, after it has accepted the
  booking insert: the call raises and the booking table is as before.
\<close>

theorem create_booking_atomic_witness:
  "\<exists>w'. CoworkingRepository_create_booking
           (failing_env 3 (Operational ''connection lost'')) 1 5 ''Ann'' ''111''
           one_space_world = (Inl (OperationalError ''connection lost''), w') \<and>
        trace w' = [Insert ''coworking_booking'', Select ''coworking_booking'',
                    Select ''coworking_occupancy'', Insert ''coworking_occupancy'', Rollback] \<and>
        tables w' = tables one_space_world \<and>
        coworking_booking (tables w') = []"
proof -
  have "\<exists>w'. CoworkingRepository_create_booking
           (failing_env 3 (Operational ''connection lost'')) 1 5 ''Ann'' ''111''
           one_space_world = (Inl (OperationalError ''connection lost''), w') \<and>
        trace w' = [Insert ''coworking_booking'', Select ''coworking_booking'',
                    Select ''coworking_occupancy'', Insert ''coworking_occupancy'', Rollback]"
    by (simp add: CoworkingRepository_create_booking_def update_occupancy_def io_defs fixture_defs
        insert_coworking_booking_def insert_coworking_occupancy_def occupancy_percentage_small)
  then obtain w' where
    run: "CoworkingRepository_create_booking
           (failing_env 3 (Operational ''connection lost'')) 1 5 ''Ann'' ''111''
           one_space_world = (Inl (OperationalError ''connection lost''), w')" and
    tr: "trace w' = [Insert ''coworking_booking'', Select ''coworking_booking'',
                    Select ''coworking_occupancy'', Insert ''coworking_occupancy'', Rollback]"
    by blast
  from create_booking_atomic[OF run] have same: "tables w' = tables one_space_world" by simp
  have "coworking_booking (tables one_space_world) = []" by (simp add: fixture_defs)
  with run tr same show ?thesis by auto
qed

section \<open>Updating an event\<close>

lemma update_event_Inr:
  assumes "EventRepository_update_event E i title description short_description start_date
             location image_path organizer_id w = (Inr b, w')"
  shows "b = True \<and>
    tables w' = (tables w)\<lparr>
      event := map (\<lambda>e. if ev_id e = i
          then e\<lparr>ev_updated_at := now_at E (clock_reads w),
                 ev_title := (case title of None \<Rightarrow> ev_title e | Some v \<Rightarrow> v),
                 ev_description := (case description of None \<Rightarrow> ev_description e | Some v \<Rightarrow> v),
                 ev_short_description :=
                   (case short_description of None \<Rightarrow> ev_short_description e | Some v \<Rightarrow> v),
                 ev_start_date :=
                   (case start_date of None \<Rightarrow> ev_start_date e | Some v \<Rightarrow> store_timestamp E v),
                 ev_location := (case location of None \<Rightarrow> ev_location e | Some v \<Rightarrow> v),
                 ev_image_path := (case image_path of None \<Rightarrow> ev_image_path e | Some v \<Rightarrow> Some v)\<rparr>
          else e) (event (tables w)),
      event_organizer :=
        (case organizer_id of
           None \<Rightarrow> event_organizer (tables w)
         | Some oid \<Rightarrow> filter (\<lambda>l. eo_event_id l \<noteq> i) (event_organizer (tables w))
                        @ [\<lparr>eo_event_id = i, eo_organizer_id = oid\<rparr>])\<rparr> \<and>
    sent w w' = Update ''event'' #
        (case organizer_id of None \<Rightarrow> []
         | Some oid \<Rightarrow> [Delete ''event_organizer'', Insert ''event_organizer'']) @ [Commit]"
proof (cases organizer_id)
  case None
  show ?thesis
    using assms unfolding EventRepository_update_event_def None
    apply (elim bind_io_InrE session_begin_InrE)
    apply (clarsimp simp: datetime_now_eq alter_Inr return_io_eq update_event_rows_def sent_def
        split: if_splits)
    done
next
  case (Some oid)
  show ?thesis
    using assms unfolding EventRepository_update_event_def Some
    apply (elim bind_io_InrE session_begin_InrE)
    apply (clarsimp simp: bind_io_Inr datetime_now_eq alter_Inr modify_Inr insert_into_Inr
        return_io_eq update_event_rows_def insert_event_organizer_def sent_def split: if_splits)
    done
qed

text \<open>
  Claim C6.  When \<^verbatim>\<open>update_event\<close> returns: the event table has the same rows in
  the same places; a row with another id is as before; a row with the given id keeps its
  id and \<^verbatim>\<open>created_at\<close>, has \<^verbatim>\<open>updated_at\<close> set to the clock reading of the
  call, and in every other column has the supplied value if one was supplied and its old
  value if \<^verbatim>\<open>None\<close> was (so an update that supplies only the location changes the
  location and \<^verbatim>\<open>updated_at\<close> only).  When an organizer id is supplied, the link
  rows of the event are deleted first and the one new link is inserted after; without one
  the links are as before.  No other table changes.
\<close>

theorem update_event_frame:
  assumes "EventRepository_update_event E i title description short_description start_date
             location image_path organizer_id w = (Inr b, w')"
  shows "length (event (tables w')) = length (event (tables w)) \<and>
    (\<forall>k < length (event (tables w)).
       (ev_id (event (tables w) ! k) \<noteq> i \<longrightarrow> event (tables w') ! k = event (tables w) ! k) \<and>
       (ev_id (event (tables w) ! k) = i \<longrightarrow>
          ev_id (event (tables w') ! k) = i \<and>
          ev_created_at (event (tables w') ! k) = ev_created_at (event (tables w) ! k) \<and>
          ev_updated_at (event (tables w') ! k) = now_at E (clock_reads w) \<and>
          ev_title (event (tables w') ! k) =
            (case title of None \<Rightarrow> ev_title (event (tables w) ! k) | Some v \<Rightarrow> v) \<and>
          ev_description (event (tables w') ! k) =
            (case description of None \<Rightarrow> ev_description (event (tables w) ! k) | Some v \<Rightarrow> v) \<and>
          ev_short_description (event (tables w') ! k) =
            (case short_description of None \<Rightarrow> ev_short_description (event (tables w) ! k)
             | Some v \<Rightarrow> v) \<and>
          ev_start_date (event (tables w') ! k) =
            (case start_date of None \<Rightarrow> ev_start_date (event (tables w) ! k)
             | Some v \<Rightarrow> store_timestamp E v) \<and>
          ev_location (event (tables w') ! k) =
            (case location of None \<Rightarrow> ev_location (event (tables w) ! k) | Some v \<Rightarrow> v) \<and>
          ev_image_path (event (tables w') ! k) =
            (case image_path of None \<Rightarrow> ev_image_path (event (tables w) ! k)
             | Some v \<Rightarrow> Some v))) \<and>
    (case organizer_id of
       None \<Rightarrow> event_organizer (tables w') = event_organizer (tables w) \<and>
                sent w w' = [Update ''event'', Commit]
     | Some oid \<Rightarrow>
         event_organizer (tables w') =
           filter (\<lambda>l. eo_event_id l \<noteq> i) (event_organizer (tables w))
             @ [\<lparr>eo_event_id = i, eo_organizer_id = oid\<rparr>] \<and>
         sent w w' = [Update ''event'', Delete ''event_organizer'', Insert ''event_organizer'',
                      Commit]) \<and>
    organizer (tables w') = organizer (tables w) \<and>
    event_registration (tables w') = event_registration (tables w) \<and>
    coworking_space (tables w') = coworking_space (tables w) \<and>
    coworking_booking (tables w') = coworking_booking (tables w) \<and>
    coworking_occupancy (tables w') = coworking_occupancy (tables w)"
proof -
  note r = update_event_Inr[OF assms]
  from r have t: "tables w' = (tables w)\<lparr>
      event := map (\<lambda>e. if ev_id e = i
          then e\<lparr>ev_updated_at := now_at E (clock_reads w),
                 ev_title := (case title of None \<Rightarrow> ev_title e | Some v \<Rightarrow> v),
                 ev_description := (case description of None \<Rightarrow> ev_description e | Some v \<Rightarrow> v),
                 ev_short_description :=
                   (case short_description of None \<Rightarrow> ev_short_description e | Some v \<Rightarrow> v),
                 ev_start_date :=
                   (case start_date of None \<Rightarrow> ev_start_date e | Some v \<Rightarrow> store_timestamp E v),
                 ev_location := (case location of None \<Rightarrow> ev_location e | Some v \<Rightarrow> v),
                 ev_image_path := (case image_path of None \<Rightarrow> ev_image_path e | Some v \<Rightarrow> Some v)\<rparr>
          else e) (event (tables w)),
      event_organizer :=
        (case organizer_id of
           None \<Rightarrow> event_organizer (tables w)
         | Some oid \<Rightarrow> filter (\<lambda>l. eo_event_id l \<noteq> i) (event_organizer (tables w))
                        @ [\<lparr>eo_event_id = i, eo_organizer_id = oid\<rparr>])\<rparr>" by blast
  from r have s: "sent w w' = Update ''event'' #
        (case organizer_id of None \<Rightarrow> []
         | Some oid \<Rightarrow> [Delete ''event_organizer'', Insert ''event_organizer'']) @ [Commit]"
    by blast
  show ?thesis unfolding t s by (simp split: option.splits)
qed

text \<open>
  Only the location is supplied: the title, the descriptions and the start date stay, the
  location and \<^verbatim>\<open>updated_at\<close> change.  An organizer id is supplied: the old link
  is gone and the new one is the only one.
\<close>

theorem update_event_frame_witness:
  "(\<exists>w'. EventRepository_update_event reliable_env 10 None None None None (Some ''Hall B'')
            None None one_event_world = (Inr True, w') \<and>
         event (tables w') =
           [\<lparr>ev_id = 10, ev_title = ''Demo'', ev_description = ''A long text'',
             ev_short_description = ''Short'', ev_start_date = new_year_10am,
             ev_location = ''Hall B'', ev_image_path = None,
             ev_created_at = 1, ev_updated_at = 7\<rparr>] \<and>
         event_organizer (tables w') = [\<lparr>eo_event_id = 10, eo_organizer_id = 20\<rparr>]) \<and>
   (\<exists>w'. EventRepository_update_event reliable_env 10 None None None None None
            None (Some 21) one_event_world = (Inr True, w') \<and>
         event_organizer (tables w') = [\<lparr>eo_event_id = 10, eo_organizer_id = 21\<rparr>] \<and>
         sent one_event_world w' = [Update ''event'', Delete ''event_organizer'',
                                    Insert ''event_organizer'', Commit])"
proof -
  have "\<exists>w'. EventRepository_update_event reliable_env 10 None None None None (Some ''Hall B'')
            None None one_event_world = (Inr True, w')"
    by (simp add: EventRepository_update_event_def update_event_rows_def io_defs fixture_defs)
  then obtain w1 where
    run1: "EventRepository_update_event reliable_env 10 None None None None (Some ''Hall B'')
            None None one_event_world = (Inr True, w1)" by blast
  have "\<exists>w'. EventRepository_update_event reliable_env 10 None None None None None
            None (Some 21) one_event_world = (Inr True, w')"
    by (simp add: EventRepository_update_event_def update_event_rows_def
          insert_event_organizer_def io_defs fixture_defs)
  then obtain w2 where
    run2: "EventRepository_update_event reliable_env 10 None None None None None
            None (Some 21) one_event_world = (Inr True, w2)" by blast
  have ev: "event (tables one_event_world) =
       [\<lparr>ev_id = 10, ev_title = ''Demo'', ev_description = ''A long text'',
                  ev_short_description = ''Short'', ev_start_date = new_year_10am,
                  ev_location = ''Hall A'', ev_image_path = None,
                  ev_created_at = 1, ev_updated_at = 1\<rparr>]"
    and eo: "event_organizer (tables one_event_world) = [\<lparr>eo_event_id = 10, eo_organizer_id = 20\<rparr>]"
    and ck: "clock_reads one_event_world = 7" "now_at reliable_env 7 = 7"
    by (simp_all add: one_event_world_def empty_database_def reliable_env_def)
  from update_event_frame[OF run1] have
    a: "event (tables w1) =
           [\<lparr>ev_id = 10, ev_title = ''Demo'', ev_description = ''A long text'',
             ev_short_description = ''Short'', ev_start_date = new_year_10am,
             ev_location = ''Hall B'', ev_image_path = None,
             ev_created_at = 1, ev_updated_at = 7\<rparr>]"
    and b: "event_organizer (tables w1) = [\<lparr>eo_event_id = 10, eo_organizer_id = 20\<rparr>]"
    by (auto simp: ev eo ck length_Suc_conv intro!: event_row.equality)
  from update_event_frame[OF run2] have
    c: "event_organizer (tables w2) = [\<lparr>eo_event_id = 10, eo_organizer_id = 21\<rparr>]"
    and d: "sent one_event_world w2 = [Update ''event'', Delete ''event_organizer'',
                                    Insert ''event_organizer'', Commit]"
    by (simp_all add: eo)
  from run1 a b run2 c d show ?thesis by blast
qed

section \<open>Ids without a row\<close>

lemma no_faultsD: "no_faults E \<Longrightarrow> fault_at E n = None"
  by (simp add: no_faults_def)

lemma delete_event_no_faults:
  "no_faults E \<Longrightarrow> fst (EventRepository_delete_event E i w) = Inr True"
  by (simp add: EventRepository_delete_event_def io_defs no_faultsD)

lemma delete_organizer_no_faults:
  "no_faults E \<Longrightarrow> fst (OrganizerRepository_delete_organizer E i w) = Inr True"
  by (simp add: OrganizerRepository_delete_organizer_def io_defs no_faultsD)

lemma delete_coworking_space_no_faults:
  "no_faults E \<Longrightarrow> fst (CoworkingRepository_delete_coworking_space E i w) = Inr True"
  by (simp add: CoworkingRepository_delete_coworking_space_def io_defs no_faultsD)

lemma update_coworking_space_no_faults:
  "no_faults E \<Longrightarrow> fst (CoworkingRepository_update_coworking_space E i n d l p w) = Inr True"
  by (simp add: CoworkingRepository_update_coworking_space_def io_defs no_faultsD)

lemma update_organizer_no_faults:
  "no_faults E \<Longrightarrow> fst (OrganizerRepository_update_organizer E i n d p w) = Inr True"
  by (simp add: OrganizerRepository_update_organizer_def io_defs no_faultsD)

lemma update_event_missing_None:
  assumes "no_faults E" and "i \<notin> ev_id ` set (event (tables w))"
  shows "fst (EventRepository_update_event E i t d s sd l p None w) = Inr True"
proof -
  have "update_event_rows i f (tables w) = Inr ((tables w)\<lparr>event :=
          map (\<lambda>e. if ev_id e = i then f e else e) (event (tables w))\<rparr>)" for f
    using assms(2) by (auto simp: update_event_rows_def)
  then show ?thesis
    by (simp add: EventRepository_update_event_def io_defs no_faultsD[OF assms(1)])
qed

lemma update_event_missing_Some:
  assumes "no_faults E" and "i \<notin> ev_id ` set (event (tables w))"
  shows "EventRepository_update_event E i t d s sd l p (Some oid) w =
           (Inl (foreign_key_violation ''event_organizer'' ''event_organizer_event_id_fkey''),
            w\<lparr>clock_reads := Suc (clock_reads w),
              trace := trace w @ [Update ''event'', Delete ''event_organizer'',
                                  Insert ''event_organizer'', Rollback]\<rparr>)"
proof -
  have nomatch: "map (\<lambda>e. if ev_id e = i then f e else e) (event (tables w)) = event (tables w)" for f
    using assms(2) by (intro map_idI) auto
  have "update_event_rows i f (tables w) = Inr (tables w)" for f
    using assms(2) by (auto simp: update_event_rows_def nomatch)
  moreover have "insert_event_organizer \<lparr>eo_event_id = i, eo_organizer_id = oid\<rparr>
          ((tables w)\<lparr>event_organizer := filter (\<lambda>l. eo_event_id l \<noteq> i) (event_organizer (tables w))\<rparr>)
        = Inl (foreign_key_violation ''event_organizer'' ''event_organizer_event_id_fkey'')"
    using assms(2) by (auto simp: insert_event_organizer_def)
  ultimately show ?thesis
    by (simp add: EventRepository_update_event_def io_defs no_faultsD[OF assms(1)])
qed

lemma try_except_Inr: "m w = (Inr a, w') \<Longrightarrow> try_except m h w = (Inr a, w')"
  by (simp add: try_except_def)

lemma fst_try_except_Inr: "fst (m w) = Inr a \<Longrightarrow> fst (try_except m h w) = Inr a"
  by (cases "m w") (auto simp: try_except_def)

lemma foreign_key_not_duplicate:
  "\<not> py_in ''duplicate key value violates unique constraint''
       (exn_str (foreign_key_violation ''event_organizer'' ''event_organizer_event_id_fkey''))"
  by (simp add: foreign_key_violation_def)

lemma service_update_event_missing_Some:
  assumes "no_faults E" and "i \<notin> ev_id ` set (event (tables w))"
  shows "fst (EventService_update_event E i t d s sd l p (Some oid) w) =
           Inl (foreign_key_violation ''event_organizer'' ''event_organizer_event_id_fkey'')"
  using foreign_key_not_duplicate
  by (simp add: EventService_update_event_def try_except_def
        update_event_missing_Some[OF assms] on_integrity_error_def raise_io_def
        foreign_key_violation_def)

lemma router_delete_event_missing:
  assumes "no_faults E" and "i \<notin> ev_id ` set (event (tables w))"
  shows "fst (event_router_delete_event E i w) = Inl (HTTPException 404 ''Event not found'')"
proof -
  have "find (\<lambda>e. ev_id e = i) (event (tables w)) = None"
    using assms(2) by (auto simp: find_None_iff)
  then show ?thesis
    by (simp add: event_router_delete_event_def EventService_get_event_by_id_def
          EventRepository_get_event_by_id_def io_defs no_faultsD[OF assms(1)])
qed

lemma router_delete_coworking_space_missing:
  assumes "no_faults E" and "i \<notin> cs_id ` set (coworking_space (tables w))"
  shows "fst (coworking_router_delete_coworking_space E i w) =
           Inl (HTTPException 404 ''Coworking space not found'')"
proof -
  have "find (\<lambda>e. cs_id e = i) (coworking_space (tables w)) = None"
    using assms(2) by (auto simp: find_None_iff)
  then show ?thesis
    by (simp add: coworking_router_delete_coworking_space_def
          CoworkingService_get_coworking_by_id_def
          CoworkingRepository_get_coworking_by_id_def io_defs no_faultsD[OF assms(1)])
qed

text \<open>
  Claim C10, as amended.  When the store refuses nothing of its own accord, the delete
  operations and the updates of coworking spaces and organizers return \<open>True\<close> for every
  id, with a row or without, at repository and service level; so does \<^verbatim>\<open>update_event\<close>
  without an organizer id for an id that has no row.  With an organizer id supplied,
  \<^verbatim>\<open>update_event\<close> for an id that has no row raises the integrity error of the foreign
  key from the link table to the event table, in the repository and, unchanged, in the
  service.  The routers' existence pre-checks answer a missing id with 404.
\<close>

theorem missing_id_detected_only_by_link_insert:
  assumes "no_faults E"
  shows "fst (EventRepository_delete_event E i w) = Inr True \<and>
         fst (EventService_delete_event E i w) = Inr True \<and>
         fst (OrganizerRepository_delete_organizer E i w) = Inr True \<and>
         fst (CoworkingRepository_delete_coworking_space E i w) = Inr True \<and>
         fst (CoworkingService_delete_coworking_space E i w) = Inr True \<and>
         fst (CoworkingRepository_update_coworking_space E i n d l p w) = Inr True \<and>
         fst (CoworkingService_update_coworking_space E i n d l p w) = Inr True \<and>
         fst (OrganizerRepository_update_organizer E i n' d' p w) = Inr True \<and>
         (i \<notin> ev_id ` set (event (tables w)) \<longrightarrow>
            fst (EventRepository_update_event E i t ds s sd l p None w) = Inr True \<and>
            fst (EventService_update_event E i t ds s sd l p None w) = Inr True \<and>
            fst (EventRepository_update_event E i t ds s sd l p (Some oid) w) =
              Inl (foreign_key_violation ''event_organizer'' ''event_organizer_event_id_fkey'') \<and>
            fst (EventService_update_event E i t ds s sd l p (Some oid) w) =
              Inl (foreign_key_violation ''event_organizer'' ''event_organizer_event_id_fkey'') \<and>
            fst (event_router_delete_event E i w) = Inl (HTTPException 404 ''Event not found'')) \<and>
         (i \<notin> cs_id ` set (coworking_space (tables w)) \<longrightarrow>
            fst (coworking_router_delete_coworking_space E i w) =
              Inl (HTTPException 404 ''Coworking space not found''))"
proof -
  have a: "fst (EventService_delete_event E i w) = Inr True"
    by (simp add: EventService_delete_event_def delete_event_no_faults[OF assms])
  have b: "fst (CoworkingService_delete_coworking_space E i w) = Inr True"
    unfolding CoworkingService_delete_coworking_space_def
    by (rule fst_try_except_Inr) (rule delete_coworking_space_no_faults[OF assms])
  have c: "fst (CoworkingService_update_coworking_space E i n d l p w) = Inr True"
    unfolding CoworkingService_update_coworking_space_def
    by (rule fst_try_except_Inr) (rule update_coworking_space_no_faults[OF assms])
  have e: "fst (EventService_update_event E i t ds s sd l p None w) = Inr True"
    if "i \<notin> ev_id ` set (event (tables w))"
    unfolding EventService_update_event_def
    by (rule fst_try_except_Inr) (rule update_event_missing_None[OF assms that])
  show ?thesis
    using a b c e delete_event_no_faults[OF assms] delete_organizer_no_faults[OF assms]
      delete_coworking_space_no_faults[OF assms] update_coworking_space_no_faults[OF assms]
      update_organizer_no_faults[OF assms] update_event_missing_None[OF assms]
      update_event_missing_Some[OF assms] service_update_event_missing_Some[OF assms]
      router_delete_event_missing[OF assms] router_delete_coworking_space_missing[OF assms]
    by simp
qed

lemma reliable_env_no_faults: "no_faults reliable_env"
  by (simp add: no_faults_def reliable_env_def)

text \<open>Event 5 has no row in a store whose only event is event 10.\<close>

theorem missing_id_detected_only_by_link_insert_witness:
  "no_faults reliable_env \<and> 5 \<notin> ev_id ` set (event (tables one_event_world)) \<and>
   5 \<notin> cs_id ` set (coworking_space (tables one_event_world)) \<and>
   fst (EventRepository_delete_event reliable_env 5 one_event_world) = Inr True \<and>
   fst (EventRepository_update_event reliable_env 5 None None None None (Some ''Hall B'') None
          None one_event_world) = Inr True \<and>
   fst (EventService_update_event reliable_env 5 None None None None (Some ''Hall B'') None
          (Some 20) one_event_world) =
     Inl (foreign_key_violation ''event_organizer'' ''event_organizer_event_id_fkey'') \<and>
   fst (event_router_delete_event reliable_env 5 one_event_world) =
     Inl (HTTPException 404 ''Event not found'') \<and>
   fst (coworking_router_delete_coworking_space reliable_env 5 one_event_world) =
     Inl (HTTPException 404 ''Coworking space not found'')"
proof -
  have m: "5 \<notin> ev_id ` set (event (tables one_event_world))"
    "5 \<notin> cs_id ` set (coworking_space (tables one_event_world))"
    by (simp_all add: one_event_world_def empty_database_def)
  from missing_id_detected_only_by_link_insert[OF reliable_env_no_faults,
      where i = 5 and w = one_event_world and t = None and ds = None and s = None
        and sd = None and l = "Some ''Hall B''" and p = None and oid = 20] m
    reliable_env_no_faults
  show ?thesis by simp
qed

text \<open>
  The claim as stated fails here: the event id 5 has no row, an organizer id is supplied,
  and \<^verbatim>\<open>update_event\<close> raises instead of returning \<open>True\<close>.
\<close>

theorem update_event_missing_id_counterexample:
  \<open>fst (EventRepository_update_event reliable_env 5 None None None None (Some ''Hall B'') None
          (Some 20) one_event_world) =
     Inl (IntegrityError (''insert or update on table "event_organizer" ''
            @ ''violates foreign key constraint "event_organizer_event_id_fkey"''))\<close>
  by (simp add: EventRepository_update_event_def update_event_rows_def insert_event_organizer_def
        foreign_key_violation_def io_defs fixture_defs)

section \<open>The duplicate pre-check of \<^verbatim>\<open>create_event\<close>\<close>

lemma scan_events_eq:
  "scan_events title sd evs =
     (if \<exists>ev \<in> set evs. es_title ev = title \<and> same_minute (es_start_date ev) sd
      then Inl (EventDuplicateError (duplicate_message title sd)) else Inr ())"
  by (induction evs) (auto simp: same_minute_def Let_def)

lemma scanned_duplicate:
  "(\<exists>ev \<in> set (map summary_of (sort_key k (event d))).
       es_title ev = title \<and> same_minute (es_start_date ev) sd) = duplicate_stored d title sd"
  by (auto simp: duplicate_stored_def summary_of_def)

lemma scanned_duplicate':
  "(\<exists>ev \<in> set (event d).
       es_title (summary_of ev) = title \<and> same_minute (es_start_date (summary_of ev)) sd)
     = duplicate_stored d title sd"
  by (auto simp: duplicate_stored_def summary_of_def)

lemma store_exn_not_duplicate: "\<not> is_EventDuplicateError (store_exn e)"
  by (cases e) auto

lemma store_exn_storage: "is_storage_error (store_exn e)"
  by (cases e) auto

lemma precheck_refused:
  assumes "fault_at E (length (trace w)) = Some e"
  shows "create_event_precheck E title sd w =
     (Inr (), w\<lparr>trace := trace w @ [Select ''event''],
               log_records := log_records w @
                 [(''ERROR'', ''Error checking for duplicate events: '' @ exn_str (store_exn e))]\<rparr>)"
  using assms store_exn_not_duplicate[of e]
  by (simp add: create_event_precheck_def EventRepository_get_all_events_def io_defs)

lemma precheck_scanned:
  assumes "fault_at E (length (trace w)) = None"
  shows "create_event_precheck E title sd w =
     (if duplicate_stored (tables w) title sd
      then Inl (EventDuplicateError (duplicate_message title sd)) else Inr (),
      w\<lparr>trace := trace w @ [Select ''event'']\<rparr>)"
  using assms
  by (simp add: create_event_precheck_def EventRepository_get_all_events_def io_defs
        scan_events_eq scanned_duplicate')

lemma precheck_raises_duplicate_only:
  assumes "create_event_precheck E title sd w = (Inl x, w')"
  shows "x = EventDuplicateError (duplicate_message title sd) \<and>
         duplicate_stored (tables w) title sd \<and> fault_at E (length (trace w)) = None"
proof (cases "fault_at E (length (trace w))")
  case None
  from assms show ?thesis unfolding precheck_scanned[OF None] by (auto simp: None split: if_splits)
next
  case (Some e)
  from assms show ?thesis unfolding precheck_refused[OF Some] by simp
qed

lemma organizer_step_storage_error:
  assumes "create_event_organizer E n d p w = (Inl e, w')"
  shows "is_storage_error e"
  using assms store_exn_storage
  by (auto simp: create_event_organizer_def OrganizerRepository_get_all_organizers_def
        OrganizerRepository_update_organizer_def OrganizerRepository_create_organizer_def
        insert_organizer_def unique_violation_def io_defs Let_def
        split: if_splits option.splits sum.splits prod.splits)

lemma organizer_step_trace:
  assumes "create_event_organizer E n d p w = (r, w')"
  shows "length (trace w) \<le> length (trace w')"
  using assms
  by (auto simp: create_event_organizer_def OrganizerRepository_get_all_organizers_def
        OrganizerRepository_update_organizer_def OrganizerRepository_create_organizer_def
        insert_organizer_def unique_violation_def io_defs Let_def
        split: if_splits option.splits sum.splits prod.splits)

lemma repo_create_event_sends_insert:
  assumes "EventRepository_create_event E t d s sd l p oid w = (r, w')"
  shows "Insert ''event'' \<in> set (sent w w')"
  using assms
  by (auto simp: EventRepository_create_event_def sent_def io_defs Let_def
        split: if_splits option.splits sum.splits prod.splits)

lemma insert_step_sends_insert:
  assumes "create_event_insert E t d s sd l p oid w = (r, w')"
  shows "Insert ''event'' \<in> set (sent w w')"
proof -
  obtain r1 w1 where run: "EventRepository_create_event E t d s sd l p oid w = (r1, w1)"
    by (cases "EventRepository_create_event E t d s sd l p oid w")
  from repo_create_event_sends_insert[OF run] have "Insert ''event'' \<in> set (sent w w1)" .
  moreover have "trace w' = trace w1"
    using assms run
    by (auto simp: create_event_insert_def try_except_def on_integrity_error_def io_defs
          split: sum.splits exn.splits if_splits)
  ultimately show ?thesis by (simp add: sent_def)
qed

text \<open>
  Claim C2, as amended.  Let the scan of the events, the first statement
  \<^verbatim>\<open>create_event\<close> sends, not be refused by the store.  Then \<^verbatim>\<open>create_event\<close> raises
  \<^verbatim>\<open>EventDuplicateError\<close> without having sent any insert, update or delete if and
  only if a stored event has the requested title and a start date equal to the requested
  one in year, month, day, hour and minute (seconds, microseconds and offset play no
  part).  In that case the scan is the only statement sent and the tables are untouched.
\<close>

theorem duplicate_precheck_iff:
  assumes "fault_at E (length (trace w)) = None"
    and "EventService_create_event E title description short_description start_date location
           image_path organizer_name organizer_description organizer_image_path w = (r, w')"
  shows "(((\<exists>m. r = Inl (EventDuplicateError m)) \<and> (\<forall>s \<in> set (sent w w'). \<not> is_write s))
            \<longleftrightarrow> duplicate_stored (tables w) title start_date) \<and>
         (duplicate_stored (tables w) title start_date \<longrightarrow>
            r = Inl (EventDuplicateError (duplicate_message title start_date)) \<and>
            sent w w' = [Select ''event''] \<and> tables w' = tables w)"
proof (cases "duplicate_stored (tables w) title start_date")
  case True
  from assms(2) have "r = Inl (EventDuplicateError (duplicate_message title start_date))"
    and "w' = w\<lparr>trace := trace w @ [Select ''event'']\<rparr>"
    unfolding EventService_create_event_def
    by (simp_all add: bind_io_def precheck_scanned[OF assms(1)] True)
  then show ?thesis using True by (simp add: sent_def)
next
  case False
  define w1 where "w1 = w\<lparr>trace := trace w @ [Select ''event'']\<rparr>"
  have pre: "create_event_precheck E title start_date w = (Inr (), w1)"
    by (simp add: precheck_scanned[OF assms(1)] False w1_def)
  have "\<exists>s \<in> set (sent w w'). is_write s" if dup: "r = Inl (EventDuplicateError m)" for m
  proof -
    from assms(2) pre have
      "bind_io (create_event_organizer E organizer_name organizer_description
                  organizer_image_path)
         (\<lambda>organizer_id. create_event_insert E title description short_description start_date
             location image_path organizer_id) w1 = (Inl (EventDuplicateError m), w')"
      unfolding EventService_create_event_def by (simp add: bind_io_def dup)
    then consider
      (org) "create_event_organizer E organizer_name organizer_description
                  organizer_image_path w1 = (Inl (EventDuplicateError m), w')"
    | (ins) oid w2 where "create_event_organizer E organizer_name organizer_description
                  organizer_image_path w1 = (Inr oid, w2)"
        and "create_event_insert E title description short_description start_date
             location image_path oid w2 = (Inl (EventDuplicateError m), w')"
      by (auto simp: bind_io_Inl)
    then show ?thesis
    proof cases
      case org
      from organizer_step_storage_error[OF org] show ?thesis by simp
    next
      case ins
      from insert_step_sends_insert[OF ins(2)] have i: "Insert ''event'' \<in> set (sent w2 w')" .
      from organizer_step_trace[OF ins(1)] have "length (trace w) \<le> length (trace w2)"
        by (simp add: w1_def)
      then have "set (sent w2 w') \<subseteq> set (sent w w')"
        unfolding sent_def by (rule set_drop_subset_set_drop)
      with i have "Insert ''event'' \<in> set (sent w w')" by blast
      then show ?thesis by (rule bexI[rotated]) simp
    qed
  qed
  with False show ?thesis by auto
qed

text \<open>
  The stored event Demo starts at 10:00:00 UTC; the request is for Demo at 10:00:30 with
  the offset +03:00.
\<close>

theorem duplicate_precheck_iff_witness:
  "fault_at reliable_env (length (trace one_event_world)) = None \<and>
   duplicate_stored (tables one_event_world) ''Demo''
     (new_year_10am\<lparr>dt_second := 30, dt_utcoffset := Some 180\<rparr>) \<and>
   (\<exists>w'. EventService_create_event reliable_env ''Demo'' ''Text'' ''Short''
            (new_year_10am\<lparr>dt_second := 30, dt_utcoffset := Some 180\<rparr>) ''Hall C'' None
            (Some ''Acme'') None None one_event_world
          = (Inl (EventDuplicateError (duplicate_message ''Demo''
                    (new_year_10am\<lparr>dt_second := 30, dt_utcoffset := Some 180\<rparr>))), w') \<and>
         sent one_event_world w' = [Select ''event''] \<and>
         tables w' = tables one_event_world)"
proof -
  have f: "fault_at reliable_env (length (trace one_event_world)) = None"
    by (simp add: reliable_env_def)
  have d: "duplicate_stored (tables one_event_world) ''Demo''
     (new_year_10am\<lparr>dt_second := 30, dt_utcoffset := Some 180\<rparr>)"
    by (simp add: duplicate_stored_def same_minute_def fixture_defs)
  obtain r w' where run: "EventService_create_event reliable_env ''Demo'' ''Text'' ''Short''
            (new_year_10am\<lparr>dt_second := 30, dt_utcoffset := Some 180\<rparr>) ''Hall C'' None
            (Some ''Acme'') None None one_event_world = (r, w')"
    by (cases "EventService_create_event reliable_env ''Demo'' ''Text'' ''Short''
            (new_year_10am\<lparr>dt_second := 30, dt_utcoffset := Some 180\<rparr>) ''Hall C'' None
            (Some ''Acme'') None None one_event_world")
  from duplicate_precheck_iff[OF f run] d run f show ?thesis by auto
qed

text \<open>
  The claim as stated, without the condition on the scan, fails here.  Demo is stored for
  10:00:00 and requested again for 10:00:30, the same minute; the store refuses the scan
  and accepts what follows.  The handler of the pre-check swallows the error, no
  \<^verbatim>\<open>EventDuplicateError\<close> is raised and the second Demo is inserted.
\<close>

theorem refused_scan_misses_duplicate_counterexample:
  "duplicate_stored (tables one_event_world) ''Demo'' (new_year_10am\<lparr>dt_second := 30\<rparr>) \<and>
   fst (EventService_create_event (failing_env 0 (Operational ''connection lost''))
          ''Demo'' ''Text'' ''Short'' (new_year_10am\<lparr>dt_second := 30\<rparr>) ''Hall C'' None
          None None None one_event_world) = Inr 100 \<and>
   map ev_title (event (tables (snd (EventService_create_event
          (failing_env 0 (Operational ''connection lost''))
          ''Demo'' ''Text'' ''Short'' (new_year_10am\<lparr>dt_second := 30\<rparr>) ''Hall C'' None
          None None None one_event_world)))) = [''Demo'', ''Demo'']"
  by (simp add: duplicate_stored_def same_minute_def EventService_create_event_def
        create_event_precheck_def EventRepository_get_all_events_def
        create_event_organizer_def create_event_insert_def EventRepository_create_event_def
        insert_event_def truthy_def io_defs fixture_defs)

text \<open>
  Claim C8.  When the store refuses the scan of the pre-check, \<^verbatim>\<open>create_event\<close>
  records the error with \<^verbatim>\<open>logger.error\<close> and goes on: the call is the resolution
  of the organizer followed by the insert, run from the state in which the scan has been
  sent and the error logged.  And the pre-check raises nothing but the duplicate signal:
  whatever it raises is an \<^verbatim>\<open>EventDuplicateError\<close>.
\<close>

theorem precheck_failure_continues:
  "(\<forall>e. fault_at E (length (trace w)) = Some e \<longrightarrow>
      EventService_create_event E title description short_description start_date location
        image_path organizer_name organizer_description organizer_image_path w =
      bind_io (create_event_organizer E organizer_name organizer_description organizer_image_path)
        (\<lambda>organizer_id. create_event_insert E title description short_description start_date
            location image_path organizer_id)
        (w\<lparr>trace := trace w @ [Select ''event''],
           log_records := log_records w @
             [(''ERROR'', ''Error checking for duplicate events: '' @ exn_str (store_exn e))]\<rparr>)) \<and>
   (\<forall>x w1. create_event_precheck E title start_date w = (Inl x, w1) \<longrightarrow> is_EventDuplicateError x)"
proof -
  have "EventService_create_event E title description short_description start_date location
        image_path organizer_name organizer_description organizer_image_path w =
      bind_io (create_event_organizer E organizer_name organizer_description organizer_image_path)
        (\<lambda>organizer_id. create_event_insert E title description short_description start_date
            location image_path organizer_id)
        (w\<lparr>trace := trace w @ [Select ''event''],
           log_records := log_records w @
             [(''ERROR'', ''Error checking for duplicate events: '' @ exn_str (store_exn e))]\<rparr>)"
    if "fault_at E (length (trace w)) = Some e" for e
    unfolding EventService_create_event_def
    by (subst bind_io_def) (simp add: precheck_refused[OF that])
  moreover have "is_EventDuplicateError x"
    if "create_event_precheck E title start_date w = (Inl x, w1)" for x w1
    using precheck_raises_duplicate_only[OF that] by simp
  ultimately show ?thesis by blast
qed

text \<open>
  The connection is lost at the scan and back afterwards: the event Other is inserted
  all the same, and the log holds the error.
\<close>

theorem precheck_failure_continues_witness:
  "fault_at (failing_env 0 (Operational ''connection lost'')) (length (trace one_event_world))
     = Some (Operational ''connection lost'') \<and>
   (\<exists>w'. EventService_create_event (failing_env 0 (Operational ''connection lost''))
            ''Other'' ''Text'' ''Short'' new_year_10am ''Hall C'' None None None None
            one_event_world = (Inr 100, w') \<and>
         map ev_title (event (tables w')) = [''Demo'', ''Other''] \<and>
         sent one_event_world w' = [Select ''event'', Insert ''event'', Commit] \<and>
         log_records w' = [(''ERROR'', ''Error checking for duplicate events: connection lost'')])"
proof -
  have f: "fault_at (failing_env 0 (Operational ''connection lost''))
             (length (trace one_event_world)) = Some (Operational ''connection lost'')"
    by (simp add: fixture_defs)
  from precheck_failure_continues[of "failing_env 0 (Operational ''connection lost'')"
      one_event_world "''Other''" "''Text''" "''Short''" new_year_10am "''Hall C''"
      None None None None] f
  have "EventService_create_event (failing_env 0 (Operational ''connection lost''))
            ''Other'' ''Text'' ''Short'' new_year_10am ''Hall C'' None None None None
            one_event_world =
      bind_io (create_event_organizer (failing_env 0 (Operational ''connection lost'')) None None None)
        (\<lambda>organizer_id. create_event_insert (failing_env 0 (Operational ''connection lost''))
            ''Other'' ''Text'' ''Short'' new_year_10am ''Hall C'' None organizer_id)
        (one_event_world\<lparr>trace := trace one_event_world @ [Select ''event''],
           log_records := log_records one_event_world @
             [(''ERROR'', ''Error checking for duplicate events: ''
                 @ exn_str (store_exn (Operational ''connection lost'')))]\<rparr>)"
    by blast
  then show ?thesis using f
    by (simp add: create_event_organizer_def create_event_insert_def
          EventRepository_create_event_def insert_event_def truthy_def sent_def
          io_defs fixture_defs)
qed

section \<open>Integrity errors of the event insert\<close>

lemma service_reaches_insert:
  assumes "create_event_precheck E title start_date w0 = (Inr (), wa)"
    and "create_event_organizer E organizer_name organizer_description organizer_image_path wa
           = (Inr organizer_id, w)"
  shows "EventService_create_event E title description short_description start_date location
           image_path organizer_name organizer_description organizer_image_path w0 =
         create_event_insert E title description short_description start_date location
           image_path organizer_id w"
  using assms by (simp add: EventService_create_event_def bind_io_def)

text \<open>
  Claim C3, as amended.  Let the pre-check and the organizer resolution have returned and
  the event insert fail with an \<^verbatim>\<open>IntegrityError\<close> of text \<open>m\<close>.  Then
  \<^verbatim>\<open>create_event\<close> raises \<^verbatim>\<open>EventDuplicateError\<close> (after logging the error)
  exactly when \<open>m\<close> contains both the phrase
  \<^verbatim>\<open>duplicate key value violates unique constraint\<close> and the constraint name
  \<^verbatim>\<open>uq_event_title_start_date\<close>; otherwise the same \<^verbatim>\<open>IntegrityError\<close> goes on
  unchanged.
\<close>

theorem integrity_error_conversion:
  assumes "create_event_precheck E title start_date w0 = (Inr (), wa)"
    and "create_event_organizer E organizer_name organizer_description organizer_image_path wa
           = (Inr organizer_id, w)"
    and "EventRepository_create_event E title description short_description start_date
           location image_path organizer_id w = (Inl (IntegrityError m), w1)"
  shows "EventService_create_event E title description short_description start_date location
           image_path organizer_name organizer_description organizer_image_path w0 =
         (if py_in ''duplicate key value violates unique constraint'' m
             \<and> py_in ''uq_event_title_start_date'' m
          then (Inl (EventDuplicateError (duplicate_message title start_date)),
                w1\<lparr>log_records := log_records w1 @
                     [(''ERROR'', ''Integrity error creating event: '' @ m)]\<rparr>)
          else (Inl (IntegrityError m), w1))"
  unfolding service_reaches_insert[OF assms(1,2)]
  by (simp add: create_event_insert_def try_except_def assms(3) on_integrity_error_def
        duplicate_message_def io_defs)

lemma unique_violation_is_duplicate:
  \<open>py_in ''duplicate key value violates unique constraint''
     (''duplicate key value violates unique constraint "uq_event_title_start_date"'')
   \<and> py_in ''uq_event_title_start_date''
     (''duplicate key value violates unique constraint "uq_event_title_start_date"'')\<close>
  by simp

text \<open>
  The scan is refused, so the pre-check does not see that Demo is stored already; the
  insert then violates the constraint \<^verbatim>\<open>uq_event_title_start_date\<close> of the schema
  and the error is converted.
\<close>

theorem integrity_error_conversion_witness:
  \<open>\<exists>wa w w1.
     create_event_precheck (failing_env 0 (Operational ''connection lost''))
        ''Demo'' new_year_10am one_event_world = (Inr (), wa) \<and>
     create_event_organizer (failing_env 0 (Operational ''connection lost'')) None None None wa
        = (Inr None, w) \<and>
     EventRepository_create_event (failing_env 0 (Operational ''connection lost''))
        ''Demo'' ''Text'' ''Short'' new_year_10am ''Hall C'' None None w =
        (Inl (IntegrityError
           ''duplicate key value violates unique constraint "uq_event_title_start_date"''), w1) \<and>
     fst (EventService_create_event (failing_env 0 (Operational ''connection lost''))
        ''Demo'' ''Text'' ''Short'' new_year_10am ''Hall C'' None None None None
        one_event_world) = Inl (EventDuplicateError (duplicate_message ''Demo'' new_year_10am))\<close>
proof -
  let ?E = "failing_env 0 (Operational ''connection lost'')"
  obtain wa where pre: "create_event_precheck ?E ''Demo'' new_year_10am one_event_world = (Inr (), wa)"
    and twa: "tables wa = tables one_event_world" "trace wa = [Select ''event'']"
    by (simp add: precheck_refused fixture_defs)
  have org: "create_event_organizer ?E None None None wa = (Inr None, wa)"
    by (simp add: create_event_organizer_def truthy_def return_io_def)
  have \<open>\<exists>w1. EventRepository_create_event ?E
        ''Demo'' ''Text'' ''Short'' new_year_10am ''Hall C'' None None wa =
        (Inl (IntegrityError
           ''duplicate key value violates unique constraint "uq_event_title_start_date"''), w1)\<close>
    by (simp add: EventRepository_create_event_def insert_event_def unique_violation_def twa
          io_defs fixture_defs)
  then obtain w1 where ins: \<open>EventRepository_create_event ?E
        ''Demo'' ''Text'' ''Short'' new_year_10am ''Hall C'' None None wa =
        (Inl (IntegrityError
           ''duplicate key value violates unique constraint "uq_event_title_start_date"''), w1)\<close>
    by blast
  from integrity_error_conversion[OF pre org ins] unique_violation_is_duplicate
  have "fst (EventService_create_event ?E
        ''Demo'' ''Text'' ''Short'' new_year_10am ''Hall C'' None None None None
        one_event_world) = Inl (EventDuplicateError (duplicate_message ''Demo'' new_year_10am))"
    by simp
  with pre org ins show ?thesis by blast
qed

text \<open>
  The claim as stated fails here.  The insert is refused with the text a server with
  German messages gives for the violated constraint: it names
  \<^verbatim>\<open>uq_event_title_start_date\<close> and lacks the English phrase, and the
  \<^verbatim>\<open>IntegrityError\<close> goes on unconverted.
\<close>

theorem integrity_error_named_constraint_counterexample:
  \<open>py_in ''uq_event_title_start_date''
      ''doppelter Schluesselwert verletzt Unique-Constraint "uq_event_title_start_date"'' \<and>
   fst (EventService_create_event
        (failing_env 1 (Integrity
           ''doppelter Schluesselwert verletzt Unique-Constraint "uq_event_title_start_date"''))
        ''Other'' ''Text'' ''Short'' new_year_10am ''Hall C'' None None None None
        one_event_world) =
     Inl (IntegrityError
           ''doppelter Schluesselwert verletzt Unique-Constraint "uq_event_title_start_date"'')\<close>
  by (simp add: EventService_create_event_def create_event_precheck_def
        EventRepository_get_all_events_def scan_events_eq summary_of_def same_minute_def
        create_event_organizer_def create_event_insert_def on_integrity_error_def
        EventRepository_create_event_def insert_event_def truthy_def io_defs fixture_defs)

section \<open>The organizer of a new event\<close>

lemma precheck_tables:
  assumes "create_event_precheck E title sd w = (r, w1)"
  shows "tables w1 = tables w \<and> uuids_drawn w1 = uuids_drawn w \<and> clock_reads w1 = clock_reads w"
proof (cases "fault_at E (length (trace w))")
  case None
  from assms show ?thesis unfolding precheck_scanned[OF None] by auto
next
  case (Some e)
  from assms show ?thesis unfolding precheck_refused[OF Some] by auto
qed

lemma repo_create_event_Inr:
  assumes "EventRepository_create_event E t d s sd l p oid w = (Inr i, w')"
  shows "i = uuid_at E (uuids_drawn w) \<and>
    tables w' = (tables w)\<lparr>
      event := event (tables w) @
        [\<lparr>ev_id = i, ev_title = t, ev_description = d, ev_short_description = s,
          ev_start_date = store_timestamp E sd, ev_location = l, ev_image_path = p,
          ev_created_at = now_at E (clock_reads w),
          ev_updated_at = now_at E (Suc (clock_reads w))\<rparr>],
      event_organizer :=
        (case oid of None \<Rightarrow> event_organizer (tables w)
         | Some k \<Rightarrow> event_organizer (tables w) @ [\<lparr>eo_event_id = i, eo_organizer_id = k\<rparr>])\<rparr>"
proof (cases oid)
  case None
  show ?thesis
    using assms unfolding EventRepository_create_event_def None
    apply (elim bind_io_InrE session_begin_InrE)
    apply (clarsimp simp: bind_io_Inr uuid4_eq datetime_now_eq insert_into_Inr return_io_eq
        insert_event_def split: if_splits)
    done
next
  case (Some k)
  show ?thesis
    using assms unfolding EventRepository_create_event_def Some
    apply (elim bind_io_InrE session_begin_InrE)
    apply (clarsimp simp: bind_io_Inr uuid4_eq datetime_now_eq insert_into_Inr return_io_eq
        insert_event_def insert_event_organizer_def split: if_splits)
    done
qed

lemma insert_step_Inr:
  assumes "create_event_insert E t d s sd l p oid w = (Inr i, w')"
  shows "EventRepository_create_event E t d s sd l p oid w = (Inr i, w')"
  using assms
  by (auto simp: create_event_insert_def try_except_def on_integrity_error_def io_defs
        split: prod.splits sum.splits exn.splits if_splits)

lemma organizer_step_existing:
  assumes "truthy n"
    and "find (\<lambda>org. Some (org_name org) = n) (organizer (tables w)) = Some x"
    and "create_event_organizer E n d p w = (Inr oid, w')"
  shows "oid = Some (org_id x) \<and>
    tables w' = (tables w)\<lparr>organizer :=
      (if truthy d \<or> truthy p
       then filter (\<lambda>r. org_id r \<noteq> org_id x) (organizer (tables w)) @
            map (\<lambda>r. r\<lparr>org_updated_at := now_at E (clock_reads w),
                       org_description := (case d of None \<Rightarrow> org_description r | Some v \<Rightarrow> Some v),
                       org_image_path := (case p of None \<Rightarrow> org_image_path r | Some v \<Rightarrow> Some v)\<rparr>)
              (filter (\<lambda>r. org_id r = org_id x) (organizer (tables w)))
       else organizer (tables w))\<rparr>"
  using assms
  by (auto simp: create_event_organizer_def OrganizerRepository_get_all_organizers_def
        OrganizerRepository_update_organizer_def io_defs Let_def
        split: if_splits option.splits sum.splits prod.splits)

lemma organizer_step_not_given:
  assumes "\<not> truthy n"
  shows "create_event_organizer E n d p w = (Inr None, w)"
  using assms by (simp add: create_event_organizer_def return_io_def)

lemma length_filter_split:
  "length (filter P (filter Q xs)) + length (filter P (filter (\<lambda>x. \<not> Q x) xs)) =
     length (filter P xs)"
  by (induction xs) auto

lemma length_filter_map_keep:
  assumes "\<And>x. P (f x) = P x"
  shows "length (filter P (map f xs)) = length (filter P xs)"
  using assms by (induction xs) auto

lemma length_rewritten_rows:
  "length (filter (\<lambda>x. \<not> Q x) xs @ map f (filter Q xs)) = length xs"
  using sum_length_filter_compl[of Q xs] by simp

lemma count_rewritten_rows:
  assumes "\<And>x. P (f x) = P x"
  shows "length (filter P (filter (\<lambda>x. \<not> Q x) xs @ map f (filter Q xs))) =
           length (filter P xs)"
  using length_filter_split[of P Q xs] length_filter_map_keep[of P f "filter Q xs", OF assms]
  by simp

lemma organizer_step_new:
  assumes "truthy n"
    and "find (\<lambda>org. Some (org_name org) = n) (organizer (tables w)) = None"
    and "create_event_organizer E n d p w = (Inr oid, w')"
  shows "oid = Some (uuid_at E (uuids_drawn w)) \<and>
    tables w' = (tables w)\<lparr>organizer := organizer (tables w) @
      [\<lparr>org_id = uuid_at E (uuids_drawn w), org_name = the n, org_description = d,
        org_image_path = p, org_created_at = now_at E (clock_reads w),
        org_updated_at = now_at E (Suc (clock_reads w))\<rparr>]\<rparr>"
  using assms
  by (auto simp: create_event_organizer_def OrganizerRepository_get_all_organizers_def
        OrganizerRepository_create_organizer_def insert_organizer_def io_defs Let_def
        split: if_splits option.splits sum.splits prod.splits)

lemma service_create_event_Inr:
  assumes "EventService_create_event E t d s sd l p n nd np w = (Inr i, w')"
  obtains w1 oid w2 where "create_event_precheck E t sd w = (Inr (), w1)"
    and "create_event_organizer E n nd np w1 = (Inr oid, w2)"
    and "EventRepository_create_event E t d s sd l p oid w2 = (Inr i, w')"
proof -
  from assms obtain u w1 oid w2 where
    a: "create_event_precheck E t sd w = (Inr u, w1)" and
    b: "create_event_organizer E n nd np w1 = (Inr oid, w2)" and
    c: "create_event_insert E t d s sd l p oid w2 = (Inr i, w')"
    unfolding EventService_create_event_def by (auto simp: bind_io_Inr)
  from that[OF _ b insert_step_Inr[OF c]] a show ?thesis by simp
qed

lemma create_event_organizer_rows:
  assumes "name \<noteq> []"
    and "EventService_create_event E title description short_description start_date location
           image_path (Some name) organizer_description organizer_image_path w = (Inr event_id, w')"
  shows "case find (\<lambda>org. org_name org = name) (organizer (tables w)) of
       Some existing \<Rightarrow>
         organizer (tables w') =
           (if truthy organizer_description \<or> truthy organizer_image_path
            then filter (\<lambda>r. org_id r \<noteq> org_id existing) (organizer (tables w)) @
                 map (\<lambda>r. r\<lparr>org_updated_at := now_at E (clock_reads w),
                            org_description := (case organizer_description of
                                None \<Rightarrow> org_description r | Some v \<Rightarrow> Some v),
                            org_image_path := (case organizer_image_path of
                                None \<Rightarrow> org_image_path r | Some v \<Rightarrow> Some v)\<rparr>)
                   (filter (\<lambda>r. org_id r = org_id existing) (organizer (tables w)))
            else organizer (tables w)) \<and>
         length (organizer (tables w')) = length (organizer (tables w)) \<and>
         event_organizer (tables w') = event_organizer (tables w)
           @ [\<lparr>eo_event_id = event_id, eo_organizer_id = org_id existing\<rparr>]
     | None \<Rightarrow>
         \<exists>row. organizer (tables w') = organizer (tables w) @ [row] \<and>
           org_name row = name \<and> org_description row = organizer_description \<and>
           org_image_path row = organizer_image_path \<and>
           event_organizer (tables w') = event_organizer (tables w)
             @ [\<lparr>eo_event_id = event_id, eo_organizer_id = org_id row\<rparr>]"
proof -
  from assms(2) obtain w1 oid w2 where
    pre: "create_event_precheck E title start_date w = (Inr (), w1)" and
    org: "create_event_organizer E (Some name) organizer_description organizer_image_path w1
            = (Inr oid, w2)" and
    ins: "EventRepository_create_event E title description short_description start_date location
            image_path oid w2 = (Inr event_id, w')"
    by (rule service_create_event_Inr)
  from precheck_tables[OF pre] have w1: "tables w1 = tables w" "clock_reads w1 = clock_reads w"
    by simp_all
  have tr: "truthy (Some name)" using assms(1) by (simp add: truthy_def)
  note ins' = repo_create_event_Inr[OF ins]
  show ?thesis
  proof (cases "find (\<lambda>org. org_name org = name) (organizer (tables w))")
    case None
    then have "find (\<lambda>org. Some (org_name org) = Some name) (organizer (tables w1)) = None"
      by (simp add: w1)
    from organizer_step_new[OF tr this org] ins' show ?thesis
      by (simp add: None w1)
  next
    case (Some x)
    then have "find (\<lambda>org. Some (org_name org) = Some name) (organizer (tables w1)) = Some x"
      by (simp add: w1)
    from organizer_step_existing[OF tr this org] ins'
    have o: "organizer (tables w') =
           (if truthy organizer_description \<or> truthy organizer_image_path
            then filter (\<lambda>r. org_id r \<noteq> org_id x) (organizer (tables w)) @
                 map (\<lambda>r. r\<lparr>org_updated_at := now_at E (clock_reads w),
                            org_description := (case organizer_description of
                                None \<Rightarrow> org_description r | Some v \<Rightarrow> Some v),
                            org_image_path := (case organizer_image_path of
                                None \<Rightarrow> org_image_path r | Some v \<Rightarrow> Some v)\<rparr>)
                   (filter (\<lambda>r. org_id r = org_id x) (organizer (tables w)))
            else organizer (tables w))"
      and l: "event_organizer (tables w') = event_organizer (tables w)
           @ [\<lparr>eo_event_id = event_id, eo_organizer_id = org_id x\<rparr>]"
      by (simp_all add: w1)
    have len: "length (organizer (tables w')) = length (organizer (tables w))"
    proof (cases "truthy organizer_description \<or> truthy organizer_image_path")
      case True
      show ?thesis
        by (simp only: o True if_True
              length_rewritten_rows[of "\<lambda>r. org_id r = org_id x", unfolded not_not])
    next
      case False
      show ?thesis by (simp only: o False if_False)
    qed
    from o l len show ?thesis by (simp only: Some option.case)
  qed
qed

lemma find_snoc_new:
  assumes "find P xs = None" and "P y"
  shows "find P (xs @ [y]) = Some y"
  using assms by (induction xs) (auto split: if_splits)

lemma create_event_without_organizer:
  assumes "\<not> truthy organizer_name"
    and "EventService_create_event E title description short_description start_date location
           image_path organizer_name organizer_description organizer_image_path w = (Inr event_id, w')"
  shows "organizer (tables w') = organizer (tables w) \<and>
         event_organizer (tables w') = event_organizer (tables w)"
proof -
  from assms(2) obtain w1 oid w2 where
    pre: "create_event_precheck E title start_date w = (Inr (), w1)" and
    org: "create_event_organizer E organizer_name organizer_description organizer_image_path w1
            = (Inr oid, w2)" and
    ins: "EventRepository_create_event E title description short_description start_date location
            image_path oid w2 = (Inr event_id, w')"
    by (rule service_create_event_Inr)
  from org organizer_step_not_given[OF assms(1)] have "oid = None" "w2 = w1" by simp_all
  with repo_create_event_Inr[OF ins] precheck_tables[OF pre] show ?thesis by simp
qed

text \<open>
  Claim C7, as amended.  Let \<^verbatim>\<open>create_event\<close>, given a non-empty organizer name,
  return.  If a stored organizer has exactly that name, the first such organizer in the
  order the store returns the rows is the one linked to the new event, and the organizer
  table gets no new row: it is as before, or, when a non-empty description or image path
  came with the call, the rows of that organizer's id are rewritten with the supplied
  values (a value of \<^verbatim>\<open>None\<close> leaves the column) and the clock reading of the call.
  If no stored organizer has the name, exactly one row is appended, with the name,
  description and image path of the call, and it is the one linked.  So when no organizer
  has the name at first and a second creation with the same name returns, one organizer
  row has the name, the table has grown by one row in all, and both events are linked to
  that organizer.  An organizer name that is \<^verbatim>\<open>None\<close> or empty counts as not given:
  the organizer table and the links stay as they are.
\<close>

theorem organizer_reused_or_created:
  assumes "name \<noteq> []"
    and "EventService_create_event E title description short_description start_date location
           image_path (Some name) organizer_description organizer_image_path w = (Inr event_id, w')"
  shows "(case find (\<lambda>org. org_name org = name) (organizer (tables w)) of
       Some existing \<Rightarrow>
         organizer (tables w') =
           (if truthy organizer_description \<or> truthy organizer_image_path
            then filter (\<lambda>r. org_id r \<noteq> org_id existing) (organizer (tables w)) @
                 map (\<lambda>r. r\<lparr>org_updated_at := now_at E (clock_reads w),
                            org_description := (case organizer_description of
                                None \<Rightarrow> org_description r | Some v \<Rightarrow> Some v),
                            org_image_path := (case organizer_image_path of
                                None \<Rightarrow> org_image_path r | Some v \<Rightarrow> Some v)\<rparr>)
                   (filter (\<lambda>r. org_id r = org_id existing) (organizer (tables w)))
            else organizer (tables w)) \<and>
         length (organizer (tables w')) = length (organizer (tables w)) \<and>
         event_organizer (tables w') = event_organizer (tables w)
           @ [\<lparr>eo_event_id = event_id, eo_organizer_id = org_id existing\<rparr>]
     | None \<Rightarrow>
         \<exists>row. organizer (tables w') = organizer (tables w) @ [row] \<and>
           org_name row = name \<and> org_description row = organizer_description \<and>
           org_image_path row = organizer_image_path \<and>
           event_organizer (tables w') = event_organizer (tables w)
             @ [\<lparr>eo_event_id = event_id, eo_organizer_id = org_id row\<rparr>]) \<and>
    (\<forall>E2 title2 description2 short2 start2 location2 image2 od2 oi2 event_id2 w''.
       find (\<lambda>org. org_name org = name) (organizer (tables w)) = None \<longrightarrow>
       EventService_create_event E2 title2 description2 short2 start2 location2 image2
         (Some name) od2 oi2 w' = (Inr event_id2, w'') \<longrightarrow>
       length (filter (\<lambda>org. org_name org = name) (organizer (tables w''))) = 1 \<and>
       length (organizer (tables w'')) = length (organizer (tables w)) + 1 \<and>
       (\<exists>oid. event_organizer (tables w'') = event_organizer (tables w)
                 @ [\<lparr>eo_event_id = event_id, eo_organizer_id = oid\<rparr>,
                    \<lparr>eo_event_id = event_id2, eo_organizer_id = oid\<rparr>])) \<and>
    (\<forall>E3 title3 description3 short3 start3 location3 image3 on3 od3 oi3 event_id3 w3 w3'.
       \<not> truthy on3 \<longrightarrow>
       EventService_create_event E3 title3 description3 short3 start3 location3 image3
         on3 od3 oi3 w3 = (Inr event_id3, w3') \<longrightarrow>
       organizer (tables w3') = organizer (tables w3) \<and>
       event_organizer (tables w3') = event_organizer (tables w3))"
    (is "?reuse \<and> ?twice \<and> ?absent")
proof (intro conjI)
  show ?reuse
    by (rule create_event_organizer_rows[OF assms])
next
  show ?absent
    using create_event_without_organizer by blast
next
  show ?twice
  proof (intro allI impI)
    fix E2 title2 description2 short2 start2 location2 image2 od2 oi2 event_id2 w''
    assume none: "find (\<lambda>org. org_name org = name) (organizer (tables w)) = None"
      and run2: "EventService_create_event E2 title2 description2 short2 start2 location2 image2
           (Some name) od2 oi2 w' = (Inr event_id2, w'')"
    from create_event_organizer_rows[OF assms] none obtain row where
      o1: "organizer (tables w') = organizer (tables w) @ [row]" and
      n1: "org_name row = name" and
      l1: "event_organizer (tables w') = event_organizer (tables w)
               @ [\<lparr>eo_event_id = event_id, eo_organizer_id = org_id row\<rparr>]"
      by auto
    have f2: "find (\<lambda>org. org_name org = name) (organizer (tables w')) = Some row"
      unfolding o1 using none n1 by (rule find_snoc_new)
    note r2 = create_event_organizer_rows[OF assms(1) run2, unfolded f2 option.case]
    from r2 have
      o2: "organizer (tables w'') =
           (if truthy od2 \<or> truthy oi2
            then filter (\<lambda>r. org_id r \<noteq> org_id row) (organizer (tables w')) @
                 map (\<lambda>r. r\<lparr>org_updated_at := now_at E2 (clock_reads w'),
                            org_description := (case od2 of
                                None \<Rightarrow> org_description r | Some v \<Rightarrow> Some v),
                            org_image_path := (case oi2 of
                                None \<Rightarrow> org_image_path r | Some v \<Rightarrow> Some v)\<rparr>)
                   (filter (\<lambda>r. org_id r = org_id row) (organizer (tables w')))
            else organizer (tables w'))"
      by (rule conjunct1)
    from r2 have
      len2: "length (organizer (tables w'')) = length (organizer (tables w'))" and
      l2: "event_organizer (tables w'') = event_organizer (tables w')
             @ [\<lparr>eo_event_id = event_id2, eo_organizer_id = org_id row\<rparr>]"
      by blast+
    have old: "filter (\<lambda>org. org_name org = name) (organizer (tables w)) = []"
      using none by (auto simp: find_None_iff filter_empty_conv)
    have cnt': "length (filter (\<lambda>org. org_name org = name) (organizer (tables w'))) = 1"
      by (simp add: o1 old n1)
    have c2: "length (filter (\<lambda>org. org_name org = name) (organizer (tables w''))) =
              length (filter (\<lambda>org. org_name org = name) (organizer (tables w')))"
    proof (cases "truthy od2 \<or> truthy oi2")
      case True
      have "length (filter (\<lambda>org. org_name org = name)
              (filter (\<lambda>r. \<not> org_id r = org_id row) (organizer (tables w')) @
                 map (\<lambda>r. r\<lparr>org_updated_at := now_at E2 (clock_reads w'),
                            org_description := (case od2 of
                                None \<Rightarrow> org_description r | Some v \<Rightarrow> Some v),
                            org_image_path := (case oi2 of
                                None \<Rightarrow> org_image_path r | Some v \<Rightarrow> Some v)\<rparr>)
                   (filter (\<lambda>r. org_id r = org_id row) (organizer (tables w'))))) =
            length (filter (\<lambda>org. org_name org = name) (organizer (tables w')))"
        by (rule count_rewritten_rows) simp
      then show ?thesis by (simp only: o2 True if_True)
    next
      case False
      show ?thesis by (simp only: o2 False if_False)
    qed
    have "length (organizer (tables w')) = length (organizer (tables w)) + 1"
      by (simp add: o1)
    moreover have "event_organizer (tables w'') = event_organizer (tables w)
                 @ [\<lparr>eo_event_id = event_id, eo_organizer_id = org_id row\<rparr>,
                    \<lparr>eo_event_id = event_id2, eo_organizer_id = org_id row\<rparr>]"
      by (simp add: l2 l1)
    ultimately show "length (filter (\<lambda>org. org_name org = name) (organizer (tables w''))) = 1 \<and>
       length (organizer (tables w'')) = length (organizer (tables w)) + 1 \<and>
       (\<exists>oid. event_organizer (tables w'') = event_organizer (tables w)
                 @ [\<lparr>eo_event_id = event_id, eo_organizer_id = oid\<rparr>,
                    \<lparr>eo_event_id = event_id2, eo_organizer_id = oid\<rparr>])"
      using c2 len2 cnt' by auto
  qed
qed

lemmas event_service_defs = EventService_create_event_def create_event_precheck_def
  EventRepository_get_all_events_def summary_of_def same_minute_def create_event_organizer_def
  OrganizerRepository_get_all_organizers_def OrganizerRepository_create_organizer_def
  OrganizerRepository_update_organizer_def insert_organizer_def create_event_insert_def
  on_integrity_error_def EventRepository_create_event_def insert_event_def
  insert_event_organizer_def truthy_def

text \<open>
  The scenario of the specification, with a description in the second call: Demo is
  created with the organizer Acme in an empty store, then Other at the same time with Acme
  again and the description Makers.  Acme is created once, found by the second call and
  updated by it, and both events are linked to it.
\<close>

theorem organizer_reused_or_created_witness:
  "\<exists>w1 w2.
     EventService_create_event reliable_env ''Demo'' ''Text'' ''Short'' new_year_10am ''Hall A''
       None (Some ''Acme'') None None empty_world = (Inr 101, w1) \<and>
     organizer (tables w1) =
       [\<lparr>org_id = 100, org_name = ''Acme'', org_description = None, org_image_path = None,
         org_created_at = 0, org_updated_at = 1\<rparr>] \<and>
     EventService_create_event reliable_env ''Other'' ''Text'' ''Short'' new_year_10am ''Hall A''
       None (Some ''Acme'') (Some ''Makers'') None w1 = (Inr 102, w2) \<and>
     organizer (tables w2) =
       [\<lparr>org_id = 100, org_name = ''Acme'', org_description = Some ''Makers'',
         org_image_path = None, org_created_at = 0, org_updated_at = 4\<rparr>] \<and>
     length (filter (\<lambda>org. org_name org = ''Acme'') (organizer (tables w2))) = 1 \<and>
     event_organizer (tables w2) =
        [\<lparr>eo_event_id = 101, eo_organizer_id = 100\<rparr>, \<lparr>eo_event_id = 102, eo_organizer_id = 100\<rparr>]"
proof -
  define w1 where "w1 = snd (EventService_create_event reliable_env ''Demo'' ''Text'' ''Short''
       new_year_10am ''Hall A'' None (Some ''Acme'') None None empty_world)"
  define w2 where "w2 = snd (EventService_create_event reliable_env ''Other'' ''Text'' ''Short''
       new_year_10am ''Hall A'' None (Some ''Acme'') (Some ''Makers'') None w1)"
  have r1: "EventService_create_event reliable_env ''Demo'' ''Text'' ''Short'' new_year_10am
       ''Hall A'' None (Some ''Acme'') None None empty_world = (Inr 101, w1)"
    unfolding w1_def by (simp add: event_service_defs io_defs fixture_defs)
  have r2: "EventService_create_event reliable_env ''Other'' ''Text'' ''Short'' new_year_10am
       ''Hall A'' None (Some ''Acme'') (Some ''Makers'') None w1 = (Inr 102, w2)"
    unfolding w2_def w1_def by (simp add: event_service_defs io_defs fixture_defs)
  have ne: "''Acme'' \<noteq> []" by simp
  have none: "find (\<lambda>org. org_name org = ''Acme'') (organizer (tables empty_world)) = None"
    by (simp add: fixture_defs)
  have e: "organizer (tables empty_world) = []" "event_organizer (tables empty_world) = []"
    by (simp_all add: fixture_defs)
  have o1: "organizer (tables w1) =
       [\<lparr>org_id = 100, org_name = ''Acme'', org_description = None, org_image_path = None,
         org_created_at = 0, org_updated_at = 1\<rparr>]"
    and l1: "event_organizer (tables w1) = [\<lparr>eo_event_id = 101, eo_organizer_id = 100\<rparr>]"
    and c1: "clock_reads w1 = 4"
    unfolding w1_def by (simp_all add: event_service_defs io_defs fixture_defs)
  note first = organizer_reused_or_created[OF ne r1]
  from first none r2 have
    cnt: "length (filter (\<lambda>org. org_name org = ''Acme'') (organizer (tables w2))) = 1"
    by blast
  have tr: "truthy (Some ''Makers'') \<or> truthy None" by (simp add: truthy_def)
  from organizer_reused_or_created[OF ne r2] have
    "organizer (tables w2) =
       [\<lparr>org_id = 100, org_name = ''Acme'', org_description = Some ''Makers'',
         org_image_path = None, org_created_at = 0, org_updated_at = 4\<rparr>] \<and>
     event_organizer (tables w2) =
        [\<lparr>eo_event_id = 101, eo_organizer_id = 100\<rparr>, \<lparr>eo_event_id = 102, eo_organizer_id = 100\<rparr>]"
    using tr by (simp add: o1 l1 c1 reliable_env_def)
  with r1 o1 r2 cnt show ?thesis by blast
qed

text \<open>
  The claim as stated fails for an organizer name that is given and empty: no stored
  organizer has the name, and no organizer row is created.  It fails as well for a
  description that is supplied and empty: Acme is stored and found, and its record is
  not touched.
\<close>

theorem empty_organizer_name_counterexample:
  "find (\<lambda>org. org_name org = []) (organizer (tables empty_world)) = None \<and>
   fst (EventService_create_event reliable_env ''Demo'' ''Text'' ''Short'' new_year_10am
          ''Hall A'' None (Some []) None None empty_world) = Inr 100 \<and>
   organizer (tables (snd (EventService_create_event reliable_env ''Demo'' ''Text'' ''Short''
          new_year_10am ''Hall A'' None (Some []) None None empty_world))) = [] \<and>
   event_organizer (tables (snd (EventService_create_event reliable_env ''Demo'' ''Text''
          ''Short'' new_year_10am ''Hall A'' None (Some []) None None empty_world))) = [] \<and>
   fst (EventService_create_event reliable_env ''Other'' ''Text'' ''Short'' new_year_10am
          ''Hall A'' None (Some ''Acme'') (Some []) None one_event_world) = Inr 100 \<and>
   organizer (tables (snd (EventService_create_event reliable_env ''Other'' ''Text'' ''Short''
          new_year_10am ''Hall A'' None (Some ''Acme'') (Some []) None one_event_world)))
     = organizer (tables one_event_world)"
  by (simp add: event_service_defs io_defs fixture_defs)

section \<open>Storage failures at the endpoints\<close>

lemma store_exn_kind:
  "\<not> is_CoworkingError (store_exn f)" "\<not> is_HTTPException (store_exn f)"
  by (cases f; simp)+

lemma service_create_booking_Inl:
  assumes "CoworkingRepository_create_booking E c day nm ph w = (Inl e, w1)"
  shows "CoworkingService_create_booking E c day nm ph w =
           (Inl (CoworkingError (''Error creating booking: '' @ exn_str e)),
            w1\<lparr>log_records := log_records w1 @
               [(''ERROR'', (case e of IntegrityError _ \<Rightarrow> ''IntegrityError creating booking''
                              | _ \<Rightarrow> ''Error creating booking'') @ '': '' @ exn_str e)]\<rparr>)"
  using assms
  by (cases e)
     (simp_all add: CoworkingService_create_booking_def try_except_def wrap_coworking_error_def
        bind_io_def raise_io_def logger_def)

lemma service_create_booking_raises_CoworkingError:
  assumes "CoworkingService_create_booking E c day nm ph w = (Inl x, w')"
  shows "is_CoworkingError x"
  using assms
  by (auto simp: CoworkingService_create_booking_def try_except_def wrap_coworking_error_def
        io_defs split: prod.splits sum.splits)

lemma router_create_booking_raises_HTTPException:
  assumes "coworking_router_create_booking E c day nm ph w = (Inl x, w')"
  shows "is_HTTPException x"
  using assms
  by (auto simp: coworking_router_create_booking_def io_defs
        split: prod.splits sum.splits if_splits)

lemma router_create_booking_check_refused:
  assumes "fault_at E (length (trace w)) = Some f"
  shows "fst (coworking_router_create_booking E c day nm ph w) =
           Inl (HTTPException 500 ''Failed to create booking due to an internal error'')"
  using assms store_exn_kind[of f]
  by (simp add: coworking_router_create_booking_def CoworkingService_get_coworking_by_id_def
        CoworkingRepository_get_coworking_by_id_def io_defs)

lemma router_create_booking_wrapped:
  assumes "CoworkingService_get_coworking_by_id E c
             (w\<lparr>log_records := log_records w @
                  [(''INFO'', ''create_booking for coworking: '' @ uuid_str c)]\<rparr>)
           = (Inr (space, True), w1)"
    and "CoworkingRepository_create_booking E c day nm ph w1 = (Inl e, w2)"
  shows "fst (coworking_router_create_booking E c day nm ph w) =
           Inl (HTTPException 400 (''Failed to create booking: Error creating booking: ''
                                     @ exn_str e)) \<and>
         tables (snd (coworking_router_create_booking E c day nm ph w)) = tables w2"
  using assms(1) service_create_booking_Inl[OF assms(2)]
  by (simp add: coworking_router_create_booking_def io_defs)

lemma get_coworking_by_id_tables:
  assumes "CoworkingService_get_coworking_by_id E c w = (r, w1)"
  shows "tables w1 = tables w"
  using assms
  by (auto simp: CoworkingService_get_coworking_by_id_def
        CoworkingRepository_get_coworking_by_id_def io_defs Let_def
        split: option.splits sum.splits prod.splits)

lemma insert_step_passes_other_errors:
  assumes "EventRepository_create_event E t d s sd l p oid w = (Inl (OperationalError m), w1)"
  shows "create_event_insert E t d s sd l p oid w = (Inl (OperationalError m), w1)"
  using assms
  by (simp add: create_event_insert_def try_except_def on_integrity_error_def raise_io_def)

lemma event_router_internal_error:
  assumes "EventService_create_event E t d s sd l p n nd np
             (w\<lparr>log_records := log_records w @ [(''INFO'', ''create_event: '' @ t)]\<rparr>)
           = (Inl x, w1)"
    and "\<not> is_EventDuplicateError x"
  shows "fst (event_router_create_event E t d s sd l p n nd np w) =
           Inl (HTTPException 500 ''Failed to create event due to an internal error'')"
  using assms
  by (simp add: event_router_create_event_def io_defs)

text \<open>
  Claim C9, as amended.  In booking creation the service wraps every failure of the
  repository's \<^verbatim>\<open>create_booking\<close> into a \<^verbatim>\<open>CoworkingError\<close> whose message
  embeds the text of the underlying exception, nothing but a \<^verbatim>\<open>CoworkingError\<close>
  leaves the service method, and the endpoint answers such a failure with status 400 and
  a detail that embeds that same text, the tables being as before the request.  Nothing
  but an \<^verbatim>\<open>HTTPException\<close> leaves the booking endpoint; its generic answer, status
  500 without detail of the cause, is what it gives when the existence check, which the
  service does not wrap, is refused by the store.  In event creation the service lets a
  storage failure of the insert that is no integrity error through unwrapped, and the
  endpoint answers any failure that is not the duplicate signal with the generic 500.
\<close>

theorem storage_failure_of_booking_surfaces_as_400:
  assumes "CoworkingService_get_coworking_by_id E c
             (w\<lparr>log_records := log_records w @
                  [(''INFO'', ''create_booking for coworking: '' @ uuid_str c)]\<rparr>)
           = (Inr (space, True), w1)"
    and "CoworkingRepository_create_booking E c day nm ph w1 = (Inl e, w2)"
  shows "fst (CoworkingService_create_booking E c day nm ph w1) =
           Inl (CoworkingError (''Error creating booking: '' @ exn_str e)) \<and>
         fst (coworking_router_create_booking E c day nm ph w) =
           Inl (HTTPException 400 (''Failed to create booking: Error creating booking: ''
                                     @ exn_str e)) \<and>
         tables (snd (coworking_router_create_booking E c day nm ph w)) = tables w \<and>
         (\<forall>c' day' nm' ph' w0 x w'.
            CoworkingService_create_booking E c' day' nm' ph' w0 = (Inl x, w') \<longrightarrow>
            is_CoworkingError x) \<and>
         (\<forall>c' day' nm' ph' w0 x w'.
            coworking_router_create_booking E c' day' nm' ph' w0 = (Inl x, w') \<longrightarrow>
            is_HTTPException x) \<and>
         (\<forall>c' day' nm' ph' w0 f.
            fault_at E (length (trace w0)) = Some f \<longrightarrow>
            fst (coworking_router_create_booking E c' day' nm' ph' w0) =
              Inl (HTTPException 500 ''Failed to create booking due to an internal error'')) \<and>
         (\<forall>t d s sd l p oid w0 m w'.
            EventRepository_create_event E t d s sd l p oid w0 = (Inl (OperationalError m), w') \<longrightarrow>
            create_event_insert E t d s sd l p oid w0 = (Inl (OperationalError m), w')) \<and>
         (\<forall>t d s sd l p n nd np w0 x w'.
            EventService_create_event E t d s sd l p n nd np
              (w0\<lparr>log_records := log_records w0 @ [(''INFO'', ''create_event: '' @ t)]\<rparr>)
              = (Inl x, w') \<longrightarrow>
            \<not> is_EventDuplicateError x \<longrightarrow>
            fst (event_router_create_event E t d s sd l p n nd np w0) =
              Inl (HTTPException 500 ''Failed to create event due to an internal error''))"
proof -
  have a: "fst (CoworkingService_create_booking E c day nm ph w1) =
           Inl (CoworkingError (''Error creating booking: '' @ exn_str e))"
    by (simp add: service_create_booking_Inl[OF assms(2)])
  have "tables w2 = tables w1" by (rule create_booking_Inl[OF assms(2)])
  also have "\<dots> = tables w" using get_coworking_by_id_tables[OF assms(1)] by simp
  finally have b: "tables w2 = tables w" .
  have c2: "fst (coworking_router_create_booking E c day nm ph w) =
           Inl (HTTPException 400 (''Failed to create booking: Error creating booking: ''
                                     @ exn_str e))"
    using router_create_booking_wrapped[OF assms] by (rule conjunct1)
  have c3: "tables (snd (coworking_router_create_booking E c day nm ph w)) = tables w"
    using router_create_booking_wrapped[OF assms] b by simp
  have q1: "\<forall>c' day' nm' ph' w0 x w'.
            CoworkingService_create_booking E c' day' nm' ph' w0 = (Inl x, w') \<longrightarrow>
            is_CoworkingError x"
    using service_create_booking_raises_CoworkingError by blast
  have q2: "\<forall>c' day' nm' ph' w0 x w'.
            coworking_router_create_booking E c' day' nm' ph' w0 = (Inl x, w') \<longrightarrow>
            is_HTTPException x"
    using router_create_booking_raises_HTTPException by blast
  have q3: "\<forall>c' day' nm' ph' w0 f.
            fault_at E (length (trace w0)) = Some f \<longrightarrow>
            fst (coworking_router_create_booking E c' day' nm' ph' w0) =
              Inl (HTTPException 500 ''Failed to create booking due to an internal error'')"
    using router_create_booking_check_refused by blast
  have q4: "\<forall>t d s sd l p oid w0 m w'.
            EventRepository_create_event E t d s sd l p oid w0 = (Inl (OperationalError m), w') \<longrightarrow>
            create_event_insert E t d s sd l p oid w0 = (Inl (OperationalError m), w')"
    using insert_step_passes_other_errors by blast
  have q5: "\<forall>t d s sd l p n nd np w0 x w'.
            EventService_create_event E t d s sd l p n nd np
              (w0\<lparr>log_records := log_records w0 @ [(''INFO'', ''create_event: '' @ t)]\<rparr>)
              = (Inl x, w') \<longrightarrow>
            \<not> is_EventDuplicateError x \<longrightarrow>
            fst (event_router_create_event E t d s sd l p n nd np w0) =
              Inl (HTTPException 500 ''Failed to create event due to an internal error'')"
    using event_router_internal_error by blast
  from a c2 c3 q1 q2 q3 q4 q5 show ?thesis by (intro conjI)
qed

text \<open>
  The space exists and the connection is lost at the occupancy upsert: the endpoint
  answers 400 and hands the text of the storage error to the caller.
\<close>

theorem storage_failure_of_booking_surfaces_as_400_witness:
  "\<exists>space w1 w2.
     CoworkingService_get_coworking_by_id (failing_env 4 (Operational ''connection lost'')) 1
        (one_space_world\<lparr>log_records := log_records one_space_world @
             [(''INFO'', ''create_booking for coworking: '' @ uuid_str 1)]\<rparr>)
        = (Inr (space, True), w1) \<and>
     CoworkingRepository_create_booking (failing_env 4 (Operational ''connection lost''))
        1 5 ''Ann'' ''111'' w1 = (Inl (OperationalError ''connection lost''), w2) \<and>
     fst (coworking_router_create_booking (failing_env 4 (Operational ''connection lost''))
            1 5 ''Ann'' ''111'' one_space_world) =
       Inl (HTTPException 400
              ''Failed to create booking: Error creating booking: connection lost'') \<and>
     tables (snd (coworking_router_create_booking
            (failing_env 4 (Operational ''connection lost'')) 1 5 ''Ann'' ''111''
            one_space_world)) = tables one_space_world"
proof -
  let ?E = "failing_env 4 (Operational ''connection lost'')"
  let ?w = "one_space_world\<lparr>log_records := log_records one_space_world @
             [(''INFO'', ''create_booking for coworking: '' @ uuid_str 1)]\<rparr>"
  define w1 where "w1 = snd (CoworkingService_get_coworking_by_id ?E 1 ?w)"
  define w2 where "w2 = snd (CoworkingRepository_create_booking ?E 1 5 ''Ann'' ''111'' w1)"
  have "\<exists>space. CoworkingService_get_coworking_by_id ?E 1 ?w = (Inr (space, True), w1)"
    unfolding w1_def
    by (simp add: CoworkingService_get_coworking_by_id_def
          CoworkingRepository_get_coworking_by_id_def io_defs fixture_defs)
  then obtain space where
    found: "CoworkingService_get_coworking_by_id ?E 1 ?w = (Inr (space, True), w1)" by blast
  have fail: "CoworkingRepository_create_booking ?E 1 5 ''Ann'' ''111'' w1 =
                (Inl (OperationalError ''connection lost''), w2)"
    unfolding w2_def w1_def
    by (simp add: CoworkingService_get_coworking_by_id_def
          CoworkingRepository_get_coworking_by_id_def CoworkingRepository_create_booking_def
          update_occupancy_def insert_coworking_booking_def insert_coworking_occupancy_def
          occupancy_percentage_small io_defs fixture_defs)
  from storage_failure_of_booking_surfaces_as_400[OF found fail]
  have "fst (coworking_router_create_booking ?E 1 5 ''Ann'' ''111'' one_space_world) =
       Inl (HTTPException 400
              ''Failed to create booking: Error creating booking: connection lost'') \<and>
     tables (snd (coworking_router_create_booking ?E 1 5 ''Ann'' ''111'' one_space_world))
       = tables one_space_world"
    by simp
  with found fail show ?thesis by blast
qed

text \<open>
  The claim as stated fails here.  The store refuses the booking insert with an
  operational error: the endpoint's answer is not a 5xx but 400, and its detail carries
  the text of the storage exception.
\<close>

theorem storage_failure_leaks_as_400_counterexample:
  "fst (coworking_router_create_booking (failing_env 1 (Operational ''connection lost''))
          1 5 ''Ann'' ''111'' one_space_world) =
     Inl (HTTPException 400
            ''Failed to create booking: Error creating booking: connection lost'')"
  by (simp add: coworking_router_create_booking_def CoworkingService_get_coworking_by_id_def
        CoworkingRepository_get_coworking_by_id_def CoworkingService_create_booking_def
        wrap_coworking_error_def CoworkingRepository_create_booking_def
        insert_coworking_booking_def io_defs fixture_defs)


end
